theory Spec2Isabelle
  imports Main "HOL-Library.Signed_Division" "HOL-Library.Monad_Syntax" "HOL-Library.Multiset"
begin

section \<open>Entities, grids and the program state\<close>

text \<open>
  The Go program keeps a grid of \<^verbatim>\<open>Entity\<close> interface values. A cell is \<^verbatim>\<open>nil\<close>, a
  \<^verbatim>\<open>*Fish\<close> or a \<^verbatim>\<open>*Shark\<close>; the dynamic type travels with the pointer. Fish and Shark
  objects live on the heap and are mutated through those pointers, so the model keeps
  two typed heaps (lists, a pointer is an index, allocation appends).

  Go's \<^verbatim>\<open>int\<close> is taken as 64 bits wide. The counters \<^verbatim>\<open>BreedCounter\<close> and \<^verbatim>\<open>Energy\<close> are
  incremented and decremented without any bound of their own, so their arithmetic wraps
  (\<open>int64\<close>). Coordinates are bounded by the side of an allocated grid, so the sums of
  three coordinates in the neighbour computation stay far below \<open>2^63\<close> and are plain
  integers.

  A runtime panic (index out of range, integer division by zero, a negative length given
  to \<^verbatim>\<open>make\<close>) and the runtime's deadlock abort are the value \<open>None\<close>.
\<close>

datatype cell = NilEntity | FishPtr nat | SharkPtr nat

record Fish =
  BreedCounter :: int

record Shark =
  BreedCounter :: int
  Energy :: int

record Grid =
  Size :: int
  Cells :: "cell list list"

record Move =
  X :: int
  Y :: int
  Entity :: cell

record MoveChan =
  capacity :: nat
  queue :: "Move list"

text \<open>
  \<open>current\<close> is the receiver \<^verbatim>\<open>g\<close>, \<open>newGrid\<close> and \<open>moveChannel\<close> are the locals of the step
  functions, \<open>drawn\<close> counts the numbers taken from the random source so far.
\<close>

record world =
  current :: Grid
  newGrid :: Grid
  fishHeap :: "Fish list"
  sharkHeap :: "Shark list"
  moveChannel :: MoveChan
  drawn :: nat

definition int64 :: "int \<Rightarrow> int" where
  "int64 v = (v + 2 ^ 63) mod 2 ^ 64 - 2 ^ 63"

definition goMod :: "int \<Rightarrow> int \<Rightarrow> int option" where
  "goMod a b = (if b = 0 then None else Some (a smod b))"

definition goDiv :: "int \<Rightarrow> int \<Rightarrow> int option" where
  "goDiv a b = (if b = 0 then None else Some (a sdiv b))"

definition index2 :: "cell list list \<Rightarrow> int \<Rightarrow> int \<Rightarrow> cell option" where
  "index2 cs i j =
     (if 0 \<le> i \<and> i < int (length cs) \<and> 0 \<le> j \<and> j < int (length (cs ! nat i))
      then Some (cs ! nat i ! nat j) else None)"

definition assign2 :: "cell list list \<Rightarrow> int \<Rightarrow> int \<Rightarrow> cell \<Rightarrow> cell list list option" where
  "assign2 cs i j c =
     (if 0 \<le> i \<and> i < int (length cs) \<and> 0 \<le> j \<and> j < int (length (cs ! nat i))
      then Some (cs[nat i := (cs ! nat i)[nat j := c]]) else None)"

definition NewGrid :: "int \<Rightarrow> Grid option" where
  "NewGrid sz =
     (if sz < 0 then None
      else Some \<lparr>Size = sz, Cells = replicate (nat sz) (replicate (nat sz) NilEntity)\<rparr>)"

definition readCur :: "world \<Rightarrow> int \<Rightarrow> int \<Rightarrow> cell option" where
  "readCur w x y = index2 (Cells (current w)) x y"

definition writeNew :: "world \<Rightarrow> int \<Rightarrow> int \<Rightarrow> cell \<Rightarrow> world option" where
  "writeNew w x y c = do {
     cs \<leftarrow> assign2 (Cells (newGrid w)) x y c;
     Some (w\<lparr>newGrid := (newGrid w)\<lparr>Cells := cs\<rparr>\<rparr>) }"

definition getFish :: "world \<Rightarrow> nat \<Rightarrow> Fish option" where
  "getFish w p = (if p < length (fishHeap w) then Some (fishHeap w ! p) else None)"

definition putFish :: "world \<Rightarrow> nat \<Rightarrow> Fish \<Rightarrow> world" where
  "putFish w p f = w\<lparr>fishHeap := (fishHeap w)[p := f]\<rparr>"

definition allocFish :: "world \<Rightarrow> Fish \<Rightarrow> world \<times> nat" where
  "allocFish w f = (w\<lparr>fishHeap := fishHeap w @ [f]\<rparr>, length (fishHeap w))"

definition getShark :: "world \<Rightarrow> nat \<Rightarrow> Shark option" where
  "getShark w p = (if p < length (sharkHeap w) then Some (sharkHeap w ! p) else None)"

definition putShark :: "world \<Rightarrow> nat \<Rightarrow> Shark \<Rightarrow> world" where
  "putShark w p s = w\<lparr>sharkHeap := (sharkHeap w)[p := s]\<rparr>"

definition allocShark :: "world \<Rightarrow> Shark \<Rightarrow> world \<times> nat" where
  "allocShark w s = (w\<lparr>sharkHeap := sharkHeap w @ [s]\<rparr>, length (sharkHeap w))"

fun for_each :: "'i list \<Rightarrow> ('i \<Rightarrow> 's \<Rightarrow> 's option) \<Rightarrow> 's \<Rightarrow> 's option" where
  "for_each [] body s = Some s"
| "for_each (i # rest) body s = (case body i s of None \<Rightarrow> None | Some s' \<Rightarrow> for_each rest body s')"

section \<open>The random source\<close>

text \<open>
  \<^verbatim>\<open>rand.Shuffle(n, swap)\<close> is the Fisher-Yates shuffle: for \<open>i\<close> from \<open>n - 1\<close> down to \<open>1\<close> it
  draws \<open>j\<close> in \<open>[0, i]\<close> and swaps positions \<open>i\<close> and \<open>j\<close>. The generator is a parameter
  \<open>rs\<close>, the stream of raw numbers; the \<open>k\<close>-th draw below a bound is \<open>rs k mod bound\<close>.
\<close>

definition swapAt :: "nat \<Rightarrow> nat \<Rightarrow> 'a list \<Rightarrow> 'a list" where
  "swapAt i j xs = xs[i := xs ! j, j := xs ! i]"

fun shuffleLoop :: "(nat \<Rightarrow> nat) \<Rightarrow> nat \<Rightarrow> nat \<Rightarrow> 'a list \<Rightarrow> 'a list" where
  "shuffleLoop rs k 0 xs = xs"
| "shuffleLoop rs k (Suc i) xs =
     shuffleLoop rs (Suc k) i (swapAt (Suc i) (rs k mod Suc (Suc i)) xs)"

definition Shuffle :: "(nat \<Rightarrow> nat) \<Rightarrow> nat \<Rightarrow> 'a list \<Rightarrow> 'a list" where
  "Shuffle rs k xs = shuffleLoop rs k (length xs - 1) xs"

section \<open>Neighbour lookup (movement.go)\<close>

definition directions :: "(int \<times> int) list" where
  "directions = [(-1, 0), (1, 0), (0, -1), (0, 1)]"

text \<open>The coordinates one loop iteration of both scans computes and the cell it reads.\<close>

definition neighbour :: "Grid \<Rightarrow> int \<Rightarrow> int \<Rightarrow> int \<times> int \<Rightarrow> (int \<times> int) option" where
  "neighbour g x y dir = do {
     newX \<leftarrow> goMod (x + fst dir + Size g) (Size g);
     newY \<leftarrow> goMod (y + snd dir + Size g) (Size g);
     Some (newX, newY) }"

definition neighbourCell :: "Grid \<Rightarrow> int \<Rightarrow> int \<Rightarrow> int \<times> int \<Rightarrow> ((int \<times> int) \<times> cell) option" where
  "neighbourCell g x y dir = do {
     (newX, newY) \<leftarrow> neighbour g x y dir;
     c \<leftarrow> index2 (Cells g) newX newY;
     Some ((newX, newY), c) }"

fun isFish :: "cell \<Rightarrow> bool" where
  "isFish (FishPtr p) = True"
| "isFish c = False"

fun isShark :: "cell \<Rightarrow> bool" where
  "isShark (SharkPtr p) = True"
| "isShark c = False"

fun scanEmpty :: "Grid \<Rightarrow> int \<Rightarrow> int \<Rightarrow> (int \<times> int) list \<Rightarrow> (int \<times> int) option" where
  "scanEmpty g x y [] = Some (-1, -1)"
| "scanEmpty g x y (dir # dirs) =
     (case neighbourCell g x y dir of
        None \<Rightarrow> None
      | Some (pos, c) \<Rightarrow> if c = NilEntity then Some pos else scanEmpty g x y dirs)"

fun scanFish :: "Grid \<Rightarrow> int \<Rightarrow> int \<Rightarrow> (int \<times> int) list \<Rightarrow> (int \<times> int) option" where
  "scanFish g x y [] = Some (-1, -1)"
| "scanFish g x y (dir # dirs) =
     (case neighbourCell g x y dir of
        None \<Rightarrow> None
      | Some (pos, c) \<Rightarrow> if isFish c then Some pos else scanFish g x y dirs)"

definition findEmptyAdjacent :: "(nat \<Rightarrow> nat) \<Rightarrow> world \<Rightarrow> int \<Rightarrow> int \<Rightarrow> (world \<times> int \<times> int) option" where
  "findEmptyAdjacent rs w x y = do {
     let dirs = Shuffle rs (drawn w) directions;
     let w' = w\<lparr>drawn := drawn w + (length directions - 1)\<rparr>;
     pos \<leftarrow> scanEmpty (current w) x y dirs;
     Some (w', pos) }"

definition findNearestFish :: "(nat \<Rightarrow> nat) \<Rightarrow> world \<Rightarrow> int \<Rightarrow> int \<Rightarrow> (world \<times> int \<times> int) option" where
  "findNearestFish rs w x y = do {
     let dirs = Shuffle rs (drawn w) directions;
     let w' = w\<lparr>drawn := drawn w + (length directions - 1)\<rparr>;
     pos \<leftarrow> scanFish (current w) x y dirs;
     Some (w', pos) }"

section \<open>Row-partition step (main/movement.go)\<close>

definition processFish :: "(nat \<Rightarrow> nat) \<Rightarrow> world \<Rightarrow> nat \<Rightarrow> int \<Rightarrow> int \<Rightarrow> int \<Rightarrow> world option" where
  "processFish rs w fish x y fishBreed = do {
     (w1, newX, newY) \<leftarrow> findEmptyAdjacent rs w x y;
     w2 \<leftarrow> (if newX \<noteq> -1 \<and> newY \<noteq> -1 then writeNew w1 newX newY (FishPtr fish)
            else writeNew w1 x y (FishPtr fish));
     f \<leftarrow> getFish w2 fish;
     let b = int64 (Fish.BreedCounter f + 1);
     let w3 = putFish w2 fish (f\<lparr>Fish.BreedCounter := b\<rparr>);
     if b \<ge> fishBreed then do {
       let (w4, baby) = allocFish w3 \<lparr>Fish.BreedCounter = 0\<rparr>;
       w5 \<leftarrow> writeNew w4 x y (FishPtr baby);
       f' \<leftarrow> getFish w5 fish;
       Some (putFish w5 fish (f'\<lparr>Fish.BreedCounter := 0\<rparr>))
     } else Some w3 }"

definition processShark ::
  "(nat \<Rightarrow> nat) \<Rightarrow> world \<Rightarrow> nat \<Rightarrow> int \<Rightarrow> int \<Rightarrow> int \<Rightarrow> int \<Rightarrow> world option" where
  "processShark rs w shark x y sharkBreed starveEnergy = do {
     s \<leftarrow> getShark w shark;
     let e = int64 (Energy s - 1);
     let w1 = putShark w shark (s\<lparr>Energy := e\<rparr>);
     if e \<le> 0 then Some w1
     else do {
       (w2, newX, newY) \<leftarrow> findNearestFish rs w1 x y;
       w3 \<leftarrow> (if newX \<noteq> -1 \<and> newY \<noteq> -1 then do {
               w' \<leftarrow> writeNew w2 newX newY (SharkPtr shark);
               s' \<leftarrow> getShark w' shark;
               Some (putShark w' shark (s'\<lparr>Energy := starveEnergy\<rparr>))
             } else do {
               (w', newX, newY) \<leftarrow> findEmptyAdjacent rs w2 x y;
               if newX \<noteq> -1 \<and> newY \<noteq> -1 then writeNew w' newX newY (SharkPtr shark)
               else writeNew w' x y (SharkPtr shark)
             });
       s3 \<leftarrow> getShark w3 shark;
       let b = int64 (Shark.BreedCounter s3 + 1);
       let w4 = putShark w3 shark (s3\<lparr>Shark.BreedCounter := b\<rparr>);
       if b \<ge> sharkBreed then do {
         let (w5, baby) = allocShark w4 \<lparr>Shark.BreedCounter = 0, Energy = starveEnergy\<rparr>;
         w6 \<leftarrow> writeNew w5 x y (SharkPtr baby);
         s6 \<leftarrow> getShark w6 shark;
         Some (putShark w6 shark (s6\<lparr>Shark.BreedCounter := 0\<rparr>))
       } else Some w4 } }"

definition processCell ::
  "(nat \<Rightarrow> nat) \<Rightarrow> int \<Rightarrow> int \<Rightarrow> int \<Rightarrow> int \<Rightarrow> int \<Rightarrow> world \<Rightarrow> world option" where
  "processCell rs fishBreed sharkBreed starveEnergy x y w = do {
     c \<leftarrow> readCur w x y;
     case c of
       FishPtr fish \<Rightarrow> processFish rs w fish x y fishBreed
     | SharkPtr shark \<Rightarrow> processShark rs w shark x y sharkBreed starveEnergy
     | NilEntity \<Rightarrow> Some w }"

definition processSection ::
  "(nat \<Rightarrow> nat) \<Rightarrow> world \<Rightarrow> int \<Rightarrow> int \<Rightarrow> int \<Rightarrow> int \<Rightarrow> int \<Rightarrow> world option" where
  "processSection rs w startRow endRow fishBreed sharkBreed starveEnergy =
     for_each [startRow..endRow - 1]
       (\<lambda>x w. for_each [0..Size (current w) - 1]
                 (processCell rs fishBreed sharkBreed starveEnergy x) w) w"

text \<open>
  The row range of worker \<open>i\<close>, as the launch loop of \<^verbatim>\<open>MoveEntitiesWithThreads\<close> computes
  it from \<open>rowsPerThread = g.Size / threads\<close>.
\<close>

definition startRow :: "int \<Rightarrow> int \<Rightarrow> int \<Rightarrow> int" where
  "startRow sz threads i = i * (sz sdiv threads)"

definition endRow :: "int \<Rightarrow> int \<Rightarrow> int \<Rightarrow> int" where
  "endRow sz threads i =
     (if i = threads - 1 then sz else startRow sz threads i + sz sdiv threads)"

text \<open>
  The workers are goroutines; the model runs them one after the other in launch order,
  which is one of the schedules of the program (and the only one when \<open>threads = 1\<close>).
  \<open>dispatchThreads\<close> is the step up to and including \<^verbatim>\<open>wg.Wait()\<close>;
  \<open>MoveEntitiesWithThreads\<close> adds the final assignment \<^verbatim>\<open>g.Cells = newGrid.Cells\<close>.
\<close>

definition dispatchThreads ::
  "(nat \<Rightarrow> nat) \<Rightarrow> world \<Rightarrow> int \<Rightarrow> int \<Rightarrow> int \<Rightarrow> int \<Rightarrow> world option" where
  "dispatchThreads rs w fishBreed sharkBreed starveEnergy threads = do {
     ng \<leftarrow> NewGrid (Size (current w));
     _ \<leftarrow> goDiv (Size (current w)) threads;
     for_each [0..threads - 1]
       (\<lambda>i w. processSection rs w (startRow (Size (current w)) threads i)
                 (endRow (Size (current w)) threads i) fishBreed sharkBreed starveEnergy)
       (w\<lparr>newGrid := ng\<rparr>) }"

definition swapGrids :: "world \<Rightarrow> world" where
  "swapGrids w = w\<lparr>current := (current w)\<lparr>Cells := Cells (newGrid w)\<rparr>\<rparr>"

definition MoveEntitiesWithThreads ::
  "(nat \<Rightarrow> nat) \<Rightarrow> world \<Rightarrow> int \<Rightarrow> int \<Rightarrow> int \<Rightarrow> int \<Rightarrow> world option" where
  "MoveEntitiesWithThreads rs w fishBreed sharkBreed starveEnergy threads = do {
     w' \<leftarrow> dispatchThreads rs w fishBreed sharkBreed starveEnergy threads;
     Some (swapGrids w') }"

section \<open>Message-passing step (wat-or/main/movement.go)\<close>

text \<open>
  \<^verbatim>\<open>make(chan Move, n)\<close> panics on a negative \<open>n\<close>. The channel is only received from after
  \<^verbatim>\<open>wg.Wait()\<close>, so a send on a full buffer blocks for ever and the runtime aborts with a
  deadlock.
\<close>

definition makeChan :: "int \<Rightarrow> MoveChan option" where
  "makeChan n = (if n < 0 then None else Some \<lparr>capacity = nat n, queue = []\<rparr>)"

definition send :: "world \<Rightarrow> Move \<Rightarrow> world option" where
  "send w m =
     (if length (queue (moveChannel w)) < capacity (moveChannel w)
      then Some (w\<lparr>moveChannel := (moveChannel w)\<lparr>queue := queue (moveChannel w) @ [m]\<rparr>\<rparr>)
      else None)"

definition moveFishCell :: "(nat \<Rightarrow> nat) \<Rightarrow> int \<Rightarrow> int \<Rightarrow> int \<Rightarrow> world \<Rightarrow> world option" where
  "moveFishCell rs fishBreed x y w = do {
     c \<leftarrow> readCur w x y;
     case c of
       FishPtr fish \<Rightarrow> do {
         (w1, newX, newY) \<leftarrow> findEmptyAdjacent rs w x y;
         w2 \<leftarrow> (if newX \<noteq> -1 \<and> newY \<noteq> -1 then writeNew w1 newX newY (FishPtr fish)
                else writeNew w1 x y (FishPtr fish));
         f \<leftarrow> getFish w2 fish;
         let b = int64 (Fish.BreedCounter f + 1);
         let w3 = putFish w2 fish (f\<lparr>Fish.BreedCounter := b\<rparr>);
         if b \<ge> fishBreed then do {
           let (w4, baby) = allocFish w3 \<lparr>Fish.BreedCounter = 0\<rparr>;
           w5 \<leftarrow> writeNew w4 x y (FishPtr baby);
           f' \<leftarrow> getFish w5 fish;
           Some (putFish w5 fish (f'\<lparr>Fish.BreedCounter := 0\<rparr>))
         } else Some w3 }
     | _ \<Rightarrow> Some w }"

definition moveFish :: "(nat \<Rightarrow> nat) \<Rightarrow> world \<Rightarrow> int \<Rightarrow> world option" where
  "moveFish rs w fishBreed =
     for_each [0..Size (current w) - 1]
       (\<lambda>x w. for_each [0..Size (current w) - 1] (moveFishCell rs fishBreed x) w) w"

definition moveSharkCell ::
  "(nat \<Rightarrow> nat) \<Rightarrow> int \<Rightarrow> int \<Rightarrow> int \<Rightarrow> int \<Rightarrow> world \<Rightarrow> world option" where
  "moveSharkCell rs sharkBreed starveEnergy x y w = do {
     c \<leftarrow> readCur w x y;
     case c of
       SharkPtr shark \<Rightarrow> do {
         s \<leftarrow> getShark w shark;
         let e = int64 (Energy s - 1);
         let w1 = putShark w shark (s\<lparr>Energy := e\<rparr>);
         if e \<le> 0 then Some w1
         else do {
           (w2, newX, newY) \<leftarrow> findNearestFish rs w1 x y;
           w3 \<leftarrow> (if newX \<noteq> -1 \<and> newY \<noteq> -1 then do {
                   w' \<leftarrow> send w2 \<lparr>X = newX, Y = newY, Entity = SharkPtr shark\<rparr>;
                   s' \<leftarrow> getShark w' shark;
                   Some (putShark w' shark (s'\<lparr>Energy := starveEnergy\<rparr>))
                 } else do {
                   (w', newX, newY) \<leftarrow> findEmptyAdjacent rs w2 x y;
                   if newX \<noteq> -1 \<and> newY \<noteq> -1
                   then send w' \<lparr>X = newX, Y = newY, Entity = SharkPtr shark\<rparr>
                   else send w' \<lparr>X = x, Y = y, Entity = SharkPtr shark\<rparr>
                 });
           s3 \<leftarrow> getShark w3 shark;
           let b = int64 (Shark.BreedCounter s3 + 1);
           let w4 = putShark w3 shark (s3\<lparr>Shark.BreedCounter := b\<rparr>);
           if b \<ge> sharkBreed then do {
             let (w5, baby) = allocShark w4 \<lparr>Shark.BreedCounter = 0, Energy = starveEnergy\<rparr>;
             w6 \<leftarrow> send w5 \<lparr>X = x, Y = y, Entity = SharkPtr baby\<rparr>;
             s6 \<leftarrow> getShark w6 shark;
             Some (putShark w6 shark (s6\<lparr>Shark.BreedCounter := 0\<rparr>))
           } else Some w4 } }
     | _ \<Rightarrow> Some w }"

definition moveSharksConcurrent :: "(nat \<Rightarrow> nat) \<Rightarrow> world \<Rightarrow> int \<Rightarrow> int \<Rightarrow> world option" where
  "moveSharksConcurrent rs w sharkBreed starveEnergy =
     for_each [0..Size (current w) - 1]
       (\<lambda>x w. for_each [0..Size (current w) - 1] (moveSharkCell rs sharkBreed starveEnergy x) w) w"

definition applyMove :: "Move \<Rightarrow> world \<Rightarrow> world option" where
  "applyMove move w = writeNew w (X move) (Y move) (Entity move)"

text \<open>
  \<open>dispatchConcurrent\<close> is the step up to the drained channel; \<open>MoveEntitiesConcurrent\<close>
  adds the final assignment \<^verbatim>\<open>g.Cells = newGrid.Cells\<close>.
\<close>

definition dispatchConcurrent :: "(nat \<Rightarrow> nat) \<Rightarrow> world \<Rightarrow> int \<Rightarrow> int \<Rightarrow> int \<Rightarrow> world option" where
  "dispatchConcurrent rs w fishBreed sharkBreed starveEnergy = do {
     ng \<leftarrow> NewGrid (Size (current w));
     w1 \<leftarrow> moveFish rs (w\<lparr>newGrid := ng\<rparr>) fishBreed;
     ch \<leftarrow> makeChan (Size (current w1) * Size (current w1));
     w2 \<leftarrow> moveSharksConcurrent rs (w1\<lparr>moveChannel := ch\<rparr>) sharkBreed starveEnergy;
     w3 \<leftarrow> for_each (queue (moveChannel w2)) applyMove w2;
     Some (w3\<lparr>moveChannel := (moveChannel w3)\<lparr>queue := []\<rparr>\<rparr>) }"

definition MoveEntitiesConcurrent :: "(nat \<Rightarrow> nat) \<Rightarrow> world \<Rightarrow> int \<Rightarrow> int \<Rightarrow> int \<Rightarrow> world option" where
  "MoveEntitiesConcurrent rs w fishBreed sharkBreed starveEnergy = do {
     w' \<leftarrow> dispatchConcurrent rs w fishBreed sharkBreed starveEnergy;
     Some (swapGrids w') }"

section \<open>Counting (grid.go)\<close>

definition countCell :: "Grid \<Rightarrow> int \<Rightarrow> int \<Rightarrow> int \<times> int \<Rightarrow> (int \<times> int) option" where
  "countCell g x y acc = do {
     c \<leftarrow> index2 (Cells g) x y;
     Some ((if isFish c then fst acc + 1 else fst acc),
           (if isShark c then snd acc + 1 else snd acc)) }"

definition CountEntities :: "Grid \<Rightarrow> (int \<times> int) option" where
  "CountEntities g =
     for_each [0..Size g - 1] (\<lambda>x acc. for_each [0..Size g - 1] (countCell g x) acc) (0, 0)"

section \<open>Initial placement (wat-or/main/grid.go)\<close>

definition writeCur :: "world \<Rightarrow> int \<Rightarrow> int \<Rightarrow> cell \<Rightarrow> world option" where
  "writeCur w x y c = do {
     cs \<leftarrow> assign2 (Cells (current w)) x y c;
     Some (w\<lparr>current := (current w)\<lparr>Cells := cs\<rparr>\<rparr>) }"

text \<open>
  \<^verbatim>\<open>rand.Intn(n)\<close> panics when \<open>n \<le> 0\<close> and otherwise returns a number in \<open>[0, n)\<close>. The
  result of \<open>addEntity\<close> is \<open>None\<close> when the loop never ends, \<open>Some None\<close> when the program
  panics and \<open>Some (Some w)\<close> when it returns in state \<open>w\<close>.
\<close>

definition Intn :: "(nat \<Rightarrow> nat) \<Rightarrow> nat \<Rightarrow> int \<Rightarrow> int option" where
  "Intn rs k n = (if n \<le> 0 then None else Some (int (rs k mod nat n)))"

partial_function (option) addEntity :: "(nat \<Rightarrow> nat) \<Rightarrow> world \<Rightarrow> cell \<Rightarrow> world option option" where
  [code]: "addEntity rs w e =
     (case Intn rs (drawn w) (Size (current w)) of
        None \<Rightarrow> Some None
      | Some x \<Rightarrow>
         (case Intn rs (drawn w + 1) (Size (current w)) of
            None \<Rightarrow> Some None
          | Some y \<Rightarrow>
             (case readCur w x y of
                None \<Rightarrow> Some None
              | Some c \<Rightarrow>
                  if c = NilEntity then Some (writeCur (w\<lparr>drawn := drawn w + 2\<rparr>) x y e)
                  else addEntity rs (w\<lparr>drawn := drawn w + 2\<rparr>) e)))"

fun times :: "nat \<Rightarrow> ('s \<Rightarrow> 's option option) \<Rightarrow> 's \<Rightarrow> 's option option" where
  "times 0 body s = Some (Some s)"
| "times (Suc n) body s =
     (case body s of None \<Rightarrow> None | Some None \<Rightarrow> Some None | Some (Some s') \<Rightarrow> times n body s')"

definition addFish :: "(nat \<Rightarrow> nat) \<Rightarrow> world \<Rightarrow> world option option" where
  "addFish rs w = (let (w1, p) = allocFish w \<lparr>Fish.BreedCounter = 0\<rparr> in addEntity rs w1 (FishPtr p))"

definition addShark :: "(nat \<Rightarrow> nat) \<Rightarrow> world \<Rightarrow> world option option" where
  "addShark rs w =
     (let (w1, p) = allocShark w \<lparr>Shark.BreedCounter = 0, Energy = 4\<rparr> in addEntity rs w1 (SharkPtr p))"

definition Initialise :: "(nat \<Rightarrow> nat) \<Rightarrow> world \<Rightarrow> int \<Rightarrow> int \<Rightarrow> world option option" where
  "Initialise rs w numFish numSharks =
     (case times (nat numFish) (addFish rs) w of
        None \<Rightarrow> None
      | Some None \<Rightarrow> Some None
      | Some (Some w1) \<Rightarrow> times (nat numSharks) (addShark rs) w1)"

text \<open>A random source that returns \<open>0, 1, 2, \<dots>\<close>; an empty world of side \<open>n\<close>.\<close>

definition counting :: "nat \<Rightarrow> nat" where
  "counting k = k"

definition emptyWorld :: "int \<Rightarrow> world" where
  "emptyWorld n = \<lparr>current = \<lparr>Size = n, Cells = replicate (nat n) (replicate (nat n) NilEntity)\<rparr>,
      newGrid = \<lparr>Size = 0, Cells = []\<rparr>, fishHeap = [], sharkHeap = [],
      moveChannel = \<lparr>capacity = 0, queue = []\<rparr>, drawn = 0\<rparr>"

text \<open>
  \<open>placed w e w'\<close>: \<open>w'\<close> is \<open>w\<close> with \<open>e\<close> stored in one cell of the current grid that was
  empty (and some random numbers drawn).
\<close>

definition placed :: "world \<Rightarrow> cell \<Rightarrow> world \<Rightarrow> bool" where
  "placed w e w' = (\<exists>x y cs k. index2 (Cells (current w)) x y = Some NilEntity
        \<and> assign2 (Cells (current w)) x y e = Some cs
        \<and> w' = w\<lparr>drawn := k, current := (current w)\<lparr>Cells := cs\<rparr>\<rparr>)"

section \<open>Well-formed grids and example states\<close>

text \<open>A grid as \<^verbatim>\<open>NewGrid\<close> builds it: \<open>Size\<close> rows of \<open>Size\<close> cells.\<close>

definition wfGrid :: "Grid \<Rightarrow> bool" where
  "wfGrid g = (Size g = int (length (Cells g)) \<and> (\<forall>row \<in> set (Cells g). int (length row) = Size g))"

definition exampleGrid :: Grid where
  "exampleGrid = \<lparr>Size = 3, Cells = [[SharkPtr 0, FishPtr 0, NilEntity],
                                       [NilEntity, NilEntity, NilEntity],
                                       [NilEntity, NilEntity, NilEntity]]\<rparr>"

definition exampleWorld :: world where
  "exampleWorld = \<lparr>current = exampleGrid, newGrid = \<lparr>Size = 0, Cells = []\<rparr>,
      fishHeap = [\<lparr>Fish.BreedCounter = 0\<rparr>],
      sharkHeap = [\<lparr>Shark.BreedCounter = 0, Energy = 5\<rparr>],
      moveChannel = \<lparr>capacity = 0, queue = []\<rparr>, drawn = 0\<rparr>"

text \<open>
  \<open>loneSharkWorld\<close>: one shark with energy \<open>1\<close> in the middle of a \<open>3 \<times> 3\<close> grid.
  \<open>crowdedWorld\<close>: a full \<open>2 \<times> 2\<close> grid of fish. \<open>threeFishWorld\<close>: three fish and one empty
  cell on a \<open>2 \<times> 2\<close> grid.
\<close>

definition loneSharkWorld :: world where
  "loneSharkWorld = \<lparr>current = \<lparr>Size = 3, Cells = [[NilEntity, NilEntity, NilEntity],
                                                     [NilEntity, SharkPtr 0, NilEntity],
                                                     [NilEntity, NilEntity, NilEntity]]\<rparr>,
      newGrid = \<lparr>Size = 0, Cells = []\<rparr>, fishHeap = [],
      sharkHeap = [\<lparr>Shark.BreedCounter = 0, Energy = 1\<rparr>],
      moveChannel = \<lparr>capacity = 0, queue = []\<rparr>, drawn = 0\<rparr>"

definition crowdedWorld :: world where
  "crowdedWorld = \<lparr>current = \<lparr>Size = 2, Cells = [[FishPtr 0, FishPtr 1], [FishPtr 2, FishPtr 3]]\<rparr>,
      newGrid = \<lparr>Size = 0, Cells = []\<rparr>,
      fishHeap = [\<lparr>Fish.BreedCounter = 0\<rparr>, \<lparr>Fish.BreedCounter = 0\<rparr>,
                  \<lparr>Fish.BreedCounter = 0\<rparr>, \<lparr>Fish.BreedCounter = 0\<rparr>],
      sharkHeap = [], moveChannel = \<lparr>capacity = 0, queue = []\<rparr>, drawn = 0\<rparr>"

definition threeFishWorld :: world where
  "threeFishWorld = \<lparr>current = \<lparr>Size = 2, Cells = [[FishPtr 0, FishPtr 1], [NilEntity, FishPtr 2]]\<rparr>,
      newGrid = \<lparr>Size = 0, Cells = []\<rparr>,
      fishHeap = [\<lparr>Fish.BreedCounter = 0\<rparr>, \<lparr>Fish.BreedCounter = 0\<rparr>, \<lparr>Fish.BreedCounter = 0\<rparr>],
      sharkHeap = [], moveChannel = \<lparr>capacity = 0, queue = []\<rparr>, drawn = 0\<rparr>"

text \<open>A random source that always returns \<open>0\<close>.\<close>

definition zeros :: "nat \<Rightarrow> nat" where
  "zeros k = 0"

section \<open>Notions used in the statements\<close>

text \<open>
  \<open>destination pos x y\<close> is the cell an entity at \<open>(x, y)\<close> is written to when a scan
  returned \<open>pos\<close>: the test \<^verbatim>\<open>newX != -1 && newY != -1\<close> of the source. A world is well
  formed during a step when both grids are well formed and of the same side \<open>\<ge> 1\<close>.
  \<open>crowdedStep\<close> is \<open>crowdedWorld\<close> with its next grid allocated. A grid is shark free
  when no cell holds a shark.
\<close>

definition destination :: "int \<times> int \<Rightarrow> int \<Rightarrow> int \<Rightarrow> int \<times> int" where
  "destination pos x y = (if fst pos \<noteq> -1 \<and> snd pos \<noteq> -1 then pos else (x, y))"

definition wfWorld :: "world \<Rightarrow> bool" where
  "wfWorld w = (wfGrid (current w) \<and> wfGrid (newGrid w) \<and> Size (newGrid w) = Size (current w)
                \<and> 1 \<le> Size (current w))"


definition crowdedStep :: world where
  "crowdedStep = crowdedWorld\<lparr>newGrid := \<lparr>Size = 2, Cells = replicate 2 (replicate 2 NilEntity)\<rparr>\<rparr>"

section \<open>The two halves of a shark's turn\<close>

text \<open>
  After the starvation test, the body of \<^verbatim>\<open>processShark\<close> is the move of the shark
  (\<open>sharkMove\<close>: eat a neighbouring fish, otherwise roam) followed by its breeding
  (\<open>sharkBreeds\<close>). \<open>sharkMoveSend\<close> and \<open>sharkBreedsSend\<close> are the same two halves of the loop
  body of \<^verbatim>\<open>moveSharksConcurrent\<close>, which sends the moves on the channel instead of writing
  the next grid. They are the sub-terms of \<open>processShark\<close> and \<open>moveSharkCell\<close> under a name
  (lemmas \<open>processShark_stages\<close> and \<open>moveSharkCell_stages\<close>). \<open>queued w ms\<close> is the channel of
  \<open>w\<close> with the moves \<open>ms\<close> appended to its buffer. \<open>roamingStep\<close> is the lone shark with energy
  \<open>3\<close> in the middle of a step: the next grid is allocated and the channel has room for nine
  moves.
\<close>

definition sharkMove :: "(nat \<Rightarrow> nat) \<Rightarrow> world \<Rightarrow> nat \<Rightarrow> int \<Rightarrow> int \<Rightarrow> int \<Rightarrow> int \<Rightarrow> int \<Rightarrow> world option" where
  "sharkMove rs w2 shark x y newX newY starveEnergy =
     (if newX \<noteq> -1 \<and> newY \<noteq> -1 then do {
        w' \<leftarrow> writeNew w2 newX newY (SharkPtr shark);
        s' \<leftarrow> getShark w' shark;
        Some (putShark w' shark (s'\<lparr>Energy := starveEnergy\<rparr>))
      } else do {
        (w', newX, newY) \<leftarrow> findEmptyAdjacent rs w2 x y;
        if newX \<noteq> -1 \<and> newY \<noteq> -1 then writeNew w' newX newY (SharkPtr shark)
        else writeNew w' x y (SharkPtr shark)
      })"

definition sharkBreeds :: "world \<Rightarrow> nat \<Rightarrow> int \<Rightarrow> int \<Rightarrow> int \<Rightarrow> int \<Rightarrow> world option" where
  "sharkBreeds w3 shark x y sharkBreed starveEnergy = do {
     s3 \<leftarrow> getShark w3 shark;
     let b = int64 (Shark.BreedCounter s3 + 1);
     let w4 = putShark w3 shark (s3\<lparr>Shark.BreedCounter := b\<rparr>);
     if b \<ge> sharkBreed then do {
       let (w5, baby) = allocShark w4 \<lparr>Shark.BreedCounter = 0, Energy = starveEnergy\<rparr>;
       w6 \<leftarrow> writeNew w5 x y (SharkPtr baby);
       s6 \<leftarrow> getShark w6 shark;
       Some (putShark w6 shark (s6\<lparr>Shark.BreedCounter := 0\<rparr>))
     } else Some w4 }"

definition sharkMoveSend :: "(nat \<Rightarrow> nat) \<Rightarrow> world \<Rightarrow> nat \<Rightarrow> int \<Rightarrow> int \<Rightarrow> int \<Rightarrow> int \<Rightarrow> int \<Rightarrow> world option" where
  "sharkMoveSend rs w2 shark x y newX newY starveEnergy =
     (if newX \<noteq> -1 \<and> newY \<noteq> -1 then do {
        w' \<leftarrow> send w2 \<lparr>X = newX, Y = newY, Entity = SharkPtr shark\<rparr>;
        s' \<leftarrow> getShark w' shark;
        Some (putShark w' shark (s'\<lparr>Energy := starveEnergy\<rparr>))
      } else do {
        (w', newX, newY) \<leftarrow> findEmptyAdjacent rs w2 x y;
        if newX \<noteq> -1 \<and> newY \<noteq> -1
        then send w' \<lparr>X = newX, Y = newY, Entity = SharkPtr shark\<rparr>
        else send w' \<lparr>X = x, Y = y, Entity = SharkPtr shark\<rparr>
      })"

definition sharkBreedsSend :: "world \<Rightarrow> nat \<Rightarrow> int \<Rightarrow> int \<Rightarrow> int \<Rightarrow> int \<Rightarrow> world option" where
  "sharkBreedsSend w3 shark x y sharkBreed starveEnergy = do {
     s3 \<leftarrow> getShark w3 shark;
     let b = int64 (Shark.BreedCounter s3 + 1);
     let w4 = putShark w3 shark (s3\<lparr>Shark.BreedCounter := b\<rparr>);
     if b \<ge> sharkBreed then do {
       let (w5, baby) = allocShark w4 \<lparr>Shark.BreedCounter = 0, Energy = starveEnergy\<rparr>;
       w6 \<leftarrow> send w5 \<lparr>X = x, Y = y, Entity = SharkPtr baby\<rparr>;
       s6 \<leftarrow> getShark w6 shark;
       Some (putShark w6 shark (s6\<lparr>Shark.BreedCounter := 0\<rparr>))
     } else Some w4 }"

definition queued :: "world \<Rightarrow> Move list \<Rightarrow> MoveChan" where
  "queued w ms = (moveChannel w)\<lparr>queue := queue (moveChannel w) @ ms\<rparr>"

definition roamingStep :: world where
  "roamingStep = loneSharkWorld\<lparr>newGrid := \<lparr>Size = 3, Cells = replicate 3 (replicate 3 NilEntity)\<rparr>,
                                sharkHeap := [\<lparr>Shark.BreedCounter = 0, Energy = 3\<rparr>],
                                moveChannel := \<lparr>capacity = 9, queue = []\<rparr>\<rparr>"

section \<open>Entry point (main.go of the row-partition version)\<close>

text \<open>
  \<^verbatim>\<open>strconv.Atoi\<close> belongs to Go's standard library; the value it returns is modelled from
  its documentation: an optional sign followed by decimal digits; \<open>0\<close> on a syntax error;
  the nearest 64-bit value when the number is out of range. \<^verbatim>\<open>main\<close> discards the error.
\<close>

definition isDigit :: "char \<Rightarrow> bool" where
  "isDigit c = (48 \<le> (of_char c :: nat) \<and> (of_char c :: nat) \<le> 57)"

fun digitsValue :: "int \<Rightarrow> string \<Rightarrow> int" where
  "digitsValue acc [] = acc"
| "digitsValue acc (c # cs) = digitsValue (acc * 10 + (int (of_char c) - 48)) cs"

definition Atoi :: "string \<Rightarrow> int" where
  "Atoi s =
     (let (neg, ds) = (case s of
                         [] \<Rightarrow> (False, [])
                       | c # r \<Rightarrow> if c = CHR ''-'' then (True, r)
                                 else if c = CHR ''+'' then (False, r) else (False, s))
      in if ds = [] \<or> \<not> list_all isDigit ds then 0
         else if neg then max (- (2 ^ 63)) (- digitsValue 0 ds)
         else min (2 ^ 63 - 1) (digitsValue 0 ds))"

text \<open>
  The argument handling of \<^verbatim>\<open>main\<close> (unnamed/part_004): \<open>None\<close> is the usage message followed
  by \<^verbatim>\<open>return\<close>; otherwise the tuple is
  \<open>(numShark, numFish, fishBreed, sharkBreed, starveEnergy, gridSize, threads)\<close>.
\<close>

definition parseArgs :: "string list \<Rightarrow> (int \<times> int \<times> int \<times> int \<times> int \<times> int \<times> int) option" where
  "parseArgs args =
     (if length args = 8
      then Some (Atoi (args ! 1), Atoi (args ! 2), Atoi (args ! 3), Atoi (args ! 4),
                 Atoi (args ! 5), Atoi (args ! 6), Atoi (args ! 7))
      else if length args \<noteq> 1 then None
      else Some (100, 100, 3, 3, 4, 100, 10))"

datatype outcome = UsageExit | Panicked | Finished world

definition startWorld :: "Grid \<Rightarrow> world" where
  "startWorld g = \<lparr>current = g, newGrid = \<lparr>Size = 0, Cells = []\<rparr>, fishHeap = [], sharkHeap = [],
      moveChannel = \<lparr>capacity = 0, queue = []\<rparr>, drawn = 0\<rparr>"

fun runSteps :: "nat \<Rightarrow> (nat \<Rightarrow> nat) \<Rightarrow> int \<Rightarrow> int \<Rightarrow> int \<Rightarrow> int \<Rightarrow> world \<Rightarrow> world option" where
  "runSteps 0 rs fishBreed sharkBreed starveEnergy threads w = Some w"
| "runSteps (Suc n) rs fishBreed sharkBreed starveEnergy threads w = do {
     _ \<leftarrow> CountEntities (current w);
     w' \<leftarrow> MoveEntitiesWithThreads rs w fishBreed sharkBreed starveEnergy threads;
     runSteps n rs fishBreed sharkBreed starveEnergy threads w' }"

text \<open>
  \<^verbatim>\<open>main\<close> calls \<^verbatim>\<open>grid.Initialize\<close>, whose file is not among the sources; it is the
  parameter \<open>initialize\<close> (with the result convention of \<open>Initialise\<close>). The result of
  \<open>main\<close> is \<open>None\<close> when the program never returns.
\<close>

definition simulate ::
  "(nat \<Rightarrow> nat) \<Rightarrow> ((nat \<Rightarrow> nat) \<Rightarrow> world \<Rightarrow> int \<Rightarrow> int \<Rightarrow> world option option)
     \<Rightarrow> int \<times> int \<times> int \<times> int \<times> int \<times> int \<times> int \<Rightarrow> outcome option" where
  "simulate rs initialize cfg =
     (case cfg of (numShark, numFish, fishBreed, sharkBreed, starveEnergy, gridSize, threads) \<Rightarrow>
        (case NewGrid gridSize of
           None \<Rightarrow> Some Panicked
         | Some grid \<Rightarrow>
            (case initialize rs (startWorld grid) numFish numShark of
               None \<Rightarrow> None
             | Some None \<Rightarrow> Some Panicked
             | Some (Some w) \<Rightarrow>
                (case runSteps 50 rs fishBreed sharkBreed starveEnergy threads w of
                   None \<Rightarrow> Some Panicked
                 | Some w' \<Rightarrow>
                    (case CountEntities (current w') of
                       None \<Rightarrow> Some Panicked
                     | Some counts \<Rightarrow> Some (Finished w'))))))"

definition main ::
  "(nat \<Rightarrow> nat) \<Rightarrow> ((nat \<Rightarrow> nat) \<Rightarrow> world \<Rightarrow> int \<Rightarrow> int \<Rightarrow> world option option)
     \<Rightarrow> string list \<Rightarrow> outcome option" where
  "main rs initialize args =
     (case parseArgs args of
        None \<Rightarrow> Some UsageExit
      | Some cfg \<Rightarrow> simulate rs initialize cfg)"

text \<open>Seven well-formed arguments with non-positive breed ages and starve energy.\<close>

definition invalidArgs :: "string list" where
  "invalidArgs = [''main'', ''0'', ''1'', ''0'', ''-1'', ''0'', ''1'', ''1'']"

text \<open>The counts printed in the final summary of a run that completed.\<close>

fun finalCounts :: "outcome option \<Rightarrow> (int \<times> int) option" where
  "finalCounts (Some (Finished w)) = CountEntities (current w)"
| "finalCounts r = None"

section \<open>Arithmetic of Go's division and remainder\<close>

lemma sdiv_nonneg: "0 \<le> a \<Longrightarrow> 0 < b \<Longrightarrow> a sdiv b = a div (b::int)"
  by (simp add: signed_divide_int_def sgn_if)

lemma smod_nonneg: "0 \<le> a \<Longrightarrow> 0 < b \<Longrightarrow> a smod b = a mod (b::int)"
  by (simp add: signed_modulo_int_def sgn_if)

lemma mult_le_iff_le_div:
  fixes q :: int
  assumes "0 < q"
  shows "(i * q \<le> r) = (i \<le> r div q)"
proof
  assume "i * q \<le> r"
  then have "(i * q) div q \<le> r div q" using assms by (rule zdiv_mono1)
  then show "i \<le> r div q" using assms by simp
next
  assume "i \<le> r div q"
  then have "i * q \<le> (r div q) * q" using assms by (simp add: mult_right_mono)
  also have "\<dots> \<le> r" using assms
    using div_mult_mod_eq[of r q] pos_mod_sign[of q r] by linarith
  finally show "i * q \<le> r" .
qed

lemma int64_small: "- (2 ^ 63) \<le> v \<Longrightarrow> v < 2 ^ 63 \<Longrightarrow> int64 v = v"
  unfolding int64_def by (simp add: mod_pos_pos_trivial)

section \<open>Arithmetic of the row ranges\<close>

lemma row_ranges_arith:
  assumes N: "1 \<le> N" and T: "1 \<le> threads" and r0: "0 \<le> row" and rN: "row < N"
  shows "(\<exists>!i. 0 \<le> i \<and> i < threads \<and> startRow N threads i \<le> row \<and> row < endRow N threads i)
       \<and> startRow N threads 0 = 0
       \<and> endRow N threads (threads - 1) = N
       \<and> (\<forall>i. 0 \<le> i \<and> i < threads - 1 \<longrightarrow> endRow N threads i = startRow N threads (i + 1))
       \<and> (\<forall>i. 0 \<le> i \<and> i < threads \<longrightarrow> startRow N threads i \<le> endRow N threads i)"
proof -
  define q where "q = N div threads"
  have sd: "N sdiv threads = q" using N T by (simp add: sdiv_nonneg q_def)
  have q0: "0 \<le> q" using N T by (simp add: q_def pos_imp_zdiv_nonneg_iff)
  have start: "\<And>i. startRow N threads i = i * q" by (simp add: startRow_def sd)
  have "end": "\<And>i. endRow N threads i = (if i = threads - 1 then N else i * q + q)"
    by (simp add: endRow_def start sd)
  have qT: "threads * q \<le> N"
    using T mult_le_iff_le_div[of threads q N] by (simp add: q_def mult.commute)
  have last: "(threads - 1) * q \<le> N"
  proof -
    have "(threads - 1) * q \<le> threads * q" using q0 by (simp add: mult_right_mono)
    then show ?thesis using qT by linarith
  qed
  have ex1: "\<exists>!i. 0 \<le> i \<and> i < threads \<and> startRow N threads i \<le> row \<and> row < endRow N threads i"
  proof (cases "q = 0")
    case True
    show ?thesis
    proof (rule ex1I[of _ "threads - 1"])
      show "0 \<le> threads - 1 \<and> threads - 1 < threads \<and> startRow N threads (threads - 1) \<le> row
            \<and> row < endRow N threads (threads - 1)"
        using True T r0 rN by (simp add: start "end")
    next
      fix i assume "0 \<le> i \<and> i < threads \<and> startRow N threads i \<le> row \<and> row < endRow N threads i"
      then show "i = threads - 1" using True r0 by (auto simp: start "end" split: if_splits)
    qed
  next
    case False
    then have qpos: "0 < q" using q0 by linarith
    define d where "d = row div q"
    have d0: "0 \<le> d" using qpos r0 by (simp add: d_def pos_imp_zdiv_nonneg_iff)
    have le_d: "\<And>i. (i * q \<le> row) = (i \<le> d)" using qpos by (simp add: mult_le_iff_le_div d_def)
    have lt_d: "\<And>i. (row < i * q + q) = (d \<le> i)"
    proof -
      fix i
      have "(row < (i + 1) * q) = (\<not> (i + 1) * q \<le> row)" by linarith
      also have "\<dots> = (\<not> i + 1 \<le> d)" using le_d by simp
      finally show "(row < i * q + q) = (d \<le> i)" by (simp add: algebra_simps) linarith
    qed
    show ?thesis
    proof (rule ex1I[of _ "min d (threads - 1)"])
      show "0 \<le> min d (threads - 1) \<and> min d (threads - 1) < threads
            \<and> startRow N threads (min d (threads - 1)) \<le> row
            \<and> row < endRow N threads (min d (threads - 1))"
        using d0 T rN by (simp add: start "end" le_d lt_d min_def)
    next
      fix i assume "0 \<le> i \<and> i < threads \<and> startRow N threads i \<le> row \<and> row < endRow N threads i"
      then have i: "0 \<le> i" "i < threads" "i \<le> d" "if i = threads - 1 then row < N else d \<le> i"
        by (simp_all add: start "end" le_d lt_d split: if_splits)
      show "i = min d (threads - 1)"
      proof (cases "i = threads - 1")
        case True
        then show ?thesis using i by simp
      next
        case False
        then have "d = i" using i by simp
        then show ?thesis using i False by simp
      qed
    qed
  qed
  have c0: "startRow N threads 0 = 0" by (simp add: start)
  have cl: "endRow N threads (threads - 1) = N" by (simp add: "end")
  have cont: "\<forall>i. 0 \<le> i \<and> i < threads - 1 \<longrightarrow> endRow N threads i = startRow N threads (i + 1)"
    by (simp add: start "end" algebra_simps)
  have wf: "\<forall>i. 0 \<le> i \<and> i < threads \<longrightarrow> startRow N threads i \<le> endRow N threads i"
    using q0 last by (simp add: start "end")
  show ?thesis by (intro conjI ex1 c0 cl cont wf)
qed

section \<open>Neighbour lookup stays inside the grid\<close>

lemma mset_swapAt: "i < length xs \<Longrightarrow> j < length xs \<Longrightarrow> mset (swapAt i j xs) = mset xs"
  unfolding swapAt_def by (rule mset_swap)

lemma length_swapAt: "length (swapAt i j xs) = length xs"
  by (simp add: swapAt_def)

lemma mset_shuffleLoop: "i < length xs \<Longrightarrow> mset (shuffleLoop rs k i xs) = mset xs"
proof (induction i arbitrary: k xs)
  case 0
  then show ?case by simp
next
  case (Suc i)
  have j: "rs k mod Suc (Suc i) < length xs"
    using Suc.prems by (meson less_trans_Suc mod_less_divisor not_less_eq zero_less_Suc le_less_trans less_Suc_eq_le)
  have "mset (shuffleLoop rs (Suc k) i (swapAt (Suc i) (rs k mod Suc (Suc i)) xs))
        = mset (swapAt (Suc i) (rs k mod Suc (Suc i)) xs)"
    using Suc.prems by (intro Suc.IH) (simp add: length_swapAt)
  also have "\<dots> = mset xs" using Suc.prems j by (rule mset_swapAt)
  finally show ?case by simp
qed

lemma mset_Shuffle: "mset (Shuffle rs k xs) = mset xs"
proof (cases xs)
  case Nil
  then show ?thesis by (simp add: Shuffle_def)
next
  case (Cons a as)
  then show ?thesis unfolding Shuffle_def by (intro mset_shuffleLoop) simp
qed

lemma set_Shuffle: "set (Shuffle rs k xs) = set xs"
  using mset_Shuffle[of rs k xs] by (metis set_mset_mset)

lemma length_Shuffle: "length (Shuffle rs k xs) = length xs"
  using mset_Shuffle[of rs k xs] by (metis size_mset)

lemma wrap_in_range:
  assumes "1 \<le> N" "0 \<le> x" "x < N" "d \<in> {-1, 0, 1}"
  shows "goMod (x + d + N) N = Some ((x + d) mod N)" "0 \<le> (x + d) mod N" "(x + d) mod N < N"
  using assms by (auto simp: goMod_def smod_nonneg)

lemma wrap_periodic:
  assumes "1 \<le> N" "0 \<le> x" "x < N" "d \<in> {-1, 0, 1}"
  shows "goMod (x + N + d + N) N = goMod (x + d + N) N"
proof -
  have "(x + N + d + N) smod N = (x + N + d + N) mod N" using assms by (intro smod_nonneg) auto
  moreover have "(x + d + N) smod N = (x + d + N) mod N" using assms by (intro smod_nonneg) auto
  moreover have "(x + N + d + N) mod N = (x + d + N) mod N"
    by (metis add.assoc add.commute mod_add_self2)
  ultimately show ?thesis using assms by (simp add: goMod_def)
qed

lemma index2_wf:
  "wfGrid g \<Longrightarrow> 0 \<le> i \<Longrightarrow> i < Size g \<Longrightarrow> 0 \<le> j \<Longrightarrow> j < Size g
   \<Longrightarrow> index2 (Cells g) i j = Some (Cells g ! nat i ! nat j)"
  by (auto simp: wfGrid_def index2_def)

lemma dir_cases: "dir \<in> set directions \<Longrightarrow> fst dir \<in> {-1, 0, 1} \<and> snd dir \<in> {-1, 0, 1}"
  by (auto simp: directions_def)

lemma neighbour_wf:
  assumes "1 \<le> Size g" "0 \<le> x" "x < Size g" "0 \<le> y" "y < Size g" "dir \<in> set directions"
  shows "neighbour g x y dir = Some ((x + fst dir) mod Size g, (y + snd dir) mod Size g)"
  using assms dir_cases[OF assms(6)] by (simp add: neighbour_def wrap_in_range(1))

lemma neighbourCell_wf:
  assumes "wfGrid g" "1 \<le> Size g" "0 \<le> x" "x < Size g" "0 \<le> y" "y < Size g" "dir \<in> set directions"
  shows "neighbourCell g x y dir =
           Some (((x + fst dir) mod Size g, (y + snd dir) mod Size g),
                 Cells g ! nat ((x + fst dir) mod Size g) ! nat ((y + snd dir) mod Size g))"
  using assms by (simp add: neighbourCell_def neighbour_wf index2_wf)


lemma neighbourCell_periodic:
  assumes "1 \<le> Size g" "0 \<le> x" "x < Size g" "0 \<le> y" "y < Size g" "dir \<in> set directions"
  shows "neighbourCell g (x + Size g) y dir = neighbourCell g x y dir"
    and "neighbourCell g x (y + Size g) dir = neighbourCell g x y dir"
proof -
  have d: "fst dir \<in> {-1, 0, 1}" "snd dir \<in> {-1, 0, 1}"
    using dir_cases[OF assms(6)] by simp_all
  have "neighbour g (x + Size g) y dir = neighbour g x y dir"
    unfolding neighbour_def by (simp only: wrap_periodic[OF assms(1,2,3) d(1)])
  then show "neighbourCell g (x + Size g) y dir = neighbourCell g x y dir"
    by (simp only: neighbourCell_def)
  have "neighbour g x (y + Size g) dir = neighbour g x y dir"
    unfolding neighbour_def by (simp only: wrap_periodic[OF assms(1,4,5) d(2)])
  then show "neighbourCell g x (y + Size g) dir = neighbourCell g x y dir"
    by (simp only: neighbourCell_def)
qed

lemma scanEmpty_total:
  assumes "wfGrid g" "1 \<le> Size g" "0 \<le> x" "x < Size g" "0 \<le> y" "y < Size g"
  shows "set dirs \<subseteq> set directions \<Longrightarrow> scanEmpty g x y dirs \<noteq> None"
  using assms by (induction dirs) (simp_all add: neighbourCell_wf)

lemma scanFish_total:
  assumes "wfGrid g" "1 \<le> Size g" "0 \<le> x" "x < Size g" "0 \<le> y" "y < Size g"
  shows "set dirs \<subseteq> set directions \<Longrightarrow> scanFish g x y dirs \<noteq> None"
  using assms by (induction dirs) (simp_all add: neighbourCell_wf)

lemma scanEmpty_periodic:
  assumes "1 \<le> Size g" "0 \<le> x" "x < Size g" "0 \<le> y" "y < Size g"
  shows "set dirs \<subseteq> set directions \<Longrightarrow>
           scanEmpty g (x + Size g) y dirs = scanEmpty g x y dirs
         \<and> scanEmpty g x (y + Size g) dirs = scanEmpty g x y dirs"
  using assms by (induction dirs) (simp_all add: neighbourCell_periodic split: option.split)

lemma scanFish_periodic:
  assumes "1 \<le> Size g" "0 \<le> x" "x < Size g" "0 \<le> y" "y < Size g"
  shows "set dirs \<subseteq> set directions \<Longrightarrow>
           scanFish g (x + Size g) y dirs = scanFish g x y dirs
         \<and> scanFish g x (y + Size g) dirs = scanFish g x y dirs"
  using assms by (induction dirs) (simp_all add: neighbourCell_periodic split: option.split)

text \<open>
  Claim C9. On a well-formed grid of side \<open>N \<ge> 1\<close>, for every cell \<open>(x, y)\<close> of the grid and
  every cardinal offset, the wrapped coordinates computed by the scans of
  \<^verbatim>\<open>findEmptyAdjacent\<close> and \<^verbatim>\<open>findNearestFish\<close> lie in \<open>[0, N)\<close> and the cell read there
  exists, so neither function panics; and the lookup is toroidal: shifting \<open>x\<close> or \<open>y\<close> by
  \<open>N\<close> reads the same cells and gives the same results.
\<close>

theorem neighbour_lookup_in_bounds:
  assumes wf: "wfGrid (current w)" and N: "Size (current w) = N" "1 \<le> N"
    and x: "0 \<le> x" "x < N" and y: "0 \<le> y" "y < N"
  shows "(\<forall>dir \<in> set directions. \<exists>nx ny c.
            neighbourCell (current w) x y dir = Some ((nx, ny), c)
            \<and> 0 \<le> nx \<and> nx < N \<and> 0 \<le> ny \<and> ny < N
            \<and> neighbourCell (current w) (x + N) y dir = Some ((nx, ny), c)
            \<and> neighbourCell (current w) x (y + N) dir = Some ((nx, ny), c))
       \<and> findEmptyAdjacent rs w x y \<noteq> None
       \<and> findNearestFish rs w x y \<noteq> None
       \<and> findEmptyAdjacent rs w (x + N) y = findEmptyAdjacent rs w x y
       \<and> findEmptyAdjacent rs w x (y + N) = findEmptyAdjacent rs w x y
       \<and> findNearestFish rs w (x + N) y = findNearestFish rs w x y
       \<and> findNearestFish rs w x (y + N) = findNearestFish rs w x y"
proof -
  let ?g = "current w"
  have b: "1 \<le> Size ?g" "0 \<le> x" "x < Size ?g" "0 \<le> y" "y < Size ?g"
    using N x y by simp_all
  have sub: "set (Shuffle rs (drawn w) directions) \<subseteq> set directions"
    by (simp add: set_Shuffle)
  have cells: "\<forall>dir \<in> set directions. \<exists>nx ny c.
            neighbourCell ?g x y dir = Some ((nx, ny), c)
            \<and> 0 \<le> nx \<and> nx < N \<and> 0 \<le> ny \<and> ny < N
            \<and> neighbourCell ?g (x + N) y dir = Some ((nx, ny), c)
            \<and> neighbourCell ?g x (y + N) dir = Some ((nx, ny), c)"
  proof
    fix dir assume d: "dir \<in> set directions"
    have per: "neighbourCell ?g (x + N) y dir = neighbourCell ?g x y dir"
        "neighbourCell ?g x (y + N) dir = neighbourCell ?g x y dir"
      using neighbourCell_periodic[OF b d] N by simp_all
    show "\<exists>nx ny c. neighbourCell ?g x y dir = Some ((nx, ny), c)
            \<and> 0 \<le> nx \<and> nx < N \<and> 0 \<le> ny \<and> ny < N
            \<and> neighbourCell ?g (x + N) y dir = Some ((nx, ny), c)
            \<and> neighbourCell ?g x (y + N) dir = Some ((nx, ny), c)"
      using N(2) by (simp add: per neighbourCell_wf[OF wf b d] N(1))
  qed
  have e: "findEmptyAdjacent rs w x y \<noteq> None"
    using scanEmpty_total[OF wf b sub] by (auto simp: findEmptyAdjacent_def Let_def)
  have f: "findNearestFish rs w x y \<noteq> None"
    using scanFish_total[OF wf b sub] by (auto simp: findNearestFish_def Let_def)
  have pe: "findEmptyAdjacent rs w (x + N) y = findEmptyAdjacent rs w x y"
      "findEmptyAdjacent rs w x (y + N) = findEmptyAdjacent rs w x y"
    using scanEmpty_periodic[OF b sub] N by (simp_all add: findEmptyAdjacent_def)
  have pf: "findNearestFish rs w (x + N) y = findNearestFish rs w x y"
      "findNearestFish rs w x (y + N) = findNearestFish rs w x y"
    using scanFish_periodic[OF b sub] N by (simp_all add: findNearestFish_def)
  show ?thesis by (intro conjI cells e f pe pf)
qed

lemma wf_exampleWorld: "wfGrid (current exampleWorld)"
  by (simp add: wfGrid_def exampleWorld_def exampleGrid_def)

theorem neighbour_lookup_in_bounds_witness:
  "wfGrid (current exampleWorld) \<and> Size (current exampleWorld) = 3
   \<and> neighbourCell (current exampleWorld) 0 0 (-1, 0) = Some ((2, 0), NilEntity)
   \<and> neighbourCell (current exampleWorld) 0 0 (0, 1) = Some ((0, 1), FishPtr 0)
   \<and> findEmptyAdjacent (\<lambda>_. 0) exampleWorld 0 0 \<noteq> None
   \<and> findNearestFish (\<lambda>_. 0) exampleWorld 0 0 \<noteq> None
   \<and> findNearestFish (\<lambda>_. 0) exampleWorld (0 + 3) 0 = findNearestFish (\<lambda>_. 0) exampleWorld 0 0"
proof -
  have s: "Size (current exampleWorld) = 3" by (simp add: exampleWorld_def exampleGrid_def)
  note h = neighbour_lookup_in_bounds[OF wf_exampleWorld s, of 0 0 "\<lambda>_. 0", simplified]
  have n1: "neighbourCell (current exampleWorld) 0 0 (-1, 0) = Some ((2, 0), NilEntity)"
    by (simp add: neighbourCell_def neighbour_def goMod_def index2_def exampleWorld_def
        exampleGrid_def signed_modulo_int_def)
  have n2: "neighbourCell (current exampleWorld) 0 0 (0, 1) = Some ((0, 1), FishPtr 0)"
    by (simp add: neighbourCell_def neighbour_def goMod_def index2_def exampleWorld_def
        exampleGrid_def signed_modulo_int_def)
  from h have e: "findEmptyAdjacent (\<lambda>_. 0) exampleWorld 0 0 \<noteq> None" by blast
  from h have f: "findNearestFish (\<lambda>_. 0) exampleWorld 0 0 \<noteq> None" by blast
  from h have p: "findNearestFish (\<lambda>_. 0) exampleWorld (0 + 3) 0 = findNearestFish (\<lambda>_. 0) exampleWorld 0 0"
    by simp
  show ?thesis by (intro conjI wf_exampleWorld s n1 n2 e f p)
qed

section \<open>Loops and the effect of the primitive operations\<close>

lemma for_each_keeps:
  assumes "\<And>i s s'. body i s = Some s' \<Longrightarrow> f s' = f s"
  shows "for_each xs body s = Some s' \<Longrightarrow> f s' = f s"
proof (induction xs arbitrary: s)
  case Nil
  then show ?case by simp
next
  case (Cons i xs)
  then obtain s1 where b: "body i s = Some s1" and r: "for_each xs body s1 = Some s'"
    by (auto split: option.splits)
  have "f s' = f s1" using r by (rule Cons.IH)
  also have "\<dots> = f s" using b by (rule assms)
  finally show ?case .
qed

lemma findEmptyAdjacent_Some:
  "findEmptyAdjacent rs w x y = Some (w', pos) \<Longrightarrow>
     w' = w\<lparr>drawn := drawn w + 3\<rparr> \<and> scanEmpty (current w) x y (Shuffle rs (drawn w) directions) = Some pos"
  by (auto simp: findEmptyAdjacent_def directions_def Let_def split: Option.bind_splits)

lemma findNearestFish_Some:
  "findNearestFish rs w x y = Some (w', pos) \<Longrightarrow>
     w' = w\<lparr>drawn := drawn w + 3\<rparr> \<and> scanFish (current w) x y (Shuffle rs (drawn w) directions) = Some pos"
  by (auto simp: findNearestFish_def directions_def Let_def split: Option.bind_splits)

lemma writeNew_Some:
  "writeNew w x y c = Some w' \<Longrightarrow>
     \<exists>cs. assign2 (Cells (newGrid w)) x y c = Some cs \<and> w' = w\<lparr>newGrid := (newGrid w)\<lparr>Cells := cs\<rparr>\<rparr>"
  by (auto simp: writeNew_def split: Option.bind_splits)

lemma send_Some:
  "send w m = Some w' \<Longrightarrow>
     w' = w\<lparr>moveChannel := (moveChannel w)\<lparr>queue := queue (moveChannel w) @ [m]\<rparr>\<rparr>"
  by (auto simp: send_def split: if_splits)

lemma index2_assign2:
  "assign2 cs i j c = Some cs' \<Longrightarrow>
     index2 cs' i' j' = (if i' = i \<and> j' = j then Some c else index2 cs i' j')"
  by (auto simp: assign2_def index2_def nth_list_update split: if_splits)

lemma moveFishCell_processFish:
  "moveFishCell rs fishBreed x y w =
     (case readCur w x y of None \<Rightarrow> None
      | Some c \<Rightarrow> (case c of FishPtr fish \<Rightarrow> processFish rs w fish x y fishBreed | _ \<Rightarrow> Some w))"
  by (simp add: moveFishCell_def processFish_def split: Option.bind_split cell.split)

lemma for_each_cong_inv_aux:
  assumes eq: "\<And>i s. P i \<Longrightarrow> I s \<Longrightarrow> f i s = g i s"
    and pres: "\<And>i s s'. P i \<Longrightarrow> I s \<Longrightarrow> f i s = Some s' \<Longrightarrow> I s'"
  shows "list_all P xs \<Longrightarrow> I s \<Longrightarrow> for_each xs f s = for_each xs g s"
proof (induction xs arbitrary: s)
  case Nil
  show ?case by simp
next
  case (Cons i xs)
  from Cons.prems(1) have Pi: "P i" and Pxs: "list_all P xs" by simp_all
  have h: "f i s = g i s" using Pi Cons.prems(2) by (rule eq)
  show ?case
  proof (cases "f i s")
    case None
    then have "g i s = None" using h by simp
    then show ?thesis by (simp add: None)
  next
    case (Some s1)
    have I1: "I s1" using Pi Cons.prems(2) Some by (rule pres)
    have r: "for_each xs f s1 = for_each xs g s1" using Pxs I1 by (rule Cons.IH)
    have gs: "g i s = Some s1" using h Some by simp
    show ?thesis by (simp add: Some gs r)
  qed
qed

lemma for_each_cong_inv:
  assumes "\<And>i s. i \<in> set xs \<Longrightarrow> I s \<Longrightarrow> f i s = g i s"
    and "\<And>i s s'. i \<in> set xs \<Longrightarrow> I s \<Longrightarrow> f i s = Some s' \<Longrightarrow> I s'"
    and "I s"
  shows "for_each xs f s = for_each xs g s"
proof (rule for_each_cong_inv_aux[where P = "\<lambda>i. i \<in> set xs" and I = I])
  show "list_all (\<lambda>i. i \<in> set xs) xs" by (simp add: list_all_iff)
  show "I s" by fact
qed (fact assms(1), fact assms(2))



section \<open>The steps evaluated on the example states\<close>

lemma exampleWorld_dispatchThreads:
  "dispatchThreads zeros exampleWorld 3 3 5 1 =
     Some \<lparr>current = exampleGrid,
           newGrid = \<lparr>Size = 3, Cells = [[NilEntity, SharkPtr 0, NilEntity],
                                         [NilEntity, FishPtr 0, NilEntity],
                                         [NilEntity, NilEntity, NilEntity]]\<rparr>,
           fishHeap = [\<lparr>Fish.BreedCounter = 1\<rparr>],
           sharkHeap = [\<lparr>Shark.BreedCounter = 1, Energy = 5\<rparr>],
           moveChannel = \<lparr>capacity = 0, queue = []\<rparr>, drawn = 6\<rparr>"
  by code_simp

lemma exampleWorld_dispatchConcurrent:
  "dispatchConcurrent zeros exampleWorld 3 3 5 =
     Some \<lparr>current = exampleGrid,
           newGrid = \<lparr>Size = 3, Cells = [[NilEntity, SharkPtr 0, NilEntity],
                                         [NilEntity, FishPtr 0, NilEntity],
                                         [NilEntity, NilEntity, NilEntity]]\<rparr>,
           fishHeap = [\<lparr>Fish.BreedCounter = 1\<rparr>],
           sharkHeap = [\<lparr>Shark.BreedCounter = 1, Energy = 5\<rparr>],
           moveChannel = \<lparr>capacity = 9, queue = []\<rparr>, drawn = 6\<rparr>"
  by code_simp

lemma exampleWorld_threads:
  "MoveEntitiesWithThreads zeros exampleWorld 3 3 5 1 =
     Some \<lparr>current = \<lparr>Size = 3, Cells = [[NilEntity, SharkPtr 0, NilEntity],
                                         [NilEntity, FishPtr 0, NilEntity],
                                         [NilEntity, NilEntity, NilEntity]]\<rparr>,
           newGrid = \<lparr>Size = 3, Cells = [[NilEntity, SharkPtr 0, NilEntity],
                                         [NilEntity, FishPtr 0, NilEntity],
                                         [NilEntity, NilEntity, NilEntity]]\<rparr>,
           fishHeap = [\<lparr>Fish.BreedCounter = 1\<rparr>],
           sharkHeap = [\<lparr>Shark.BreedCounter = 1, Energy = 5\<rparr>],
           moveChannel = \<lparr>capacity = 0, queue = []\<rparr>, drawn = 6\<rparr>"
  by (simp add: MoveEntitiesWithThreads_def exampleWorld_dispatchThreads swapGrids_def exampleGrid_def)

lemma exampleWorld_concurrent:
  "MoveEntitiesConcurrent zeros exampleWorld 3 3 5 =
     Some \<lparr>current = \<lparr>Size = 3, Cells = [[NilEntity, SharkPtr 0, NilEntity],
                                         [NilEntity, FishPtr 0, NilEntity],
                                         [NilEntity, NilEntity, NilEntity]]\<rparr>,
           newGrid = \<lparr>Size = 3, Cells = [[NilEntity, SharkPtr 0, NilEntity],
                                         [NilEntity, FishPtr 0, NilEntity],
                                         [NilEntity, NilEntity, NilEntity]]\<rparr>,
           fishHeap = [\<lparr>Fish.BreedCounter = 1\<rparr>],
           sharkHeap = [\<lparr>Shark.BreedCounter = 1, Energy = 5\<rparr>],
           moveChannel = \<lparr>capacity = 9, queue = []\<rparr>, drawn = 6\<rparr>"
  by (simp add: MoveEntitiesConcurrent_def exampleWorld_dispatchConcurrent swapGrids_def exampleGrid_def)




lemma count_after_meal:
  "CountEntities \<lparr>Size = 3, Cells = [[NilEntity, SharkPtr 0, NilEntity],
                                         [NilEntity, FishPtr 0, NilEntity],
                                         [NilEntity, NilEntity, NilEntity]]\<rparr> = Some (1, 1)"
  by code_simp

lemma count_exampleWorld: "CountEntities (current exampleWorld) = Some (1, 1)"
  by code_simp

lemma crowdedWorld_threads:
  "MoveEntitiesWithThreads zeros crowdedWorld 1 3 5 1 =
    Some \<lparr>current = \<lparr>Size = 2, Cells = [[FishPtr 4, FishPtr 5], [FishPtr 6, FishPtr 7]]\<rparr>,
          newGrid = \<lparr>Size = 2, Cells = [[FishPtr 4, FishPtr 5], [FishPtr 6, FishPtr 7]]\<rparr>,
          fishHeap = replicate 8 \<lparr>Fish.BreedCounter = 0\<rparr>,
          sharkHeap = [], moveChannel = \<lparr>capacity = 0, queue = []\<rparr>, drawn = 12\<rparr>"
  by code_simp

lemma crowdedWorld_concurrent:
  "MoveEntitiesConcurrent zeros crowdedWorld 1 3 5 =
    Some \<lparr>current = \<lparr>Size = 2, Cells = [[FishPtr 4, FishPtr 5], [FishPtr 6, FishPtr 7]]\<rparr>,
          newGrid = \<lparr>Size = 2, Cells = [[FishPtr 4, FishPtr 5], [FishPtr 6, FishPtr 7]]\<rparr>,
          fishHeap = replicate 8 \<lparr>Fish.BreedCounter = 0\<rparr>,
          sharkHeap = [], moveChannel = \<lparr>capacity = 4, queue = []\<rparr>, drawn = 12\<rparr>"
  by code_simp

lemma count_crowded:
  "CountEntities (current crowdedWorld) = Some (4, 0)"
  "CountEntities \<lparr>Size = 2, Cells = [[FishPtr 4, FishPtr 5], [FishPtr 6, FishPtr 7]]\<rparr> = Some (4, 0)"
  by code_simp+

lemma threeFishWorld_threads:
  "MoveEntitiesWithThreads zeros threeFishWorld 10 3 5 1 =
    Some \<lparr>current = \<lparr>Size = 2, Cells = [[NilEntity, FishPtr 1], [FishPtr 2, NilEntity]]\<rparr>,
          newGrid = \<lparr>Size = 2, Cells = [[NilEntity, FishPtr 1], [FishPtr 2, NilEntity]]\<rparr>,
          fishHeap = replicate 3 \<lparr>Fish.BreedCounter = 1\<rparr>,
          sharkHeap = [], moveChannel = \<lparr>capacity = 0, queue = []\<rparr>, drawn = 9\<rparr>"
  by code_simp

lemma threeFishWorld_concurrent:
  "MoveEntitiesConcurrent zeros threeFishWorld 10 3 5 =
    Some \<lparr>current = \<lparr>Size = 2, Cells = [[NilEntity, FishPtr 1], [FishPtr 2, NilEntity]]\<rparr>,
          newGrid = \<lparr>Size = 2, Cells = [[NilEntity, FishPtr 1], [FishPtr 2, NilEntity]]\<rparr>,
          fishHeap = replicate 3 \<lparr>Fish.BreedCounter = 1\<rparr>,
          sharkHeap = [], moveChannel = \<lparr>capacity = 4, queue = []\<rparr>, drawn = 9\<rparr>"
  by code_simp

lemma count_threeFish:
  "CountEntities (current threeFishWorld) = Some (3, 0)"
  "CountEntities \<lparr>Size = 2, Cells = [[NilEntity, FishPtr 1], [FishPtr 2, NilEntity]]\<rparr> = Some (2, 0)"
  by code_simp+

lemma loneShark_threads:
  "MoveEntitiesWithThreads rs loneSharkWorld fishBreed sharkBreed starveEnergy 1 =
    Some (loneSharkWorld\<lparr>current := \<lparr>Size = 3, Cells = replicate 3 (replicate 3 NilEntity)\<rparr>,
                         newGrid := \<lparr>Size = 3, Cells = replicate 3 (replicate 3 NilEntity)\<rparr>,
                         sharkHeap := [\<lparr>Shark.BreedCounter = 0, Energy = 0\<rparr>]\<rparr>)"
  by code_simp

lemma loneShark_concurrent:
  "MoveEntitiesConcurrent rs loneSharkWorld fishBreed sharkBreed starveEnergy =
    Some (loneSharkWorld\<lparr>current := \<lparr>Size = 3, Cells = replicate 3 (replicate 3 NilEntity)\<rparr>,
                         newGrid := \<lparr>Size = 3, Cells = replicate 3 (replicate 3 NilEntity)\<rparr>,
                         sharkHeap := [\<lparr>Shark.BreedCounter = 0, Energy = 0\<rparr>],
                         moveChannel := \<lparr>capacity = 9, queue = []\<rparr>\<rparr>)"
  by code_simp

lemma count_empty3: "CountEntities \<lparr>Size = 3, Cells = replicate 3 (replicate 3 NilEntity)\<rparr> = Some (0, 0)"
  by code_simp

lemma exampleWorld_dispatchThreads2:
  "dispatchThreads zeros exampleWorld 3 3 5 2 =
     Some \<lparr>current = exampleGrid,
           newGrid = \<lparr>Size = 3, Cells = [[NilEntity, SharkPtr 0, NilEntity],
                                         [NilEntity, FishPtr 0, NilEntity],
                                         [NilEntity, NilEntity, NilEntity]]\<rparr>,
           fishHeap = [\<lparr>Fish.BreedCounter = 1\<rparr>],
           sharkHeap = [\<lparr>Shark.BreedCounter = 1, Energy = 5\<rparr>],
           moveChannel = \<lparr>capacity = 0, queue = []\<rparr>, drawn = 6\<rparr>"
  by code_simp

lemma roamingStep_processShark:
  "processShark zeros roamingStep 0 1 1 4 7 =
     Some (roamingStep\<lparr>drawn := 6,
            newGrid := \<lparr>Size = 3, Cells = [[NilEntity, NilEntity, NilEntity],
                                           [NilEntity, NilEntity, NilEntity],
                                           [NilEntity, SharkPtr 0, NilEntity]]\<rparr>,
            sharkHeap := [\<lparr>Shark.BreedCounter = 1, Energy = 2\<rparr>]\<rparr>)"
  by code_simp

lemma roamingStep_moveSharkCell:
  "moveSharkCell zeros 4 7 1 1 roamingStep =
     Some (roamingStep\<lparr>drawn := 6,
            moveChannel := \<lparr>capacity = 9, queue = [\<lparr>X = 2, Y = 1, Entity = SharkPtr 0\<rparr>]\<rparr>,
            sharkHeap := [\<lparr>Shark.BreedCounter = 1, Energy = 2\<rparr>]\<rparr>)"
  by code_simp

lemma roamingStep_scanFish:
  "scanFish (current roamingStep) 1 1 (Shuffle zeros (drawn roamingStep) directions) = Some (-1, -1)"
  by code_simp

section \<open>The dispatch phase and the current grid\<close>

lemma current_processFish:
  "processFish rs w fish x y fishBreed = Some w' \<Longrightarrow> current w' = current w"
  by (auto simp: processFish_def Let_def putFish_def allocFish_def
      split: Option.bind_splits if_splits prod.splits
      dest!: findEmptyAdjacent_Some writeNew_Some)

lemma current_processShark:
  "processShark rs w shark x y sharkBreed starveEnergy = Some w' \<Longrightarrow> current w' = current w"
  by (auto simp: processShark_def Let_def putShark_def allocShark_def
      split: Option.bind_splits if_splits prod.splits
      dest!: findEmptyAdjacent_Some findNearestFish_Some writeNew_Some)


lemma current_processCell:
  "processCell rs fishBreed sharkBreed starveEnergy x y w = Some w' \<Longrightarrow> current w' = current w"
  by (auto simp: processCell_def split: Option.bind_splits cell.splits
      dest: current_processFish current_processShark)

lemma current_moveFishCell:
  "moveFishCell rs fishBreed x y w = Some w' \<Longrightarrow> current w' = current w"
  by (auto simp: moveFishCell_processFish split: option.splits cell.splits
      dest: current_processFish)

lemma current_moveSharkCell:
  "moveSharkCell rs sharkBreed starveEnergy x y w = Some w' \<Longrightarrow> current w' = current w"
  by (auto simp: moveSharkCell_def Let_def putShark_def allocShark_def
      split: Option.bind_splits if_splits prod.splits cell.splits
      dest!: findEmptyAdjacent_Some findNearestFish_Some send_Some)

lemma current_processSection:
  "processSection rs w a b fishBreed sharkBreed starveEnergy = Some w' \<Longrightarrow> current w' = current w"
  unfolding processSection_def
  by (erule for_each_keeps[rotated], erule for_each_keeps[rotated], erule current_processCell)

lemma current_moveFish:
  "moveFish rs w fishBreed = Some w' \<Longrightarrow> current w' = current w"
  unfolding moveFish_def
  by (erule for_each_keeps[rotated], erule for_each_keeps[rotated], erule current_moveFishCell)

lemma current_moveSharksConcurrent:
  "moveSharksConcurrent rs w sharkBreed starveEnergy = Some w' \<Longrightarrow> current w' = current w"
  unfolding moveSharksConcurrent_def
  by (erule for_each_keeps[rotated], erule for_each_keeps[rotated], erule current_moveSharkCell)

lemma current_applyMove: "applyMove m w = Some w' \<Longrightarrow> current w' = current w"
  by (auto simp: applyMove_def dest!: writeNew_Some)

lemma current_dispatchThreads:
  assumes "dispatchThreads rs w fishBreed sharkBreed starveEnergy threads = Some w'"
  shows "current w' = current w"
proof -
  from assms obtain ng where
    r: "for_each [0..threads - 1]
         (\<lambda>i w. processSection rs w (startRow (Size (current w)) threads i)
                 (endRow (Size (current w)) threads i) fishBreed sharkBreed starveEnergy)
         (w\<lparr>newGrid := ng\<rparr>) = Some w'"
    by (auto simp: dispatchThreads_def split: Option.bind_splits)
  have "current w' = current (w\<lparr>newGrid := ng\<rparr>)"
    using r by (rule for_each_keeps[rotated]) (erule current_processSection)
  then show ?thesis by simp
qed

lemma current_dispatchConcurrent:
  assumes "dispatchConcurrent rs w fishBreed sharkBreed starveEnergy = Some w'"
  shows "current w' = current w"
proof -
  from assms obtain ng w1 ch w2 w3 where
    a: "moveFish rs (w\<lparr>newGrid := ng\<rparr>) fishBreed = Some w1"
    and b: "moveSharksConcurrent rs (w1\<lparr>moveChannel := ch\<rparr>) sharkBreed starveEnergy = Some w2"
    and c: "for_each (queue (moveChannel w2)) applyMove w2 = Some w3"
    and d: "w' = w3\<lparr>moveChannel := (moveChannel w3)\<lparr>queue := []\<rparr>\<rparr>"
    by (auto simp: dispatchConcurrent_def split: Option.bind_splits)
  have "current w3 = current w2" using c by (rule for_each_keeps[rotated]) (erule current_applyMove)
  also have "\<dots> = current (w1\<lparr>moveChannel := ch\<rparr>)" using b by (rule current_moveSharksConcurrent)
  also have "\<dots> = current w1" by simp
  also have "\<dots> = current (w\<lparr>newGrid := ng\<rparr>)" using a by (rule current_moveFish)
  finally show ?thesis using d by simp
qed

text \<open>
  Claim C1 as stated fails: the fish and the shark that the current grid of the example
  references at \<open>(0,1)\<close> and \<open>(0,0)\<close> have other breed counters after the dispatch phase
  than before it, under both strategies.
\<close>

theorem dispatch_mutates_entities_of_current:
  "readCur exampleWorld 0 0 = Some (SharkPtr 0)
   \<and> readCur exampleWorld 0 1 = Some (FishPtr 0)
   \<and> getShark exampleWorld 0 = Some \<lparr>Shark.BreedCounter = 0, Energy = 5\<rparr>
   \<and> getFish exampleWorld 0 = Some \<lparr>Fish.BreedCounter = 0\<rparr>
   \<and> map_option sharkHeap (dispatchThreads zeros exampleWorld 3 3 5 1)
        = Some [\<lparr>Shark.BreedCounter = 1, Energy = 5\<rparr>]
   \<and> map_option fishHeap (dispatchThreads zeros exampleWorld 3 3 5 1)
        = Some [\<lparr>Fish.BreedCounter = 1\<rparr>]
   \<and> map_option sharkHeap (dispatchConcurrent zeros exampleWorld 3 3 5)
        = Some [\<lparr>Shark.BreedCounter = 1, Energy = 5\<rparr>]
   \<and> map_option fishHeap (dispatchConcurrent zeros exampleWorld 3 3 5)
        = Some [\<lparr>Fish.BreedCounter = 1\<rparr>]"
  by (simp add: exampleWorld_dispatchThreads exampleWorld_dispatchConcurrent)
     (simp add: exampleWorld_def exampleGrid_def readCur_def index2_def getShark_def getFish_def)

text \<open>
  Claim C1, amended. The dispatch phase of either strategy never writes the current
  grid: after it, the grid record of the receiver (its size and its cell array, that is,
  which entity object every cell references) is the one before it. The entity objects
  themselves are shared with the next grid and are updated in place.
\<close>

theorem dispatch_keeps_current_cells:
  "(dispatchThreads rs w fishBreed sharkBreed starveEnergy threads = Some w' \<longrightarrow> current w' = current w)
   \<and> (dispatchConcurrent rs w fishBreed sharkBreed starveEnergy = Some w'' \<longrightarrow> current w'' = current w)"
  using current_dispatchThreads current_dispatchConcurrent by blast

theorem dispatch_keeps_current_cells_witness:
  "dispatchThreads zeros exampleWorld 3 3 5 1 \<noteq> None
   \<and> map_option current (dispatchThreads zeros exampleWorld 3 3 5 1) = Some (current exampleWorld)
   \<and> dispatchConcurrent zeros exampleWorld 3 3 5 \<noteq> None
   \<and> map_option current (dispatchConcurrent zeros exampleWorld 3 3 5) = Some (current exampleWorld)"
proof -
  obtain w' where a: "dispatchThreads zeros exampleWorld 3 3 5 1 = Some w'"
    by (simp add: exampleWorld_dispatchThreads)
  obtain w'' where b: "dispatchConcurrent zeros exampleWorld 3 3 5 = Some w''"
    by (simp add: exampleWorld_dispatchConcurrent)
  have "current w' = current exampleWorld" "current w'' = current exampleWorld"
    using dispatch_keeps_current_cells[of zeros exampleWorld 3 3 5 1 w' w''] a b by simp_all
  then show ?thesis by (simp add: a b)
qed

section \<open>Steps on well-formed worlds\<close>

lemma assign2_wf:
  assumes "wfGrid g" "0 \<le> i" "i < Size g" "0 \<le> j" "j < Size g"
  shows "\<exists>cs. assign2 (Cells g) i j c = Some cs \<and> wfGrid (g\<lparr>Cells := cs\<rparr>)"
proof -
  have l: "nat i < length (Cells g)" using assms by (simp add: wfGrid_def)
  then have r: "int (length (Cells g ! nat i)) = Size g" using assms(1) by (simp add: wfGrid_def)
  have a: "assign2 (Cells g) i j c = Some ((Cells g)[nat i := (Cells g ! nat i)[nat j := c]])"
    using assms l r by (simp add: assign2_def wfGrid_def)
  have "wfGrid (g\<lparr>Cells := (Cells g)[nat i := (Cells g ! nat i)[nat j := c]]\<rparr>)"
    using assms(1) r by (auto simp: wfGrid_def dest!: set_update_subset_insert[THEN subsetD])
  then show ?thesis using a by simp
qed

lemma writeNew_wf:
  assumes "wfGrid (newGrid w)" "0 \<le> i" "i < Size (newGrid w)" "0 \<le> j" "j < Size (newGrid w)"
  shows "\<exists>cs. assign2 (Cells (newGrid w)) i j c = Some cs
            \<and> writeNew w i j c = Some (w\<lparr>newGrid := (newGrid w)\<lparr>Cells := cs\<rparr>\<rparr>)
            \<and> wfGrid ((newGrid w)\<lparr>Cells := cs\<rparr>)"
  using assign2_wf[OF assms, of c] by (auto simp: writeNew_def)

lemma scanEmpty_result:
  assumes "wfGrid g" "1 \<le> Size g" "0 \<le> x" "x < Size g" "0 \<le> y" "y < Size g"
  shows "set dirs \<subseteq> set directions \<Longrightarrow>
     \<exists>pos. scanEmpty g x y dirs = Some pos
        \<and> (pos = (-1, -1)
           \<or> 0 \<le> fst pos \<and> fst pos < Size g \<and> 0 \<le> snd pos \<and> snd pos < Size g
             \<and> index2 (Cells g) (fst pos) (snd pos) = Some NilEntity)"
proof (induction dirs)
  case Nil
  then show ?case by simp
next
  case (Cons d dirs)
  then have d: "d \<in> set directions" and sub: "set dirs \<subseteq> set directions" by simp_all
  note nc = neighbourCell_wf[OF assms d]
  have r: "0 \<le> (x + fst d) mod Size g" "(x + fst d) mod Size g < Size g"
    "0 \<le> (y + snd d) mod Size g" "(y + snd d) mod Size g < Size g"
    using assms(2) by simp_all
  show ?case
  proof (cases "Cells g ! nat ((x + fst d) mod Size g) ! nat ((y + snd d) mod Size g) = NilEntity")
    case True
    then show ?thesis using nc r index2_wf[OF assms(1) r] by simp
  next
    case False
    then show ?thesis using nc Cons.IH[OF sub] by simp
  qed
qed

lemma scanFish_result:
  assumes "wfGrid g" "1 \<le> Size g" "0 \<le> x" "x < Size g" "0 \<le> y" "y < Size g"
  shows "set dirs \<subseteq> set directions \<Longrightarrow>
     \<exists>pos. scanFish g x y dirs = Some pos
        \<and> (pos = (-1, -1)
           \<or> 0 \<le> fst pos \<and> fst pos < Size g \<and> 0 \<le> snd pos \<and> snd pos < Size g
             \<and> (\<exists>c. index2 (Cells g) (fst pos) (snd pos) = Some c \<and> isFish c))"
proof (induction dirs)
  case Nil
  then show ?case by simp
next
  case (Cons d dirs)
  then have d: "d \<in> set directions" and sub: "set dirs \<subseteq> set directions" by simp_all
  note nc = neighbourCell_wf[OF assms d]
  have r: "0 \<le> (x + fst d) mod Size g" "(x + fst d) mod Size g < Size g"
    "0 \<le> (y + snd d) mod Size g" "(y + snd d) mod Size g < Size g"
    using assms(2) by simp_all
  show ?case
  proof (cases "isFish (Cells g ! nat ((x + fst d) mod Size g) ! nat ((y + snd d) mod Size g))")
    case True
    then show ?thesis using nc r index2_wf[OF assms(1) r] by simp
  next
    case False
    then show ?thesis using nc Cons.IH[OF sub] by simp
  qed
qed

lemma findEmptyAdjacent_result:
  assumes "wfGrid (current w)" "1 \<le> Size (current w)"
    "0 \<le> x" "x < Size (current w)" "0 \<le> y" "y < Size (current w)"
  shows "\<exists>pos. findEmptyAdjacent rs w x y = Some (w\<lparr>drawn := drawn w + 3\<rparr>, pos)
        \<and> (pos = (-1, -1)
           \<or> 0 \<le> fst pos \<and> fst pos < Size (current w) \<and> 0 \<le> snd pos \<and> snd pos < Size (current w)
             \<and> readCur w (fst pos) (snd pos) = Some NilEntity)"
proof -
  have "set (Shuffle rs (drawn w) directions) \<subseteq> set directions" by (simp add: set_Shuffle)
  from scanEmpty_result[OF assms this] show ?thesis
    by (auto simp: findEmptyAdjacent_def directions_def readCur_def)
qed

lemma findNearestFish_result:
  assumes "wfGrid (current w)" "1 \<le> Size (current w)"
    "0 \<le> x" "x < Size (current w)" "0 \<le> y" "y < Size (current w)"
  shows "\<exists>pos. findNearestFish rs w x y = Some (w\<lparr>drawn := drawn w + 3\<rparr>, pos)
        \<and> (pos = (-1, -1)
           \<or> 0 \<le> fst pos \<and> fst pos < Size (current w) \<and> 0 \<le> snd pos \<and> snd pos < Size (current w)
             \<and> (\<exists>c. readCur w (fst pos) (snd pos) = Some c \<and> isFish c))"
proof -
  have "set (Shuffle rs (drawn w) directions) \<subseteq> set directions" by (simp add: set_Shuffle)
  from scanFish_result[OF assms this] show ?thesis
    by (auto simp: findNearestFish_def directions_def readCur_def)
qed


lemma Fish_zero: "(f::Fish)\<lparr>Fish.BreedCounter := 0\<rparr> = \<lparr>Fish.BreedCounter = 0\<rparr>"
  by (cases f) simp

lemma processFish_effect:
  assumes wf: "wfWorld w"
    and xy: "0 \<le> x" "x < Size (current w)" "0 \<le> y" "y < Size (current w)"
    and f: "getFish w fish = Some f"
  shows "\<exists>pos cs1. findEmptyAdjacent rs w x y = Some (w\<lparr>drawn := drawn w + 3\<rparr>, pos)
      \<and> (pos = (-1, -1)
           \<or> 0 \<le> fst pos \<and> fst pos < Size (current w) \<and> 0 \<le> snd pos \<and> snd pos < Size (current w)
             \<and> readCur w (fst pos) (snd pos) = Some NilEntity)
      \<and> assign2 (Cells (newGrid w)) (fst (destination pos x y)) (snd (destination pos x y)) (FishPtr fish)
            = Some cs1
      \<and> (if fishBreed \<le> int64 (Fish.BreedCounter f + 1)
          then \<exists>cs2. assign2 cs1 x y (FishPtr (length (fishHeap w))) = Some cs2
                 \<and> processFish rs w fish x y fishBreed
                     = Some (w\<lparr>drawn := drawn w + 3, newGrid := (newGrid w)\<lparr>Cells := cs2\<rparr>,
                              fishHeap := (fishHeap w)[fish := \<lparr>Fish.BreedCounter = 0\<rparr>]
                                            @ [\<lparr>Fish.BreedCounter = 0\<rparr>]\<rparr>)
          else processFish rs w fish x y fishBreed
                 = Some (w\<lparr>drawn := drawn w + 3, newGrid := (newGrid w)\<lparr>Cells := cs1\<rparr>,
                          fishHeap := (fishHeap w)[fish := f\<lparr>Fish.BreedCounter := int64 (Fish.BreedCounter f + 1)\<rparr>]\<rparr>))"
proof -
  from wf have wfc: "wfGrid (current w)" and wfn: "wfGrid (newGrid w)"
    and sz: "Size (newGrid w) = Size (current w)" and N: "1 \<le> Size (current w)"
    by (simp_all add: wfWorld_def)
  from findEmptyAdjacent_result[OF wfc N xy, of rs] obtain pos where
    fe: "findEmptyAdjacent rs w x y = Some (w\<lparr>drawn := drawn w + 3\<rparr>, pos)"
    and pos: "pos = (-1, -1)
           \<or> 0 \<le> fst pos \<and> fst pos < Size (current w) \<and> 0 \<le> snd pos \<and> snd pos < Size (current w)
             \<and> readCur w (fst pos) (snd pos) = Some NilEntity"
    by blast
  let ?w1 = "w\<lparr>drawn := drawn w + 3\<rparr>"
  let ?d = "destination pos x y"
  have dr: "0 \<le> fst ?d" "fst ?d < Size (newGrid ?w1)" "0 \<le> snd ?d" "snd ?d < Size (newGrid ?w1)"
    using pos xy sz by (auto simp: destination_def)
  have wfn1: "wfGrid (newGrid ?w1)" using wfn by simp
  from writeNew_wf[OF wfn1 dr, of "FishPtr fish"] obtain cs1 where
    a1: "assign2 (Cells (newGrid w)) (fst ?d) (snd ?d) (FishPtr fish) = Some cs1"
    and w1: "writeNew ?w1 (fst ?d) (snd ?d) (FishPtr fish) = Some (?w1\<lparr>newGrid := (newGrid w)\<lparr>Cells := cs1\<rparr>\<rparr>)"
    and wf1: "wfGrid ((newGrid w)\<lparr>Cells := cs1\<rparr>)"
    by auto
  let ?w2 = "?w1\<lparr>newGrid := (newGrid w)\<lparr>Cells := cs1\<rparr>\<rparr>"
  have step2: "(if fst pos \<noteq> -1 \<and> snd pos \<noteq> -1 then writeNew ?w1 (fst pos) (snd pos) (FishPtr fish)
            else writeNew ?w1 x y (FishPtr fish)) = Some ?w2"
    using w1 by (auto simp: destination_def split: if_splits)
  have fl: "fish < length (fishHeap w)" and fv: "fishHeap w ! fish = f"
    using f by (auto simp: getFish_def split: if_splits)
  have g2: "getFish ?w2 fish = Some f" using fl fv by (simp add: getFish_def)
  let ?b = "int64 (Fish.BreedCounter f + 1)"
  let ?w3 = "putFish ?w2 fish (f\<lparr>Fish.BreedCounter := ?b\<rparr>)"
  have head: "processFish rs w fish x y fishBreed =
      (if fishBreed \<le> ?b then do {
         let (w4, baby) = allocFish ?w3 \<lparr>Fish.BreedCounter = 0\<rparr>;
         w5 \<leftarrow> writeNew w4 x y (FishPtr baby);
         f' \<leftarrow> getFish w5 fish;
         Some (putFish w5 fish (f'\<lparr>Fish.BreedCounter := 0\<rparr>))
       } else Some ?w3)"
  proof (cases "fst pos \<noteq> -1 \<and> snd pos \<noteq> -1")
    case True
    then have "writeNew ?w1 (fst pos) (snd pos) (FishPtr fish) = Some ?w2"
      using step2 by simp
    then show ?thesis unfolding processFish_def using True g2
      by (simp add: fe case_prod_beta Let_def)
  next
    case False
    then have "writeNew ?w1 x y (FishPtr fish) = Some ?w2"
      using step2 by auto
    then show ?thesis unfolding processFish_def using g2
      by (simp add: fe case_prod_beta Let_def False)
  qed
  show ?thesis
  proof (cases "fishBreed \<le> ?b")
    case False
    then have "processFish rs w fish x y fishBreed
                 = Some (w\<lparr>drawn := drawn w + 3, newGrid := (newGrid w)\<lparr>Cells := cs1\<rparr>,
                          fishHeap := (fishHeap w)[fish := f\<lparr>Fish.BreedCounter := ?b\<rparr>]\<rparr>)"
      unfolding head by (simp add: putFish_def)
    then show ?thesis using fe pos a1 False by auto
  next
    case True
    let ?w4 = "?w3\<lparr>fishHeap := fishHeap ?w3 @ [\<lparr>Fish.BreedCounter = 0\<rparr>]\<rparr>"
    have wf4: "wfGrid (newGrid ?w4)" using wf1 by (simp add: putFish_def)
    have r4: "0 \<le> x" "x < Size (newGrid ?w4)" "0 \<le> y" "y < Size (newGrid ?w4)"
      using xy sz by (simp_all add: putFish_def)
    from writeNew_wf[OF wf4 r4, of "FishPtr (length (fishHeap w))"] obtain cs2 where
      a2: "assign2 cs1 x y (FishPtr (length (fishHeap w))) = Some cs2"
      and w5: "writeNew ?w4 x y (FishPtr (length (fishHeap w))) = Some (?w4\<lparr>newGrid := (newGrid ?w4)\<lparr>Cells := cs2\<rparr>\<rparr>)"
      by (auto simp: putFish_def)
    have "processFish rs w fish x y fishBreed
                     = Some (w\<lparr>drawn := drawn w + 3, newGrid := (newGrid w)\<lparr>Cells := cs2\<rparr>,
                              fishHeap := (fishHeap w)[fish := \<lparr>Fish.BreedCounter = 0\<rparr>]
                                            @ [\<lparr>Fish.BreedCounter = 0\<rparr>]\<rparr>)"
      unfolding head using True w5 fl
      by (simp add: allocFish_def putFish_def getFish_def nth_append list_update_append Fish_zero)
    then show ?thesis using fe pos a1 a2 True by auto
  qed
qed


section \<open>The workers of the row-partition step\<close>

lemma for_each_append:
  "for_each (xs @ ys) f s = (case for_each xs f s of None \<Rightarrow> None | Some s' \<Rightarrow> for_each ys f s')"
  by (induction xs arbitrary: s) (simp_all split: option.splits)

lemma for_each_concat_map:
  "for_each (concat (map r js)) f s = for_each js (\<lambda>i. for_each (r i) f) s"
proof (induction js arbitrary: s)
  case Nil
  show ?case by simp
next
  case (Cons j js)
  show ?case by (simp add: for_each_append Cons.IH split: option.splits)
qed

lemma upto_append: "i \<le> j + 1 \<Longrightarrow> j \<le> k \<Longrightarrow> [i..j] @ [j + 1..k] = [i..k]"
proof (cases "j + 1 \<le> k")
  case True
  assume "i \<le> j + 1"
  then show ?thesis using True upto_split1[of i "j + 1" k] by simp
next
  case False
  assume "j \<le> k"
  then have "j = k" using False by simp
  then show ?thesis by simp
qed

lemma ranges_prefix:
  fixes q :: int
  assumes q: "0 \<le> q" and k: "0 \<le> k"
  shows "concat (map (\<lambda>i. [i * q..i * q + q - 1]) [0..k - 1]) = [0..k * q - 1]"
  using k
proof (induction k rule: int_ge_induct)
  case base
  show ?case by simp
next
  case (step k)
  have u: "[0..k + 1 - 1] = [0..k - 1] @ [k]" using step.hyps upto_rec2[of 0 k] by simp
  have "concat (map (\<lambda>i. [i * q..i * q + q - 1]) [0..k + 1 - 1])
        = [0..k * q - 1] @ [k * q..k * q + q - 1]"
    unfolding u using step.IH by simp
  also have "\<dots> = [0..(k + 1) * q - 1]"
  proof -
    have a: "0 \<le> k * q" using step.hyps q by simp
    have "[0..k * q - 1] @ [k * q - 1 + 1..k * q + q - 1] = [0..k * q + q - 1]"
      using a q by (intro upto_append) simp_all
    then show ?thesis by (simp add: algebra_simps)
  qed
  finally show ?case .
qed

lemma ranges_concat:
  assumes N: "0 \<le> N" and T: "1 \<le> threads"
  shows "concat (map (\<lambda>i. [startRow N threads i..endRow N threads i - 1]) [0..threads - 1]) = [0..N - 1]"
proof -
  define q where "q = N div threads"
  have sd: "N sdiv threads = q" using N T by (simp add: sdiv_nonneg q_def)
  have q0: "0 \<le> q" using N T by (simp add: q_def pos_imp_zdiv_nonneg_iff)
  have qT: "threads * q \<le> N"
    using T mult_le_iff_le_div[of threads q N] by (simp add: q_def mult.commute)
  have last: "(threads - 1) * q \<le> N"
  proof -
    have "(threads - 1) * q \<le> threads * q" using q0 by (simp add: mult_right_mono)
    then show ?thesis using qT by linarith
  qed
  define r where "r = (\<lambda>i. [startRow N threads i..endRow N threads i - 1])"
  have split: "[0..threads - 1] = [0..threads - 2] @ [threads - 1]"
    using T upto_rec2[of 0 "threads - 1"] by simp
  have inner: "map r [0..threads - 2] = map (\<lambda>i. [i * q..i * q + q - 1]) [0..threads - 2]"
    by (rule map_cong) (auto simp: r_def startRow_def endRow_def sd)
  have lastr: "r (threads - 1) = [(threads - 1) * q..N - 1]"
    by (simp add: r_def startRow_def endRow_def sd)
  have "concat (map r [0..threads - 1]) = concat (map r [0..threads - 2]) @ r (threads - 1)"
    by (simp only: split map_append concat_append list.map concat.simps append_Nil2)
  also have "\<dots> = concat (map (\<lambda>i. [i * q..i * q + q - 1]) [0..threads - 2]) @ [(threads - 1) * q..N - 1]"
    by (simp only: inner lastr)
  also have "\<dots> = [0..(threads - 1) * q - 1] @ [(threads - 1) * q..N - 1]"
    using ranges_prefix[OF q0, of "threads - 1"] T by simp
  also have "\<dots> = [0..N - 1]"
  proof -
    have a: "0 \<le> (threads - 1) * q" using T q0 by simp
    have "[0..(threads - 1) * q - 1] @ [(threads - 1) * q - 1 + 1..N - 1] = [0..N - 1]"
      using a last by (intro upto_append) simp_all
    then show ?thesis by simp
  qed
  finally show ?thesis by (simp add: r_def)
qed


lemma dispatchThreads_rows:
  assumes T: "1 \<le> threads"
  shows "dispatchThreads rs w fishBreed sharkBreed starveEnergy threads =
     (case NewGrid (Size (current w)) of None \<Rightarrow> None
      | Some ng \<Rightarrow> processSection rs (w\<lparr>newGrid := ng\<rparr>) 0 (Size (current w))
                    fishBreed sharkBreed starveEnergy)"
proof (cases "NewGrid (Size (current w))")
  case None
  then show ?thesis by (simp add: dispatchThreads_def)
next
  case (Some ng)
  define N where "N = Size (current w)"
  define w0 where "w0 = w\<lparr>newGrid := ng\<rparr>"
  define rowBody where "rowBody = (\<lambda>x s. for_each [0..Size (current s) - 1]
                 (processCell rs fishBreed sharkBreed starveEnergy x) s)"
  define r where "r = (\<lambda>i. [startRow N threads i..endRow N threads i - 1])"
  have N0: "0 \<le> N" using Some by (auto simp: NewGrid_def N_def split: if_splits)
  have c0: "current w0 = current w" by (simp add: w0_def)
  have gd: "goDiv (Size (current w)) threads \<noteq> None" using T by (auto simp: goDiv_def)
  have d: "dispatchThreads rs w fishBreed sharkBreed starveEnergy threads =
        for_each [0..threads - 1]
          (\<lambda>i s. processSection rs s (startRow (Size (current s)) threads i)
                 (endRow (Size (current s)) threads i) fishBreed sharkBreed starveEnergy) w0"
    using Some gd by (auto simp: dispatchThreads_def w0_def)
  also have "\<dots> = for_each [0..threads - 1] (\<lambda>i. for_each (r i) rowBody) w0"
  proof (rule for_each_cong_inv[where I = "\<lambda>s. current s = current w"])
    show "current w0 = current w" by fact
  next
    fix i :: int and s s' :: world
    assume c: "current s = current w"
      and p: "processSection rs s (startRow (Size (current s)) threads i)
                 (endRow (Size (current s)) threads i) fishBreed sharkBreed starveEnergy = Some s'"
    show "current s' = current w" using current_processSection[OF p] c by simp
  next
    fix i :: int and s :: world
    assume c: "current s = current w"
    show "processSection rs s (startRow (Size (current s)) threads i)
                 (endRow (Size (current s)) threads i) fishBreed sharkBreed starveEnergy
          = for_each (r i) rowBody s"
      by (simp add: processSection_def r_def rowBody_def c N_def)
  qed
  also have "\<dots> = for_each (concat (map r [0..threads - 1])) rowBody w0"
    by (simp add: for_each_concat_map)
  also have "\<dots> = for_each [0..N - 1] rowBody w0"
    using ranges_concat[OF N0 T] by (simp add: r_def)
  also have "\<dots> = processSection rs w0 0 N fishBreed sharkBreed starveEnergy"
    by (simp add: processSection_def rowBody_def)
  finally show ?thesis using Some by (simp add: w0_def N_def)
qed


lemma rows_fixed_size:
  assumes "Size (current s0) = N"
  shows "for_each xs (\<lambda>x s. for_each [0..Size (current s) - 1]
                 (processCell rs fishBreed sharkBreed starveEnergy x) s) s0
       = for_each xs (\<lambda>x s. for_each [0..N - 1]
                 (processCell rs fishBreed sharkBreed starveEnergy x) s) s0"
proof (rule for_each_cong_inv[where I = "\<lambda>s. current s = current s0"])
  show "current s0 = current s0" by simp
next
  fix x :: int and s s' :: world
  assume c: "current s = current s0"
    and l: "for_each [0..Size (current s) - 1] (processCell rs fishBreed sharkBreed starveEnergy x) s = Some s'"
  have "current s' = current s"
    using l by (rule for_each_keeps[rotated]) (erule current_processCell)
  then show "current s' = current s0" using c by simp
next
  fix x :: int and s :: world
  assume "current s = current s0"
  then show "for_each [0..Size (current s) - 1] (processCell rs fishBreed sharkBreed starveEnergy x) s
      = for_each [0..N - 1] (processCell rs fishBreed sharkBreed starveEnergy x) s"
    using assms by simp
qed

lemma dispatchThreads_all_rows:
  assumes T: "1 \<le> threads" and sz: "Size (current w) = N"
  shows "dispatchThreads rs w fishBreed sharkBreed starveEnergy threads =
     (case NewGrid N of None \<Rightarrow> None
      | Some ng \<Rightarrow> for_each [0..N - 1]
          (\<lambda>x s. for_each [0..N - 1] (processCell rs fishBreed sharkBreed starveEnergy x) s)
          (w\<lparr>newGrid := ng\<rparr>))"
proof (cases "NewGrid N")
  case None
  then show ?thesis using sz by (simp add: dispatchThreads_rows[OF T])
next
  case (Some ng)
  have "Size (current (w\<lparr>newGrid := ng\<rparr>)) = N" using sz by simp
  from rows_fixed_size[OF this, of "[0..N - 1]" rs fishBreed sharkBreed starveEnergy]
  show ?thesis using Some sz by (simp add: dispatchThreads_rows[OF T] processSection_def)
qed

lemma dispatchThreads_workers:
  assumes T: "1 \<le> threads" and sz: "Size (current w) = N"
  shows "dispatchThreads rs w fishBreed sharkBreed starveEnergy threads =
     (case NewGrid N of None \<Rightarrow> None
      | Some ng \<Rightarrow> for_each [0..threads - 1]
          (\<lambda>i s. for_each [startRow N threads i..endRow N threads i - 1]
             (\<lambda>x s. for_each [0..N - 1] (processCell rs fishBreed sharkBreed starveEnergy x) s) s)
          (w\<lparr>newGrid := ng\<rparr>))"
proof (cases "NewGrid N")
  case None
  then show ?thesis using sz by (simp add: dispatchThreads_rows[OF T])
next
  case (Some ng)
  define w0 where "w0 = w\<lparr>newGrid := ng\<rparr>"
  define body where "body = (\<lambda>x s. for_each [0..N - 1] (processCell rs fishBreed sharkBreed starveEnergy x) s)"
  have N0: "0 \<le> N" using Some by (auto simp: NewGrid_def split: if_splits)
  have "dispatchThreads rs w fishBreed sharkBreed starveEnergy threads = for_each [0..N - 1] body w0"
    using dispatchThreads_all_rows[OF T sz, of rs fishBreed sharkBreed starveEnergy] Some
    by (simp add: w0_def body_def)
  also have "\<dots> = for_each (concat (map (\<lambda>i. [startRow N threads i..endRow N threads i - 1])
                           [0..threads - 1])) body w0"
    using ranges_concat[OF N0 T] by simp
  also have "\<dots> = for_each [0..threads - 1]
                  (\<lambda>i. for_each [startRow N threads i..endRow N threads i - 1] body) w0"
    by (rule for_each_concat_map)
  finally show ?thesis using Some by (simp add: w0_def body_def)
qed

section \<open>Row partition\<close>

text \<open>
  Claim C7. For a grid of side \<open>N \<ge> 1\<close> and \<open>threads \<ge> 1\<close> workers, every row index in
  \<open>[0, N)\<close> lies in the range \<open>[startRow, endRow)\<close> of exactly one worker; the ranges
  start at row \<open>0\<close>, each one ends where the next begins, and the last one ends at \<open>N\<close>
  (it takes the remainder), so the ranges of workers \<open>0, \<dots>, threads - 1\<close> put end to end
  are the rows \<open>0, \<dots>, N - 1\<close>. The dispatcher hands worker \<open>i\<close> exactly its range: the
  dispatch phase is the run, for each worker \<open>i\<close> in \<open>[0, threads)\<close>, of the cell processing
  over all \<open>N\<close> columns of the rows \<open>startRow i, \<dots>, endRow i - 1\<close>; with the workers taken in
  launch order this visits every row \<open>0, \<dots>, N - 1\<close> once, whatever \<open>threads\<close> is.
\<close>

theorem row_ranges_partition:
  assumes N: "1 \<le> N" and T: "1 \<le> threads" and r0: "0 \<le> row" and rN: "row < N"
    and sz: "Size (current w) = N"
  shows "(\<exists>!i. 0 \<le> i \<and> i < threads \<and> startRow N threads i \<le> row \<and> row < endRow N threads i)
       \<and> startRow N threads 0 = 0
       \<and> endRow N threads (threads - 1) = N
       \<and> (\<forall>i. 0 \<le> i \<and> i < threads - 1 \<longrightarrow> endRow N threads i = startRow N threads (i + 1))
       \<and> (\<forall>i. 0 \<le> i \<and> i < threads \<longrightarrow> startRow N threads i \<le> endRow N threads i)
       \<and> concat (map (\<lambda>i. [startRow N threads i..endRow N threads i - 1]) [0..threads - 1]) = [0..N - 1]
       \<and> dispatchThreads rs w fishBreed sharkBreed starveEnergy threads =
           (case NewGrid N of None \<Rightarrow> None
            | Some ng \<Rightarrow> for_each [0..threads - 1]
                (\<lambda>i s. for_each [startRow N threads i..endRow N threads i - 1]
                   (\<lambda>x s. for_each [0..N - 1] (processCell rs fishBreed sharkBreed starveEnergy x) s) s)
                (w\<lparr>newGrid := ng\<rparr>))
       \<and> dispatchThreads rs w fishBreed sharkBreed starveEnergy threads =
           (case NewGrid N of None \<Rightarrow> None
            | Some ng \<Rightarrow> for_each [0..N - 1]
                (\<lambda>x s. for_each [0..N - 1] (processCell rs fishBreed sharkBreed starveEnergy x) s)
                (w\<lparr>newGrid := ng\<rparr>))"
proof -
  have N0: "0 \<le> N" using N by simp
  show ?thesis
    by (intro conjI row_ranges_arith[OF N T r0 rN, THEN conjunct1]
        row_ranges_arith[OF N T r0 rN, THEN conjunct2, THEN conjunct1]
        row_ranges_arith[OF N T r0 rN, THEN conjunct2, THEN conjunct2, THEN conjunct1]
        row_ranges_arith[OF N T r0 rN, THEN conjunct2, THEN conjunct2, THEN conjunct2, THEN conjunct1]
        row_ranges_arith[OF N T r0 rN, THEN conjunct2, THEN conjunct2, THEN conjunct2, THEN conjunct2]
        ranges_concat[OF N0 T] dispatchThreads_workers[OF T sz] dispatchThreads_all_rows[OF T sz])
qed

theorem row_ranges_partition_witness:
  "(1::int) \<le> 3 \<and> (1::int) \<le> 2 \<and> Size (current exampleWorld) = 3
   \<and> (\<exists>!i. 0 \<le> i \<and> i < 2 \<and> startRow 3 2 i \<le> 2 \<and> 2 < endRow 3 2 i)
   \<and> startRow 3 2 0 = 0 \<and> endRow 3 2 0 = 1 \<and> startRow 3 2 1 = 1 \<and> endRow 3 2 1 = 3
   \<and> dispatchThreads zeros exampleWorld 3 3 5 2 = dispatchThreads zeros exampleWorld 3 3 5 1
   \<and> map_option (Cells \<circ> newGrid) (dispatchThreads zeros exampleWorld 3 3 5 2)
       = Some [[NilEntity, SharkPtr 0, NilEntity], [NilEntity, FishPtr 0, NilEntity],
               [NilEntity, NilEntity, NilEntity]]"
proof -
  have sz: "Size (current exampleWorld) = 3" by (simp add: exampleWorld_def exampleGrid_def)
  have p: "(1::int) \<le> 3" "(1::int) \<le> 2" "(0::int) \<le> 2" "(2::int) < 3" "(1::int) \<le> 1" by simp_all
  note h2 = row_ranges_partition[OF p(1) p(2) p(3) p(4) sz, of zeros 3 3 5]
  note h1 = row_ranges_partition[OF p(1) p(5) p(3) p(4) sz, of zeros 3 3 5]
  from h2 have e: "\<exists>!i. 0 \<le> i \<and> i < 2 \<and> startRow 3 2 i \<le> 2 \<and> 2 < endRow 3 2 i"
    by (rule conjunct1)
  from h2 have d2: "dispatchThreads zeros exampleWorld 3 3 5 2 =
           (case NewGrid 3 of None \<Rightarrow> None
            | Some ng \<Rightarrow> for_each [0..3 - 1]
                (\<lambda>x s. for_each [0..3 - 1] (processCell zeros 3 3 5 x) s)
                (exampleWorld\<lparr>newGrid := ng\<rparr>))"
    by (elim conjE)
  from h1 have d1: "dispatchThreads zeros exampleWorld 3 3 5 1 =
           (case NewGrid 3 of None \<Rightarrow> None
            | Some ng \<Rightarrow> for_each [0..3 - 1]
                (\<lambda>x s. for_each [0..3 - 1] (processCell zeros 3 3 5 x) s)
                (exampleWorld\<lparr>newGrid := ng\<rparr>))"
    by (elim conjE)
  have eq: "dispatchThreads zeros exampleWorld 3 3 5 2 = dispatchThreads zeros exampleWorld 3 3 5 1"
    by (simp only: d1 d2)
  have v: "map_option (Cells \<circ> newGrid) (dispatchThreads zeros exampleWorld 3 3 5 2)
       = Some [[NilEntity, SharkPtr 0, NilEntity], [NilEntity, FishPtr 0, NilEntity],
               [NilEntity, NilEntity, NilEntity]]"
    unfolding eq by (simp add: exampleWorld_dispatchThreads)
  show ?thesis
    by (intro conjI e sz eq v) (simp_all add: startRow_def endRow_def signed_divide_int_def)
qed

section \<open>A shark's turn\<close>

lemma MoveEntitiesWithThreads_any:
  "1 \<le> threads \<Longrightarrow>
     MoveEntitiesWithThreads rs w fishBreed sharkBreed starveEnergy threads
       = MoveEntitiesWithThreads rs w fishBreed sharkBreed starveEnergy 1"
  by (simp add: MoveEntitiesWithThreads_def dispatchThreads_rows)

lemma shark_eat_stage:
  assumes "do { w' \<leftarrow> writeNew w2 nx ny (SharkPtr shark);
               s' \<leftarrow> getShark w' shark;
               Some (putShark w' shark (s'\<lparr>Energy := starveEnergy\<rparr>)) } = Some w3"
    and "getShark w2 shark = Some s2"
  shows "\<exists>cs. assign2 (Cells (newGrid w2)) nx ny (SharkPtr shark) = Some cs
           \<and> w3 = w2\<lparr>newGrid := (newGrid w2)\<lparr>Cells := cs\<rparr>,
                      sharkHeap := (sharkHeap w2)[shark := s2\<lparr>Energy := starveEnergy\<rparr>]\<rparr>"
  using assms
  by (auto simp: putShark_def getShark_def split: Option.bind_splits if_splits dest!: writeNew_Some)

lemma shark_roam_stage:
  assumes "do { (w', newX, newY) \<leftarrow> findEmptyAdjacent rs w2 x y;
               if newX \<noteq> -1 \<and> newY \<noteq> -1 then writeNew w' newX newY (SharkPtr shark)
               else writeNew w' x y (SharkPtr shark) } = Some w3"
  shows "\<exists>pos cs. scanEmpty (current w2) x y (Shuffle rs (drawn w2) directions) = Some pos
           \<and> assign2 (Cells (newGrid w2)) (fst (destination pos x y)) (snd (destination pos x y))
                 (SharkPtr shark) = Some cs
           \<and> w3 = w2\<lparr>drawn := drawn w2 + 3, newGrid := (newGrid w2)\<lparr>Cells := cs\<rparr>\<rparr>"
proof -
  from assms obtain w1 nx ny where fe0: "findEmptyAdjacent rs w2 x y = Some (w1, nx, ny)"
    and wr0: "(if nx \<noteq> -1 \<and> ny \<noteq> -1 then writeNew w1 nx ny (SharkPtr shark)
              else writeNew w1 x y (SharkPtr shark)) = Some w3"
    by (auto split: Option.bind_splits prod.splits)
  define pos where "pos = (nx, ny)"
  have fe: "findEmptyAdjacent rs w2 x y = Some (w1, pos)" using fe0 by (simp add: pos_def)
  have wr: "(if fst pos \<noteq> -1 \<and> snd pos \<noteq> -1 then writeNew w1 (fst pos) (snd pos) (SharkPtr shark)
              else writeNew w1 x y (SharkPtr shark)) = Some w3"
    using wr0 by (auto simp: pos_def split: if_splits)
  from findEmptyAdjacent_Some[OF fe] have w1: "w1 = w2\<lparr>drawn := drawn w2 + 3\<rparr>"
    and sc: "scanEmpty (current w2) x y (Shuffle rs (drawn w2) directions) = Some pos" by simp_all
  from wr have "writeNew w1 (fst (destination pos x y)) (snd (destination pos x y)) (SharkPtr shark) = Some w3"
    by (auto simp: destination_def split: if_splits)
  from writeNew_Some[OF this] obtain cs where
    "assign2 (Cells (newGrid w2)) (fst (destination pos x y)) (snd (destination pos x y))
                 (SharkPtr shark) = Some cs"
    "w3 = w2\<lparr>drawn := drawn w2 + 3, newGrid := (newGrid w2)\<lparr>Cells := cs\<rparr>\<rparr>"
    by (auto simp: w1)
  with sc show ?thesis by blast
qed

lemma Shark_breed_zero:
  "(s::Shark)\<lparr>Shark.BreedCounter := b\<rparr>\<lparr>Shark.BreedCounter := 0\<rparr> = s\<lparr>Shark.BreedCounter := 0\<rparr>"
  by simp

lemma shark_breed_stage:
  assumes "do { s3 \<leftarrow> getShark w3 shark;
               let b = int64 (Shark.BreedCounter s3 + 1);
               let w4 = putShark w3 shark (s3\<lparr>Shark.BreedCounter := b\<rparr>);
               if b \<ge> sharkBreed then do {
                 let (w5, baby) = allocShark w4 \<lparr>Shark.BreedCounter = 0, Energy = starveEnergy\<rparr>;
                 w6 \<leftarrow> writeNew w5 x y (SharkPtr baby);
                 s6 \<leftarrow> getShark w6 shark;
                 Some (putShark w6 shark (s6\<lparr>Shark.BreedCounter := 0\<rparr>))
               } else Some w4 } = Some w'"
  shows "\<exists>s3. getShark w3 shark = Some s3
      \<and> (if sharkBreed \<le> int64 (Shark.BreedCounter s3 + 1)
          then \<exists>cs. assign2 (Cells (newGrid w3)) x y (SharkPtr (length (sharkHeap w3))) = Some cs
                 \<and> w' = w3\<lparr>newGrid := (newGrid w3)\<lparr>Cells := cs\<rparr>,
                           sharkHeap := (sharkHeap w3)[shark := s3\<lparr>Shark.BreedCounter := 0\<rparr>]
                                          @ [\<lparr>Shark.BreedCounter = 0, Energy = starveEnergy\<rparr>]\<rparr>
          else w' = w3\<lparr>sharkHeap := (sharkHeap w3)
                        [shark := s3\<lparr>Shark.BreedCounter := int64 (Shark.BreedCounter s3 + 1)\<rparr>]\<rparr>)"
  using assms
  by (auto simp: Let_def putShark_def getShark_def allocShark_def nth_append list_update_append
        split: Option.bind_splits if_splits dest!: writeNew_Some)

lemma processShark_stages:
  "processShark rs w shark x y sharkBreed starveEnergy = do {
     s \<leftarrow> getShark w shark;
     let e = int64 (Energy s - 1);
     let w1 = putShark w shark (s\<lparr>Energy := e\<rparr>);
     if e \<le> 0 then Some w1
     else do {
       (w2, newX, newY) \<leftarrow> findNearestFish rs w1 x y;
       w3 \<leftarrow> sharkMove rs w2 shark x y newX newY starveEnergy;
       sharkBreeds w3 shark x y sharkBreed starveEnergy } }"
  unfolding processShark_def sharkMove_def sharkBreeds_def by (rule refl)

lemma sharkMove_Some:
  assumes m: "sharkMove rs w2 shark x y nx ny starveEnergy = Some w3"
    and g: "getShark w2 shark = Some s2"
  shows "\<exists>cs d en. w3 = w2\<lparr>drawn := d, newGrid := (newGrid w2)\<lparr>Cells := cs\<rparr>,
                            sharkHeap := (sharkHeap w2)[shark := s2\<lparr>Energy := en\<rparr>]\<rparr>
      \<and> (if nx \<noteq> -1 \<and> ny \<noteq> -1
          then assign2 (Cells (newGrid w2)) nx ny (SharkPtr shark) = Some cs
               \<and> d = drawn w2 \<and> en = starveEnergy
          else (\<exists>pos. scanEmpty (current w2) x y (Shuffle rs (drawn w2) directions) = Some pos
                  \<and> assign2 (Cells (newGrid w2)) (fst (destination pos x y))
                        (snd (destination pos x y)) (SharkPtr shark) = Some cs)
               \<and> d = drawn w2 + 3 \<and> en = Energy s2)"
proof (cases "nx \<noteq> -1 \<and> ny \<noteq> -1")
  case True
  with m have "do { w' \<leftarrow> writeNew w2 nx ny (SharkPtr shark);
               s' \<leftarrow> getShark w' shark;
               Some (putShark w' shark (s'\<lparr>Energy := starveEnergy\<rparr>)) } = Some w3"
    by (simp add: sharkMove_def)
  from shark_eat_stage[OF this g] obtain cs where
    "assign2 (Cells (newGrid w2)) nx ny (SharkPtr shark) = Some cs"
    "w3 = w2\<lparr>newGrid := (newGrid w2)\<lparr>Cells := cs\<rparr>,
                      sharkHeap := (sharkHeap w2)[shark := s2\<lparr>Energy := starveEnergy\<rparr>]\<rparr>"
    by blast
  then show ?thesis using True
    by (intro exI[of _ cs] exI[of _ "drawn w2"] exI[of _ starveEnergy]) simp
next
  case False
  with m have "do { (w', newX, newY) \<leftarrow> findEmptyAdjacent rs w2 x y;
               if newX \<noteq> -1 \<and> newY \<noteq> -1 then writeNew w' newX newY (SharkPtr shark)
               else writeNew w' x y (SharkPtr shark) } = Some w3"
    by (simp add: sharkMove_def)
  from shark_roam_stage[OF this] obtain pos cs where
    sc: "scanEmpty (current w2) x y (Shuffle rs (drawn w2) directions) = Some pos"
    and a: "assign2 (Cells (newGrid w2)) (fst (destination pos x y)) (snd (destination pos x y))
                 (SharkPtr shark) = Some cs"
    and w3: "w3 = w2\<lparr>drawn := drawn w2 + 3, newGrid := (newGrid w2)\<lparr>Cells := cs\<rparr>\<rparr>"
    by blast
  have same: "(sharkHeap w2)[shark := s2\<lparr>Energy := Energy s2\<rparr>] = sharkHeap w2"
    using g by (auto simp: getShark_def split: if_splits)
  show ?thesis using False sc a w3 same
    by (intro exI[of _ cs] exI[of _ "drawn w2 + 3"] exI[of _ "Energy s2"]) auto
qed

lemma sharkBreeds_Some:
  assumes "sharkBreeds w3 shark x y sharkBreed starveEnergy = Some w'"
  shows "\<exists>s3. getShark w3 shark = Some s3
      \<and> (if sharkBreed \<le> int64 (Shark.BreedCounter s3 + 1)
          then \<exists>cs. assign2 (Cells (newGrid w3)) x y (SharkPtr (length (sharkHeap w3))) = Some cs
                 \<and> w' = w3\<lparr>newGrid := (newGrid w3)\<lparr>Cells := cs\<rparr>,
                           sharkHeap := (sharkHeap w3)[shark := s3\<lparr>Shark.BreedCounter := 0\<rparr>]
                                          @ [\<lparr>Shark.BreedCounter = 0, Energy = starveEnergy\<rparr>]\<rparr>
          else w' = w3\<lparr>sharkHeap := (sharkHeap w3)
                        [shark := s3\<lparr>Shark.BreedCounter := int64 (Shark.BreedCounter s3 + 1)\<rparr>]\<rparr>)"
  using assms unfolding sharkBreeds_def by (rule shark_breed_stage)

lemma processShark_Some:
  assumes p: "processShark rs w shark x y sharkBreed starveEnergy = Some w'"
  shows "\<exists>s. getShark w shark = Some s
    \<and> (if int64 (Energy s - 1) \<le> 0
        then w' = w\<lparr>sharkHeap := (sharkHeap w)[shark := s\<lparr>Energy := int64 (Energy s - 1)\<rparr>]\<rparr>
        else \<exists>posF cs1 d en.
          scanFish (current w) x y (Shuffle rs (drawn w) directions) = Some posF
          \<and> (if fst posF \<noteq> -1 \<and> snd posF \<noteq> -1
              then assign2 (Cells (newGrid w)) (fst posF) (snd posF) (SharkPtr shark) = Some cs1
                   \<and> d = drawn w + 3 \<and> en = starveEnergy
              else (\<exists>pos. scanEmpty (current w) x y (Shuffle rs (drawn w + 3) directions) = Some pos
                      \<and> assign2 (Cells (newGrid w)) (fst (destination pos x y))
                            (snd (destination pos x y)) (SharkPtr shark) = Some cs1)
                   \<and> d = drawn w + 6 \<and> en = int64 (Energy s - 1))
          \<and> (if sharkBreed \<le> int64 (Shark.BreedCounter s + 1)
              then \<exists>cs2. assign2 cs1 x y (SharkPtr (length (sharkHeap w))) = Some cs2
                     \<and> w' = w\<lparr>drawn := d, newGrid := (newGrid w)\<lparr>Cells := cs2\<rparr>,
                               sharkHeap := (sharkHeap w)[shark := \<lparr>Shark.BreedCounter = 0, Energy = en\<rparr>]
                                  @ [\<lparr>Shark.BreedCounter = 0, Energy = starveEnergy\<rparr>]\<rparr>
              else w' = w\<lparr>drawn := d, newGrid := (newGrid w)\<lparr>Cells := cs1\<rparr>,
                        sharkHeap := (sharkHeap w)[shark :=
                           \<lparr>Shark.BreedCounter = int64 (Shark.BreedCounter s + 1), Energy = en\<rparr>]\<rparr>))"
proof -
  from p obtain s where g: "getShark w shark = Some s"
    by (auto simp: processShark_stages split: Option.bind_splits)
  have sl: "shark < length (sharkHeap w)" and sv: "sharkHeap w ! shark = s"
    using g by (auto simp: getShark_def split: if_splits)
  define e where "e = int64 (Energy s - 1)"
  define w1 where "w1 = w\<lparr>sharkHeap := (sharkHeap w)[shark := s\<lparr>Energy := e\<rparr>]\<rparr>"
  show ?thesis
  proof (cases "e \<le> 0")
    case True
    then have "w' = w1" using p g by (simp add: processShark_stages e_def w1_def putShark_def)
    then show ?thesis using g True by (auto simp: e_def w1_def)
  next
    case False
    from p g False obtain w2 nx ny w3 where
      fn: "findNearestFish rs w1 x y = Some (w2, nx, ny)"
      and mv: "sharkMove rs w2 shark x y nx ny starveEnergy = Some w3"
      and br: "sharkBreeds w3 shark x y sharkBreed starveEnergy = Some w'"
      by (auto simp: processShark_stages e_def w1_def putShark_def Let_def
          split: Option.bind_splits prod.splits)
    define posF where "posF = (nx, ny)"
    from findNearestFish_Some[OF fn] have w2: "w2 = w1\<lparr>drawn := drawn w1 + 3\<rparr>"
      and sf: "scanFish (current w) x y (Shuffle rs (drawn w) directions) = Some posF"
      by (simp_all add: w1_def posF_def)
    have g2: "getShark w2 shark = Some (s\<lparr>Energy := e\<rparr>)"
      using sl by (simp add: w2 w1_def getShark_def)
    from sharkMove_Some[OF mv g2] obtain cs1 d en where
      w3: "w3 = w2\<lparr>drawn := d, newGrid := (newGrid w2)\<lparr>Cells := cs1\<rparr>,
                            sharkHeap := (sharkHeap w2)[shark := s\<lparr>Energy := e\<rparr>\<lparr>Energy := en\<rparr>]\<rparr>"
      and mvc: "if nx \<noteq> -1 \<and> ny \<noteq> -1
          then assign2 (Cells (newGrid w2)) nx ny (SharkPtr shark) = Some cs1
               \<and> d = drawn w2 \<and> en = starveEnergy
          else (\<exists>pos. scanEmpty (current w2) x y (Shuffle rs (drawn w2) directions) = Some pos
                  \<and> assign2 (Cells (newGrid w2)) (fst (destination pos x y))
                        (snd (destination pos x y)) (SharkPtr shark) = Some cs1)
               \<and> d = drawn w2 + 3 \<and> en = Energy (s\<lparr>Energy := e\<rparr>)"
      by blast
    have mvc': "if fst posF \<noteq> -1 \<and> snd posF \<noteq> -1
              then assign2 (Cells (newGrid w)) (fst posF) (snd posF) (SharkPtr shark) = Some cs1
                   \<and> d = drawn w + 3 \<and> en = starveEnergy
              else (\<exists>pos. scanEmpty (current w) x y (Shuffle rs (drawn w + 3) directions) = Some pos
                      \<and> assign2 (Cells (newGrid w)) (fst (destination pos x y))
                            (snd (destination pos x y)) (SharkPtr shark) = Some cs1)
                   \<and> d = drawn w + 6 \<and> en = int64 (Energy s - 1)"
      using mvc by (auto simp: w2 w1_def posF_def e_def split: if_splits)
    have h3: "sharkHeap w3 = (sharkHeap w)[shark := s\<lparr>Energy := en\<rparr>]"
      by (simp add: w3 w2 w1_def)
    have g3: "getShark w3 shark = Some (s\<lparr>Energy := en\<rparr>)"
      using sl by (simp add: getShark_def h3)
    from sharkBreeds_Some[OF br] g3 have brc:
      "if sharkBreed \<le> int64 (Shark.BreedCounter s + 1)
          then \<exists>cs. assign2 (Cells (newGrid w3)) x y (SharkPtr (length (sharkHeap w3))) = Some cs
                 \<and> w' = w3\<lparr>newGrid := (newGrid w3)\<lparr>Cells := cs\<rparr>,
                           sharkHeap := (sharkHeap w3)[shark := s\<lparr>Energy := en\<rparr>\<lparr>Shark.BreedCounter := 0\<rparr>]
                                          @ [\<lparr>Shark.BreedCounter = 0, Energy = starveEnergy\<rparr>]\<rparr>
          else w' = w3\<lparr>sharkHeap := (sharkHeap w3)
                        [shark := s\<lparr>Energy := en\<rparr>\<lparr>Shark.BreedCounter := int64 (Shark.BreedCounter s + 1)\<rparr>]\<rparr>"
      by auto
    have r0: "s\<lparr>Energy := en\<rparr>\<lparr>Shark.BreedCounter := 0\<rparr> = \<lparr>Shark.BreedCounter = 0, Energy = en\<rparr>"
      by (cases s) simp
    have rb: "s\<lparr>Energy := en\<rparr>\<lparr>Shark.BreedCounter := int64 (Shark.BreedCounter s + 1)\<rparr>
              = \<lparr>Shark.BreedCounter = int64 (Shark.BreedCounter s + 1), Energy = en\<rparr>"
      by (cases s) simp
    have fin: "if sharkBreed \<le> int64 (Shark.BreedCounter s + 1)
              then \<exists>cs2. assign2 cs1 x y (SharkPtr (length (sharkHeap w))) = Some cs2
                     \<and> w' = w\<lparr>drawn := d, newGrid := (newGrid w)\<lparr>Cells := cs2\<rparr>,
                               sharkHeap := (sharkHeap w)[shark := \<lparr>Shark.BreedCounter = 0, Energy = en\<rparr>]
                                  @ [\<lparr>Shark.BreedCounter = 0, Energy = starveEnergy\<rparr>]\<rparr>
              else w' = w\<lparr>drawn := d, newGrid := (newGrid w)\<lparr>Cells := cs1\<rparr>,
                        sharkHeap := (sharkHeap w)[shark :=
                           \<lparr>Shark.BreedCounter = int64 (Shark.BreedCounter s + 1), Energy = en\<rparr>]\<rparr>"
      using brc by (auto simp: r0 rb h3 w3 w2 w1_def split: if_splits)
    have body: "\<exists>posF cs1 d en.
          scanFish (current w) x y (Shuffle rs (drawn w) directions) = Some posF
          \<and> (if fst posF \<noteq> -1 \<and> snd posF \<noteq> -1
              then assign2 (Cells (newGrid w)) (fst posF) (snd posF) (SharkPtr shark) = Some cs1
                   \<and> d = drawn w + 3 \<and> en = starveEnergy
              else (\<exists>pos. scanEmpty (current w) x y (Shuffle rs (drawn w + 3) directions) = Some pos
                      \<and> assign2 (Cells (newGrid w)) (fst (destination pos x y))
                            (snd (destination pos x y)) (SharkPtr shark) = Some cs1)
                   \<and> d = drawn w + 6 \<and> en = int64 (Energy s - 1))
          \<and> (if sharkBreed \<le> int64 (Shark.BreedCounter s + 1)
              then \<exists>cs2. assign2 cs1 x y (SharkPtr (length (sharkHeap w))) = Some cs2
                     \<and> w' = w\<lparr>drawn := d, newGrid := (newGrid w)\<lparr>Cells := cs2\<rparr>,
                               sharkHeap := (sharkHeap w)[shark := \<lparr>Shark.BreedCounter = 0, Energy = en\<rparr>]
                                  @ [\<lparr>Shark.BreedCounter = 0, Energy = starveEnergy\<rparr>]\<rparr>
              else w' = w\<lparr>drawn := d, newGrid := (newGrid w)\<lparr>Cells := cs1\<rparr>,
                        sharkHeap := (sharkHeap w)[shark :=
                           \<lparr>Shark.BreedCounter = int64 (Shark.BreedCounter s + 1), Energy = en\<rparr>]\<rparr>)"
      by (intro exI[of _ posF] exI[of _ cs1] exI[of _ d] exI[of _ en] conjI sf mvc' fin)
    have ne: "\<not> int64 (Energy s - 1) \<le> 0" using False by (simp add: e_def)
    show ?thesis
      by (rule exI[of _ s], rule conjI[OF g], subst if_not_P[OF ne], rule body)
  qed
qed

lemma moveSharkCell_stages:
  "moveSharkCell rs sharkBreed starveEnergy x y w = do {
     c \<leftarrow> readCur w x y;
     case c of
       SharkPtr shark \<Rightarrow> do {
         s \<leftarrow> getShark w shark;
         let e = int64 (Energy s - 1);
         let w1 = putShark w shark (s\<lparr>Energy := e\<rparr>);
         if e \<le> 0 then Some w1
         else do {
           (w2, newX, newY) \<leftarrow> findNearestFish rs w1 x y;
           w3 \<leftarrow> sharkMoveSend rs w2 shark x y newX newY starveEnergy;
           sharkBreedsSend w3 shark x y sharkBreed starveEnergy } }
     | _ \<Rightarrow> Some w }"
  unfolding moveSharkCell_def sharkMoveSend_def sharkBreedsSend_def by (rule refl)

lemma sharkMoveSend_Some:
  assumes m: "sharkMoveSend rs w2 shark x y nx ny starveEnergy = Some w3"
    and g: "getShark w2 shark = Some s2"
  shows "\<exists>tx ty d en. w3 = w2\<lparr>drawn := d,
                            moveChannel := queued w2 [\<lparr>X = tx, Y = ty, Entity = SharkPtr shark\<rparr>],
                            sharkHeap := (sharkHeap w2)[shark := s2\<lparr>Energy := en\<rparr>]\<rparr>
      \<and> (if nx \<noteq> -1 \<and> ny \<noteq> -1
          then tx = nx \<and> ty = ny \<and> d = drawn w2 \<and> en = starveEnergy
          else (\<exists>pos. scanEmpty (current w2) x y (Shuffle rs (drawn w2) directions) = Some pos
                  \<and> tx = fst (destination pos x y) \<and> ty = snd (destination pos x y))
               \<and> d = drawn w2 + 3 \<and> en = Energy s2)"
proof (cases "nx \<noteq> -1 \<and> ny \<noteq> -1")
  case True
  with m have "do { w' \<leftarrow> send w2 \<lparr>X = nx, Y = ny, Entity = SharkPtr shark\<rparr>;
               s' \<leftarrow> getShark w' shark;
               Some (putShark w' shark (s'\<lparr>Energy := starveEnergy\<rparr>)) } = Some w3"
    by (simp add: sharkMoveSend_def)
  then have "w3 = w2\<lparr>moveChannel := queued w2 [\<lparr>X = nx, Y = ny, Entity = SharkPtr shark\<rparr>],
                      sharkHeap := (sharkHeap w2)[shark := s2\<lparr>Energy := starveEnergy\<rparr>]\<rparr>"
    using g
    by (auto simp: putShark_def getShark_def queued_def split: Option.bind_splits if_splits dest!: send_Some)
  then show ?thesis using True
    by (intro exI[of _ nx] exI[of _ ny] exI[of _ "drawn w2"] exI[of _ starveEnergy]) simp
next
  case False
  with m have "do { (w', newX, newY) \<leftarrow> findEmptyAdjacent rs w2 x y;
               if newX \<noteq> -1 \<and> newY \<noteq> -1
               then send w' \<lparr>X = newX, Y = newY, Entity = SharkPtr shark\<rparr>
               else send w' \<lparr>X = x, Y = y, Entity = SharkPtr shark\<rparr> } = Some w3"
    by (simp add: sharkMoveSend_def)
  then obtain w1 a b where fe0: "findEmptyAdjacent rs w2 x y = Some (w1, a, b)"
    and sd0: "(if a \<noteq> -1 \<and> b \<noteq> -1 then send w1 \<lparr>X = a, Y = b, Entity = SharkPtr shark\<rparr>
              else send w1 \<lparr>X = x, Y = y, Entity = SharkPtr shark\<rparr>) = Some w3"
    by (auto split: Option.bind_splits prod.splits)
  define pos where "pos = (a, b)"
  from findEmptyAdjacent_Some[OF fe0] have w1: "w1 = w2\<lparr>drawn := drawn w2 + 3\<rparr>"
    and sc: "scanEmpty (current w2) x y (Shuffle rs (drawn w2) directions) = Some pos"
    by (simp_all add: pos_def)
  from sd0 have "send w1 \<lparr>X = fst (destination pos x y), Y = snd (destination pos x y),
                          Entity = SharkPtr shark\<rparr> = Some w3"
    by (auto simp: destination_def pos_def split: if_splits)
  from send_Some[OF this] have w3: "w3 = w2\<lparr>drawn := drawn w2 + 3,
       moveChannel := queued w2 [\<lparr>X = fst (destination pos x y), Y = snd (destination pos x y),
                                   Entity = SharkPtr shark\<rparr>]\<rparr>"
    by (simp add: w1 queued_def)
  have same: "(sharkHeap w2)[shark := s2\<lparr>Energy := Energy s2\<rparr>] = sharkHeap w2"
    using g by (auto simp: getShark_def split: if_splits)
  show ?thesis using False sc w3 same
    by (intro exI[of _ "fst (destination pos x y)"] exI[of _ "snd (destination pos x y)"]
          exI[of _ "drawn w2 + 3"] exI[of _ "Energy s2"]) auto
qed

lemma sharkBreedsSend_Some:
  assumes "sharkBreedsSend w3 shark x y sharkBreed starveEnergy = Some w'"
  shows "\<exists>s3. getShark w3 shark = Some s3
      \<and> (if sharkBreed \<le> int64 (Shark.BreedCounter s3 + 1)
          then w' = w3\<lparr>moveChannel := queued w3 [\<lparr>X = x, Y = y, Entity = SharkPtr (length (sharkHeap w3))\<rparr>],
                       sharkHeap := (sharkHeap w3)[shark := s3\<lparr>Shark.BreedCounter := 0\<rparr>]
                                          @ [\<lparr>Shark.BreedCounter = 0, Energy = starveEnergy\<rparr>]\<rparr>
          else w' = w3\<lparr>sharkHeap := (sharkHeap w3)
                        [shark := s3\<lparr>Shark.BreedCounter := int64 (Shark.BreedCounter s3 + 1)\<rparr>]\<rparr>)"
  using assms unfolding sharkBreedsSend_def
  by (auto simp: Let_def putShark_def getShark_def allocShark_def nth_append list_update_append queued_def
        split: Option.bind_splits if_splits dest!: send_Some)

lemma moveSharkCell_Some:
  assumes p: "moveSharkCell rs sharkBreed starveEnergy x y w = Some w'"
    and c: "readCur w x y = Some (SharkPtr shark)"
  shows "\<exists>s. getShark w shark = Some s
    \<and> (if int64 (Energy s - 1) \<le> 0
        then w' = w\<lparr>sharkHeap := (sharkHeap w)[shark := s\<lparr>Energy := int64 (Energy s - 1)\<rparr>]\<rparr>
        else \<exists>posF tx ty d en.
          scanFish (current w) x y (Shuffle rs (drawn w) directions) = Some posF
          \<and> (if fst posF \<noteq> -1 \<and> snd posF \<noteq> -1
              then tx = fst posF \<and> ty = snd posF \<and> d = drawn w + 3 \<and> en = starveEnergy
              else (\<exists>pos. scanEmpty (current w) x y (Shuffle rs (drawn w + 3) directions) = Some pos
                      \<and> tx = fst (destination pos x y) \<and> ty = snd (destination pos x y))
                   \<and> d = drawn w + 6 \<and> en = int64 (Energy s - 1))
          \<and> (if sharkBreed \<le> int64 (Shark.BreedCounter s + 1)
              then w' = w\<lparr>drawn := d,
                        moveChannel := queued w [\<lparr>X = tx, Y = ty, Entity = SharkPtr shark\<rparr>,
                                                 \<lparr>X = x, Y = y, Entity = SharkPtr (length (sharkHeap w))\<rparr>],
                        sharkHeap := (sharkHeap w)[shark := \<lparr>Shark.BreedCounter = 0, Energy = en\<rparr>]
                                  @ [\<lparr>Shark.BreedCounter = 0, Energy = starveEnergy\<rparr>]\<rparr>
              else w' = w\<lparr>drawn := d,
                        moveChannel := queued w [\<lparr>X = tx, Y = ty, Entity = SharkPtr shark\<rparr>],
                        sharkHeap := (sharkHeap w)[shark :=
                           \<lparr>Shark.BreedCounter = int64 (Shark.BreedCounter s + 1), Energy = en\<rparr>]\<rparr>))"
proof -
  from p c obtain s where g: "getShark w shark = Some s"
    by (auto simp: moveSharkCell_stages split: Option.bind_splits)
  have sl: "shark < length (sharkHeap w)" and sv: "sharkHeap w ! shark = s"
    using g by (auto simp: getShark_def split: if_splits)
  define e where "e = int64 (Energy s - 1)"
  define w1 where "w1 = w\<lparr>sharkHeap := (sharkHeap w)[shark := s\<lparr>Energy := e\<rparr>]\<rparr>"
  show ?thesis
  proof (cases "e \<le> 0")
    case True
    then have "w' = w1" using p c g by (simp add: moveSharkCell_stages e_def w1_def putShark_def)
    then show ?thesis using g True by (auto simp: e_def w1_def)
  next
    case False
    from p c g False obtain w2 nx ny w3 where
      fn: "findNearestFish rs w1 x y = Some (w2, nx, ny)"
      and mv: "sharkMoveSend rs w2 shark x y nx ny starveEnergy = Some w3"
      and br: "sharkBreedsSend w3 shark x y sharkBreed starveEnergy = Some w'"
      by (auto simp: moveSharkCell_stages e_def w1_def putShark_def Let_def
          split: Option.bind_splits prod.splits)
    define posF where "posF = (nx, ny)"
    from findNearestFish_Some[OF fn] have w2: "w2 = w1\<lparr>drawn := drawn w1 + 3\<rparr>"
      and sf: "scanFish (current w) x y (Shuffle rs (drawn w) directions) = Some posF"
      by (simp_all add: w1_def posF_def)
    have g2: "getShark w2 shark = Some (s\<lparr>Energy := e\<rparr>)"
      using sl by (simp add: w2 w1_def getShark_def)
    from sharkMoveSend_Some[OF mv g2] obtain tx ty d en where
      w3: "w3 = w2\<lparr>drawn := d,
                     moveChannel := queued w2 [\<lparr>X = tx, Y = ty, Entity = SharkPtr shark\<rparr>],
                     sharkHeap := (sharkHeap w2)[shark := s\<lparr>Energy := e\<rparr>\<lparr>Energy := en\<rparr>]\<rparr>"
      and mvc: "if nx \<noteq> -1 \<and> ny \<noteq> -1
          then tx = nx \<and> ty = ny \<and> d = drawn w2 \<and> en = starveEnergy
          else (\<exists>pos. scanEmpty (current w2) x y (Shuffle rs (drawn w2) directions) = Some pos
                  \<and> tx = fst (destination pos x y) \<and> ty = snd (destination pos x y))
               \<and> d = drawn w2 + 3 \<and> en = Energy (s\<lparr>Energy := e\<rparr>)"
      by blast
    have mvc': "if fst posF \<noteq> -1 \<and> snd posF \<noteq> -1
              then tx = fst posF \<and> ty = snd posF \<and> d = drawn w + 3 \<and> en = starveEnergy
              else (\<exists>pos. scanEmpty (current w) x y (Shuffle rs (drawn w + 3) directions) = Some pos
                      \<and> tx = fst (destination pos x y) \<and> ty = snd (destination pos x y))
                   \<and> d = drawn w + 6 \<and> en = int64 (Energy s - 1)"
      using mvc by (auto simp: w2 w1_def posF_def e_def split: if_splits)
    have h3: "sharkHeap w3 = (sharkHeap w)[shark := s\<lparr>Energy := en\<rparr>]"
      by (simp add: w3 w2 w1_def)
    have q3: "queued w3 ms = queued w ([\<lparr>X = tx, Y = ty, Entity = SharkPtr shark\<rparr>] @ ms)" for ms
      by (simp add: queued_def w3 w2 w1_def)
    have g3: "getShark w3 shark = Some (s\<lparr>Energy := en\<rparr>)"
      using sl by (simp add: getShark_def h3)
    from sharkBreedsSend_Some[OF br] g3 have brc:
      "if sharkBreed \<le> int64 (Shark.BreedCounter s + 1)
          then w' = w3\<lparr>moveChannel := queued w3 [\<lparr>X = x, Y = y, Entity = SharkPtr (length (sharkHeap w3))\<rparr>],
                       sharkHeap := (sharkHeap w3)[shark := s\<lparr>Energy := en\<rparr>\<lparr>Shark.BreedCounter := 0\<rparr>]
                                          @ [\<lparr>Shark.BreedCounter = 0, Energy = starveEnergy\<rparr>]\<rparr>
          else w' = w3\<lparr>sharkHeap := (sharkHeap w3)
                        [shark := s\<lparr>Energy := en\<rparr>\<lparr>Shark.BreedCounter := int64 (Shark.BreedCounter s + 1)\<rparr>]\<rparr>"
      by auto
    have r0: "s\<lparr>Energy := en\<rparr>\<lparr>Shark.BreedCounter := 0\<rparr> = \<lparr>Shark.BreedCounter = 0, Energy = en\<rparr>"
      by (cases s) simp
    have rb: "s\<lparr>Energy := en\<rparr>\<lparr>Shark.BreedCounter := int64 (Shark.BreedCounter s + 1)\<rparr>
              = \<lparr>Shark.BreedCounter = int64 (Shark.BreedCounter s + 1), Energy = en\<rparr>"
      by (cases s) simp
    have w3': "w3 = w\<lparr>drawn := d, moveChannel := queued w [\<lparr>X = tx, Y = ty, Entity = SharkPtr shark\<rparr>],
                     sharkHeap := (sharkHeap w)[shark := s\<lparr>Energy := en\<rparr>]\<rparr>"
      by (simp add: w3 w2 w1_def queued_def)
    have fin: "if sharkBreed \<le> int64 (Shark.BreedCounter s + 1)
              then w' = w\<lparr>drawn := d,
                        moveChannel := queued w [\<lparr>X = tx, Y = ty, Entity = SharkPtr shark\<rparr>,
                                                 \<lparr>X = x, Y = y, Entity = SharkPtr (length (sharkHeap w))\<rparr>],
                        sharkHeap := (sharkHeap w)[shark := \<lparr>Shark.BreedCounter = 0, Energy = en\<rparr>]
                                  @ [\<lparr>Shark.BreedCounter = 0, Energy = starveEnergy\<rparr>]\<rparr>
              else w' = w\<lparr>drawn := d,
                        moveChannel := queued w [\<lparr>X = tx, Y = ty, Entity = SharkPtr shark\<rparr>],
                        sharkHeap := (sharkHeap w)[shark :=
                           \<lparr>Shark.BreedCounter = int64 (Shark.BreedCounter s + 1), Energy = en\<rparr>]\<rparr>"
      using brc by (auto simp: r0 rb h3 w3' queued_def split: if_splits)
    have body: "\<exists>posF tx ty d en.
          scanFish (current w) x y (Shuffle rs (drawn w) directions) = Some posF
          \<and> (if fst posF \<noteq> -1 \<and> snd posF \<noteq> -1
              then tx = fst posF \<and> ty = snd posF \<and> d = drawn w + 3 \<and> en = starveEnergy
              else (\<exists>pos. scanEmpty (current w) x y (Shuffle rs (drawn w + 3) directions) = Some pos
                      \<and> tx = fst (destination pos x y) \<and> ty = snd (destination pos x y))
                   \<and> d = drawn w + 6 \<and> en = int64 (Energy s - 1))
          \<and> (if sharkBreed \<le> int64 (Shark.BreedCounter s + 1)
              then w' = w\<lparr>drawn := d,
                        moveChannel := queued w [\<lparr>X = tx, Y = ty, Entity = SharkPtr shark\<rparr>,
                                                 \<lparr>X = x, Y = y, Entity = SharkPtr (length (sharkHeap w))\<rparr>],
                        sharkHeap := (sharkHeap w)[shark := \<lparr>Shark.BreedCounter = 0, Energy = en\<rparr>]
                                  @ [\<lparr>Shark.BreedCounter = 0, Energy = starveEnergy\<rparr>]\<rparr>
              else w' = w\<lparr>drawn := d,
                        moveChannel := queued w [\<lparr>X = tx, Y = ty, Entity = SharkPtr shark\<rparr>],
                        sharkHeap := (sharkHeap w)[shark :=
                           \<lparr>Shark.BreedCounter = int64 (Shark.BreedCounter s + 1), Energy = en\<rparr>]\<rparr>)"
      by (intro exI[of _ posF] exI[of _ tx] exI[of _ ty] exI[of _ d] exI[of _ en] conjI sf mvc' fin)
    have ne: "\<not> int64 (Energy s - 1) \<le> 0" using False by (simp add: e_def)
    show ?thesis
      by (rule exI[of _ s], rule conjI[OF g], subst if_not_P[OF ne], rule body)
  qed
qed


lemma processShark_energy:
  assumes p: "processShark rs w shark x y sharkBreed starveEnergy = Some w'"
    and g: "getShark w shark = Some s"
    and ne: "\<not> int64 (Energy s - 1) \<le> 0"
  shows "\<exists>posF. scanFish (current w) x y (Shuffle rs (drawn w) directions) = Some posF
               \<and> map_option Energy (getShark w' shark)
                   = Some (if fst posF \<noteq> -1 \<and> snd posF \<noteq> -1 then starveEnergy
                           else int64 (Energy s - 1))"
proof -
  have sl: "shark < length (sharkHeap w)" using g by (auto simp: getShark_def split: if_splits)
  from processShark_Some[OF p] obtain s' where g': "getShark w shark = Some s'"
    and R: "if int64 (Energy s' - 1) \<le> 0
        then w' = w\<lparr>sharkHeap := (sharkHeap w)[shark := s'\<lparr>Energy := int64 (Energy s' - 1)\<rparr>]\<rparr>
        else \<exists>posF cs1 d en.
          scanFish (current w) x y (Shuffle rs (drawn w) directions) = Some posF
          \<and> (if fst posF \<noteq> -1 \<and> snd posF \<noteq> -1
              then assign2 (Cells (newGrid w)) (fst posF) (snd posF) (SharkPtr shark) = Some cs1
                   \<and> d = drawn w + 3 \<and> en = starveEnergy
              else (\<exists>pos. scanEmpty (current w) x y (Shuffle rs (drawn w + 3) directions) = Some pos
                      \<and> assign2 (Cells (newGrid w)) (fst (destination pos x y))
                            (snd (destination pos x y)) (SharkPtr shark) = Some cs1)
                   \<and> d = drawn w + 6 \<and> en = int64 (Energy s' - 1))
          \<and> (if sharkBreed \<le> int64 (Shark.BreedCounter s' + 1)
              then \<exists>cs2. assign2 cs1 x y (SharkPtr (length (sharkHeap w))) = Some cs2
                     \<and> w' = w\<lparr>drawn := d, newGrid := (newGrid w)\<lparr>Cells := cs2\<rparr>,
                               sharkHeap := (sharkHeap w)[shark := \<lparr>Shark.BreedCounter = 0, Energy = en\<rparr>]
                                  @ [\<lparr>Shark.BreedCounter = 0, Energy = starveEnergy\<rparr>]\<rparr>
              else w' = w\<lparr>drawn := d, newGrid := (newGrid w)\<lparr>Cells := cs1\<rparr>,
                        sharkHeap := (sharkHeap w)[shark :=
                           \<lparr>Shark.BreedCounter = int64 (Shark.BreedCounter s' + 1), Energy = en\<rparr>]\<rparr>)"
    by blast
  have ss: "s' = s" using g g' by simp
  from R obtain posF cs1 d en where
    sf: "scanFish (current w) x y (Shuffle rs (drawn w) directions) = Some posF"
    and B: "if fst posF \<noteq> -1 \<and> snd posF \<noteq> -1
              then assign2 (Cells (newGrid w)) (fst posF) (snd posF) (SharkPtr shark) = Some cs1
                   \<and> d = drawn w + 3 \<and> en = starveEnergy
              else (\<exists>pos. scanEmpty (current w) x y (Shuffle rs (drawn w + 3) directions) = Some pos
                      \<and> assign2 (Cells (newGrid w)) (fst (destination pos x y))
                            (snd (destination pos x y)) (SharkPtr shark) = Some cs1)
                   \<and> d = drawn w + 6 \<and> en = int64 (Energy s - 1)"
    and C: "if sharkBreed \<le> int64 (Shark.BreedCounter s + 1)
              then \<exists>cs2. assign2 cs1 x y (SharkPtr (length (sharkHeap w))) = Some cs2
                     \<and> w' = w\<lparr>drawn := d, newGrid := (newGrid w)\<lparr>Cells := cs2\<rparr>,
                               sharkHeap := (sharkHeap w)[shark := \<lparr>Shark.BreedCounter = 0, Energy = en\<rparr>]
                                  @ [\<lparr>Shark.BreedCounter = 0, Energy = starveEnergy\<rparr>]\<rparr>
              else w' = w\<lparr>drawn := d, newGrid := (newGrid w)\<lparr>Cells := cs1\<rparr>,
                        sharkHeap := (sharkHeap w)[shark :=
                           \<lparr>Shark.BreedCounter = int64 (Shark.BreedCounter s + 1), Energy = en\<rparr>]\<rparr>"
    unfolding ss if_not_P[OF ne] by blast
  have en: "en = (if fst posF \<noteq> -1 \<and> snd posF \<noteq> -1 then starveEnergy else int64 (Energy s - 1))"
    using B by (simp split: if_splits)
  have "map_option Energy (getShark w' shark) = Some en"
  proof (cases "sharkBreed \<le> int64 (Shark.BreedCounter s + 1)")
    case True
    with C obtain cs2 where "w' = w\<lparr>drawn := d, newGrid := (newGrid w)\<lparr>Cells := cs2\<rparr>,
                               sharkHeap := (sharkHeap w)[shark := \<lparr>Shark.BreedCounter = 0, Energy = en\<rparr>]
                                  @ [\<lparr>Shark.BreedCounter = 0, Energy = starveEnergy\<rparr>]\<rparr>"
      unfolding if_P[OF True] by blast
    then show ?thesis using sl by (simp add: getShark_def nth_append)
  next
    case False
    with C have "w' = w\<lparr>drawn := d, newGrid := (newGrid w)\<lparr>Cells := cs1\<rparr>,
                        sharkHeap := (sharkHeap w)[shark :=
                           \<lparr>Shark.BreedCounter = int64 (Shark.BreedCounter s + 1), Energy = en\<rparr>]\<rparr>"
      unfolding if_not_P[OF False] by blast
    then show ?thesis using sl by (simp add: getShark_def)
  qed
  then show ?thesis using sf en by blast
qed

lemma moveSharkCell_energy:
  assumes p: "moveSharkCell rs sharkBreed starveEnergy x y w = Some w'"
    and c: "readCur w x y = Some (SharkPtr shark)"
    and g: "getShark w shark = Some s"
    and ne: "\<not> int64 (Energy s - 1) \<le> 0"
  shows "\<exists>posF. scanFish (current w) x y (Shuffle rs (drawn w) directions) = Some posF
               \<and> map_option Energy (getShark w' shark)
                   = Some (if fst posF \<noteq> -1 \<and> snd posF \<noteq> -1 then starveEnergy
                           else int64 (Energy s - 1))"
proof -
  have sl: "shark < length (sharkHeap w)" using g by (auto simp: getShark_def split: if_splits)
  from moveSharkCell_Some[OF p c] obtain s' where g': "getShark w shark = Some s'"
    and R: "if int64 (Energy s' - 1) \<le> 0
        then w' = w\<lparr>sharkHeap := (sharkHeap w)[shark := s'\<lparr>Energy := int64 (Energy s' - 1)\<rparr>]\<rparr>
        else \<exists>posF tx ty d en.
          scanFish (current w) x y (Shuffle rs (drawn w) directions) = Some posF
          \<and> (if fst posF \<noteq> -1 \<and> snd posF \<noteq> -1
              then tx = fst posF \<and> ty = snd posF \<and> d = drawn w + 3 \<and> en = starveEnergy
              else (\<exists>pos. scanEmpty (current w) x y (Shuffle rs (drawn w + 3) directions) = Some pos
                      \<and> tx = fst (destination pos x y) \<and> ty = snd (destination pos x y))
                   \<and> d = drawn w + 6 \<and> en = int64 (Energy s' - 1))
          \<and> (if sharkBreed \<le> int64 (Shark.BreedCounter s' + 1)
              then w' = w\<lparr>drawn := d,
                        moveChannel := queued w [\<lparr>X = tx, Y = ty, Entity = SharkPtr shark\<rparr>,
                                                 \<lparr>X = x, Y = y, Entity = SharkPtr (length (sharkHeap w))\<rparr>],
                        sharkHeap := (sharkHeap w)[shark := \<lparr>Shark.BreedCounter = 0, Energy = en\<rparr>]
                                  @ [\<lparr>Shark.BreedCounter = 0, Energy = starveEnergy\<rparr>]\<rparr>
              else w' = w\<lparr>drawn := d,
                        moveChannel := queued w [\<lparr>X = tx, Y = ty, Entity = SharkPtr shark\<rparr>],
                        sharkHeap := (sharkHeap w)[shark :=
                           \<lparr>Shark.BreedCounter = int64 (Shark.BreedCounter s' + 1), Energy = en\<rparr>]\<rparr>)"
    by blast
  have ss: "s' = s" using g g' by simp
  from R obtain posF tx ty d en where
    sf: "scanFish (current w) x y (Shuffle rs (drawn w) directions) = Some posF"
    and B: "if fst posF \<noteq> -1 \<and> snd posF \<noteq> -1
              then tx = fst posF \<and> ty = snd posF \<and> d = drawn w + 3 \<and> en = starveEnergy
              else (\<exists>pos. scanEmpty (current w) x y (Shuffle rs (drawn w + 3) directions) = Some pos
                      \<and> tx = fst (destination pos x y) \<and> ty = snd (destination pos x y))
                   \<and> d = drawn w + 6 \<and> en = int64 (Energy s - 1)"
    and C: "if sharkBreed \<le> int64 (Shark.BreedCounter s + 1)
              then w' = w\<lparr>drawn := d,
                        moveChannel := queued w [\<lparr>X = tx, Y = ty, Entity = SharkPtr shark\<rparr>,
                                                 \<lparr>X = x, Y = y, Entity = SharkPtr (length (sharkHeap w))\<rparr>],
                        sharkHeap := (sharkHeap w)[shark := \<lparr>Shark.BreedCounter = 0, Energy = en\<rparr>]
                                  @ [\<lparr>Shark.BreedCounter = 0, Energy = starveEnergy\<rparr>]\<rparr>
              else w' = w\<lparr>drawn := d,
                        moveChannel := queued w [\<lparr>X = tx, Y = ty, Entity = SharkPtr shark\<rparr>],
                        sharkHeap := (sharkHeap w)[shark :=
                           \<lparr>Shark.BreedCounter = int64 (Shark.BreedCounter s + 1), Energy = en\<rparr>]\<rparr>"
    unfolding ss if_not_P[OF ne] by blast
  have en: "en = (if fst posF \<noteq> -1 \<and> snd posF \<noteq> -1 then starveEnergy else int64 (Energy s - 1))"
    using B by (simp split: if_splits)
  have "map_option Energy (getShark w' shark) = Some en"
  proof (cases "sharkBreed \<le> int64 (Shark.BreedCounter s + 1)")
    case True
    with C have "w' = w\<lparr>drawn := d,
                        moveChannel := queued w [\<lparr>X = tx, Y = ty, Entity = SharkPtr shark\<rparr>,
                                                 \<lparr>X = x, Y = y, Entity = SharkPtr (length (sharkHeap w))\<rparr>],
                        sharkHeap := (sharkHeap w)[shark := \<lparr>Shark.BreedCounter = 0, Energy = en\<rparr>]
                                  @ [\<lparr>Shark.BreedCounter = 0, Energy = starveEnergy\<rparr>]\<rparr>"
      unfolding if_P[OF True] by blast
    then show ?thesis using sl by (simp add: getShark_def nth_append)
  next
    case False
    with C have "w' = w\<lparr>drawn := d,
                        moveChannel := queued w [\<lparr>X = tx, Y = ty, Entity = SharkPtr shark\<rparr>],
                        sharkHeap := (sharkHeap w)[shark :=
                           \<lparr>Shark.BreedCounter = int64 (Shark.BreedCounter s + 1), Energy = en\<rparr>]\<rparr>"
      unfolding if_not_P[OF False] by blast
    then show ?thesis using sl by (simp add: getShark_def)
  qed
  then show ?thesis using sf en by blast
qed

lemma sharkMove_total:
  assumes wf: "wfWorld w2"
    and xy: "0 \<le> x" "x < Size (current w2)" "0 \<le> y" "y < Size (current w2)"
    and g: "getShark w2 shark = Some s2"
    and n: "nx \<noteq> -1 \<and> ny \<noteq> -1 \<longrightarrow> 0 \<le> nx \<and> nx < Size (current w2) \<and> 0 \<le> ny \<and> ny < Size (current w2)"
  shows "\<exists>w3. sharkMove rs w2 shark x y nx ny starveEnergy = Some w3 \<and> wfWorld w3
            \<and> current w3 = current w2 \<and> shark < length (sharkHeap w3)"
proof -
  from wf have wfc: "wfGrid (current w2)" and wfn: "wfGrid (newGrid w2)"
    and sz: "Size (newGrid w2) = Size (current w2)" and N: "1 \<le> Size (current w2)"
    by (simp_all add: wfWorld_def)
  have sl: "shark < length (sharkHeap w2)" using g by (auto simp: getShark_def split: if_splits)
  show ?thesis
  proof (cases "nx \<noteq> -1 \<and> ny \<noteq> -1")
    case True
    with n have r: "0 \<le> nx" "nx < Size (newGrid w2)" "0 \<le> ny" "ny < Size (newGrid w2)"
      using sz by simp_all
    from writeNew_wf[OF wfn r, of "SharkPtr shark"] obtain cs where
      w: "writeNew w2 nx ny (SharkPtr shark) = Some (w2\<lparr>newGrid := (newGrid w2)\<lparr>Cells := cs\<rparr>\<rparr>)"
      and wf': "wfGrid ((newGrid w2)\<lparr>Cells := cs\<rparr>)" by blast
    show ?thesis using True w wf' wf sl sz
      by (simp add: sharkMove_def getShark_def putShark_def wfWorld_def)
  next
    case False
    from findEmptyAdjacent_result[OF wfc N xy, of rs] obtain pos where
      fe: "findEmptyAdjacent rs w2 x y = Some (w2\<lparr>drawn := drawn w2 + 3\<rparr>, pos)"
      and pos: "pos = (-1, -1)
           \<or> 0 \<le> fst pos \<and> fst pos < Size (current w2) \<and> 0 \<le> snd pos \<and> snd pos < Size (current w2)
             \<and> readCur w2 (fst pos) (snd pos) = Some NilEntity"
      by blast
    let ?w1 = "w2\<lparr>drawn := drawn w2 + 3\<rparr>"
    let ?d = "destination pos x y"
    have dr: "0 \<le> fst ?d" "fst ?d < Size (newGrid ?w1)" "0 \<le> snd ?d" "snd ?d < Size (newGrid ?w1)"
      using pos xy sz by (auto simp: destination_def)
    have wfn1: "wfGrid (newGrid ?w1)" using wfn by simp
    from writeNew_wf[OF wfn1 dr, of "SharkPtr shark"] obtain cs1 where
      w1: "writeNew ?w1 (fst ?d) (snd ?d) (SharkPtr shark) = Some (?w1\<lparr>newGrid := (newGrid w2)\<lparr>Cells := cs1\<rparr>\<rparr>)"
      and wf1: "wfGrid ((newGrid w2)\<lparr>Cells := cs1\<rparr>)"
      by auto
    have step: "(if fst pos \<noteq> -1 \<and> snd pos \<noteq> -1 then writeNew ?w1 (fst pos) (snd pos) (SharkPtr shark)
            else writeNew ?w1 x y (SharkPtr shark)) = Some (?w1\<lparr>newGrid := (newGrid w2)\<lparr>Cells := cs1\<rparr>\<rparr>)"
      using w1 by (auto simp: destination_def split: if_splits)
    have "sharkMove rs w2 shark x y nx ny starveEnergy
        = (if fst pos \<noteq> -1 \<and> snd pos \<noteq> -1 then writeNew ?w1 (fst pos) (snd pos) (SharkPtr shark)
            else writeNew ?w1 x y (SharkPtr shark))"
      unfolding sharkMove_def if_not_P[OF False] by (simp add: fe case_prod_beta)
    then have "sharkMove rs w2 shark x y nx ny starveEnergy = Some (?w1\<lparr>newGrid := (newGrid w2)\<lparr>Cells := cs1\<rparr>\<rparr>)"
      using step by (simp only:)
    then show ?thesis using wf1 wf sl sz by (simp add: wfWorld_def)
  qed
qed

lemma sharkBreeds_total:
  assumes wf: "wfWorld w3"
    and xy: "0 \<le> x" "x < Size (current w3)" "0 \<le> y" "y < Size (current w3)"
    and sl: "shark < length (sharkHeap w3)"
  shows "\<exists>w'. sharkBreeds w3 shark x y sharkBreed starveEnergy = Some w'"
proof -
  from wf have wfn: "wfGrid (newGrid w3)"
    and sz: "Size (newGrid w3) = Size (current w3)"
    by (simp_all add: wfWorld_def)
  let ?s3 = "sharkHeap w3 ! shark"
  let ?b = "int64 (Shark.BreedCounter ?s3 + 1)"
  let ?w4 = "putShark w3 shark (?s3\<lparr>Shark.BreedCounter := ?b\<rparr>)"
  let ?w5 = "?w4\<lparr>sharkHeap := sharkHeap ?w4 @ [\<lparr>Shark.BreedCounter = 0, Energy = starveEnergy\<rparr>]\<rparr>"
  have wf5: "wfGrid (newGrid ?w5)" using wfn by (simp add: putShark_def)
  have r5: "0 \<le> x" "x < Size (newGrid ?w5)" "0 \<le> y" "y < Size (newGrid ?w5)"
    using xy sz by (simp_all add: putShark_def)
  from writeNew_wf[OF wf5 r5, of "SharkPtr (length (sharkHeap w3))"] obtain cs where
    w6: "writeNew ?w5 x y (SharkPtr (length (sharkHeap w3))) = Some (?w5\<lparr>newGrid := (newGrid ?w5)\<lparr>Cells := cs\<rparr>\<rparr>)"
    by blast
  show ?thesis
  proof (cases "sharkBreed \<le> ?b")
    case True
    then show ?thesis using sl w6
      by (simp add: sharkBreeds_def getShark_def allocShark_def putShark_def Let_def)
  next
    case False
    then show ?thesis using sl
      by (simp add: sharkBreeds_def getShark_def Let_def)
  qed
qed

lemma processShark_total:
  assumes wf: "wfWorld w"
    and xy: "0 \<le> x" "x < Size (current w)" "0 \<le> y" "y < Size (current w)"
    and g: "getShark w shark = Some s"
  shows "\<exists>w'. processShark rs w shark x y sharkBreed starveEnergy = Some w'"
proof (cases "int64 (Energy s - 1) \<le> 0")
  case True
  then show ?thesis using g by (simp add: processShark_def)
next
  case False
  let ?w1 = "putShark w shark (s\<lparr>Energy := int64 (Energy s - 1)\<rparr>)"
  have c1: "current ?w1 = current w" by (simp add: putShark_def)
  have wf1: "wfWorld ?w1" using wf by (simp add: wfWorld_def putShark_def)
  from wf have wfc: "wfGrid (current ?w1)" and N: "1 \<le> Size (current ?w1)"
    by (simp_all add: wfWorld_def putShark_def)
  have xy1: "0 \<le> x" "x < Size (current ?w1)" "0 \<le> y" "y < Size (current ?w1)"
    using xy by (simp_all add: putShark_def)
  from findNearestFish_result[OF wfc N xy1, of rs] obtain pos where
    fn: "findNearestFish rs ?w1 x y = Some (?w1\<lparr>drawn := drawn ?w1 + 3\<rparr>, pos)"
    and pos: "pos = (-1, -1)
           \<or> 0 \<le> fst pos \<and> fst pos < Size (current ?w1) \<and> 0 \<le> snd pos \<and> snd pos < Size (current ?w1)
             \<and> (\<exists>c. readCur ?w1 (fst pos) (snd pos) = Some c \<and> isFish c)"
    by blast
  let ?w2 = "?w1\<lparr>drawn := drawn ?w1 + 3\<rparr>"
  have wf2: "wfWorld ?w2" using wf1 by (simp add: wfWorld_def)
  have xy2: "0 \<le> x" "x < Size (current ?w2)" "0 \<le> y" "y < Size (current ?w2)"
    using xy by (simp_all add: putShark_def)
  have sl: "shark < length (sharkHeap w)" using g by (auto simp: getShark_def split: if_splits)
  have g2: "getShark ?w2 shark = Some (s\<lparr>Energy := int64 (Energy s - 1)\<rparr>)"
    using sl by (simp add: getShark_def putShark_def)
  have n: "fst pos \<noteq> -1 \<and> snd pos \<noteq> -1 \<longrightarrow>
      0 \<le> fst pos \<and> fst pos < Size (current ?w2) \<and> 0 \<le> snd pos \<and> snd pos < Size (current ?w2)"
    using pos by auto
  from sharkMove_total[OF wf2 xy2 g2 n, of rs starveEnergy] obtain w3 where
    mv: "sharkMove rs ?w2 shark x y (fst pos) (snd pos) starveEnergy = Some w3"
    and wf3: "wfWorld w3" and c3: "current w3 = current ?w2" and sl3: "shark < length (sharkHeap w3)"
    by blast
  have xy3: "0 \<le> x" "x < Size (current w3)" "0 \<le> y" "y < Size (current w3)"
    using xy2 c3 by simp_all
  from sharkBreeds_total[OF wf3 xy3 sl3, of sharkBreed starveEnergy] obtain w' where
    br: "sharkBreeds w3 shark x y sharkBreed starveEnergy = Some w'" by blast
  have "processShark rs w shark x y sharkBreed starveEnergy = Some w'"
    unfolding processShark_stages using g False fn mv br
    by (simp add: Let_def case_prod_beta)
  then show ?thesis by blast
qed


lemma sharkMoveSend_total:
  assumes wfc: "wfGrid (current w2)" and N: "1 \<le> Size (current w2)"
    and xy: "0 \<le> x" "x < Size (current w2)" "0 \<le> y" "y < Size (current w2)"
    and sl: "shark < length (sharkHeap w2)"
    and room: "length (queue (moveChannel w2)) < capacity (moveChannel w2)"
  shows "\<exists>w3. sharkMoveSend rs w2 shark x y nx ny starveEnergy = Some w3
            \<and> current w3 = current w2 \<and> shark < length (sharkHeap w3)
            \<and> capacity (moveChannel w3) = capacity (moveChannel w2)
            \<and> length (queue (moveChannel w3)) = length (queue (moveChannel w2)) + 1"
proof (cases "nx \<noteq> -1 \<and> ny \<noteq> -1")
  case True
  show ?thesis unfolding sharkMoveSend_def if_P[OF True] using sl room
    by (simp add: send_def getShark_def putShark_def)
next
  case False
  from findEmptyAdjacent_result[OF wfc N xy, of rs] obtain pos where
    fe: "findEmptyAdjacent rs w2 x y = Some (w2\<lparr>drawn := drawn w2 + 3\<rparr>, pos)"
    by blast
  show ?thesis unfolding sharkMoveSend_def if_not_P[OF False] using sl room
    by (simp add: fe case_prod_beta send_def)
qed

lemma sharkBreedsSend_total:
  assumes sl: "shark < length (sharkHeap w3)"
    and room: "length (queue (moveChannel w3)) < capacity (moveChannel w3)"
  shows "\<exists>w'. sharkBreedsSend w3 shark x y sharkBreed starveEnergy = Some w'"
proof (cases "sharkBreed \<le> int64 (Shark.BreedCounter (sharkHeap w3 ! shark) + 1)")
  case True
  then show ?thesis using sl room
    by (simp add: sharkBreedsSend_def getShark_def allocShark_def putShark_def send_def Let_def)
next
  case False
  then show ?thesis using sl
    by (simp add: sharkBreedsSend_def getShark_def Let_def)
qed

lemma moveSharkCell_total:
  assumes wfc: "wfGrid (current w)" and N: "1 \<le> Size (current w)"
    and xy: "0 \<le> x" "x < Size (current w)" "0 \<le> y" "y < Size (current w)"
    and c: "readCur w x y = Some (SharkPtr shark)"
    and g: "getShark w shark = Some s"
    and room: "length (queue (moveChannel w)) + 2 \<le> capacity (moveChannel w)"
  shows "\<exists>w'. moveSharkCell rs sharkBreed starveEnergy x y w = Some w'"
proof (cases "int64 (Energy s - 1) \<le> 0")
  case True
  then show ?thesis using g c by (simp add: moveSharkCell_def)
next
  case False
  let ?w1 = "putShark w shark (s\<lparr>Energy := int64 (Energy s - 1)\<rparr>)"
  have wfc1: "wfGrid (current ?w1)" and N1: "1 \<le> Size (current ?w1)"
    using wfc N by (simp_all add: putShark_def)
  have xy1: "0 \<le> x" "x < Size (current ?w1)" "0 \<le> y" "y < Size (current ?w1)"
    using xy by (simp_all add: putShark_def)
  from findNearestFish_result[OF wfc1 N1 xy1, of rs] obtain pos where
    fn: "findNearestFish rs ?w1 x y = Some (?w1\<lparr>drawn := drawn ?w1 + 3\<rparr>, pos)"
    by blast
  let ?w2 = "?w1\<lparr>drawn := drawn ?w1 + 3\<rparr>"
  have wfc2: "wfGrid (current ?w2)" and N2: "1 \<le> Size (current ?w2)"
    using wfc N by (simp_all add: putShark_def)
  have xy2: "0 \<le> x" "x < Size (current ?w2)" "0 \<le> y" "y < Size (current ?w2)"
    using xy by (simp_all add: putShark_def)
  have sl: "shark < length (sharkHeap w)" using g by (auto simp: getShark_def split: if_splits)
  have sl2: "shark < length (sharkHeap ?w2)" using sl by (simp add: putShark_def)
  have room2: "length (queue (moveChannel ?w2)) < capacity (moveChannel ?w2)"
    using room by (simp add: putShark_def)
  from sharkMoveSend_total[OF wfc2 N2 xy2 sl2 room2, of rs "fst pos" "snd pos" starveEnergy]
  obtain w3 where
    mv: "sharkMoveSend rs ?w2 shark x y (fst pos) (snd pos) starveEnergy = Some w3"
    and sl3: "shark < length (sharkHeap w3)"
    and cap: "capacity (moveChannel w3) = capacity (moveChannel ?w2)"
    and len: "length (queue (moveChannel w3)) = length (queue (moveChannel ?w2)) + 1"
    by blast
  have room3: "length (queue (moveChannel w3)) < capacity (moveChannel w3)"
    using room cap len by (simp add: putShark_def)
  from sharkBreedsSend_total[OF sl3 room3, of x y sharkBreed starveEnergy] obtain w' where
    br: "sharkBreedsSend w3 shark x y sharkBreed starveEnergy = Some w'" by blast
  have "moveSharkCell rs sharkBreed starveEnergy x y w = Some w'"
    unfolding moveSharkCell_stages using c g False fn mv br
    by (simp add: Let_def case_prod_beta)
  then show ?thesis by blast
qed

section \<open>Starvation\<close>

text \<open>
  Claim C6. For every shark the energy is decremented by one before any other rule, under
  both strategies (\<open>processShark\<close> of the row-partition version, the loop body \<open>moveSharkCell\<close>
  of the message-passing version).

  When the decremented energy is \<open>\<le> 0\<close> the processing of the shark ends there: the only
  change of the state is the decremented energy, so nothing is written to the next grid, no
  move is sent, no neighbour is scanned and no offspring is allocated, whatever the breed
  counter and \<open>sharkBreed\<close> are; the shark is left out of the next grid.

  When the decremented energy is positive, every turn that returns leaves the shark with
  \<open>starveEnergy\<close> if the scan found a neighbouring fish and with the decremented energy
  otherwise; and the turn does return: on a well-formed world for \<open>processShark\<close>, on a
  well-formed current grid with room for two moves in the channel for \<open>moveSharkCell\<close>.

  In the \<open>3 \<times> 3\<close> grid with a single shark of energy \<open>1\<close> and no fish, the grid after one chronon
  holds no shark (and no fish), for every random source, all parameters and every number
  of workers \<open>\<ge> 1\<close>.
\<close>

theorem starving_shark_removed:
  assumes g: "getShark w shark = Some s"
  shows "(int64 (Energy s - 1) \<le> 0 \<longrightarrow>
           processShark rs w shark x y sharkBreed starveEnergy
             = Some (w\<lparr>sharkHeap := (sharkHeap w)[shark := s\<lparr>Energy := int64 (Energy s - 1)\<rparr>]\<rparr>))
       \<and> (int64 (Energy s - 1) \<le> 0 \<and> readCur w x y = Some (SharkPtr shark) \<longrightarrow>
            moveSharkCell rs sharkBreed starveEnergy x y w
              = Some (w\<lparr>sharkHeap := (sharkHeap w)[shark := s\<lparr>Energy := int64 (Energy s - 1)\<rparr>]\<rparr>))
       \<and> (0 < int64 (Energy s - 1) \<and> processShark rs w shark x y sharkBreed starveEnergy = Some w' \<longrightarrow>
            (\<exists>posF. scanFish (current w) x y (Shuffle rs (drawn w) directions) = Some posF
               \<and> map_option Energy (getShark w' shark)
                   = Some (if fst posF \<noteq> -1 \<and> snd posF \<noteq> -1 then starveEnergy
                           else int64 (Energy s - 1))))
       \<and> (0 < int64 (Energy s - 1) \<and> readCur w x y = Some (SharkPtr shark)
            \<and> moveSharkCell rs sharkBreed starveEnergy x y w = Some w'' \<longrightarrow>
            (\<exists>posF. scanFish (current w) x y (Shuffle rs (drawn w) directions) = Some posF
               \<and> map_option Energy (getShark w'' shark)
                   = Some (if fst posF \<noteq> -1 \<and> snd posF \<noteq> -1 then starveEnergy
                           else int64 (Energy s - 1))))
       \<and> (wfWorld w \<and> 0 \<le> x \<and> x < Size (current w) \<and> 0 \<le> y \<and> y < Size (current w) \<longrightarrow>
            processShark rs w shark x y sharkBreed starveEnergy \<noteq> None)
       \<and> (wfGrid (current w) \<and> 0 \<le> x \<and> x < Size (current w) \<and> 0 \<le> y \<and> y < Size (current w)
            \<and> readCur w x y = Some (SharkPtr shark)
            \<and> length (queue (moveChannel w)) + 2 \<le> capacity (moveChannel w) \<longrightarrow>
            moveSharkCell rs sharkBreed starveEnergy x y w \<noteq> None)
       \<and> (1 \<le> threads \<longrightarrow>
            map_option (CountEntities \<circ> current)
             (MoveEntitiesWithThreads rs' loneSharkWorld fishBreed' sharkBreed' starveEnergy' threads)
           = Some (Some (0, 0)))
       \<and> map_option (CountEntities \<circ> current)
             (MoveEntitiesConcurrent rs' loneSharkWorld fishBreed' sharkBreed' starveEnergy')
           = Some (Some (0, 0))"
proof -
  have A: "int64 (Energy s - 1) \<le> 0 \<longrightarrow>
           processShark rs w shark x y sharkBreed starveEnergy
             = Some (w\<lparr>sharkHeap := (sharkHeap w)[shark := s\<lparr>Energy := int64 (Energy s - 1)\<rparr>]\<rparr>)"
    using g by (simp add: processShark_def putShark_def)
  have B: "int64 (Energy s - 1) \<le> 0 \<and> readCur w x y = Some (SharkPtr shark) \<longrightarrow>
            moveSharkCell rs sharkBreed starveEnergy x y w
              = Some (w\<lparr>sharkHeap := (sharkHeap w)[shark := s\<lparr>Energy := int64 (Energy s - 1)\<rparr>]\<rparr>)"
    using g by (simp add: moveSharkCell_def putShark_def)
  have C: "0 < int64 (Energy s - 1) \<and> processShark rs w shark x y sharkBreed starveEnergy = Some w' \<longrightarrow>
            (\<exists>posF. scanFish (current w) x y (Shuffle rs (drawn w) directions) = Some posF
               \<and> map_option Energy (getShark w' shark)
                   = Some (if fst posF \<noteq> -1 \<and> snd posF \<noteq> -1 then starveEnergy
                           else int64 (Energy s - 1)))"
  proof
    assume h: "0 < int64 (Energy s - 1) \<and> processShark rs w shark x y sharkBreed starveEnergy = Some w'"
    then have ne: "\<not> int64 (Energy s - 1) \<le> 0"
      and p: "processShark rs w shark x y sharkBreed starveEnergy = Some w'" by simp_all
    show "\<exists>posF. scanFish (current w) x y (Shuffle rs (drawn w) directions) = Some posF
               \<and> map_option Energy (getShark w' shark)
                   = Some (if fst posF \<noteq> -1 \<and> snd posF \<noteq> -1 then starveEnergy
                           else int64 (Energy s - 1))"
      by (rule processShark_energy[OF p g ne])
  qed
  have D: "0 < int64 (Energy s - 1) \<and> readCur w x y = Some (SharkPtr shark)
            \<and> moveSharkCell rs sharkBreed starveEnergy x y w = Some w'' \<longrightarrow>
            (\<exists>posF. scanFish (current w) x y (Shuffle rs (drawn w) directions) = Some posF
               \<and> map_option Energy (getShark w'' shark)
                   = Some (if fst posF \<noteq> -1 \<and> snd posF \<noteq> -1 then starveEnergy
                           else int64 (Energy s - 1)))"
  proof
    assume h: "0 < int64 (Energy s - 1) \<and> readCur w x y = Some (SharkPtr shark)
            \<and> moveSharkCell rs sharkBreed starveEnergy x y w = Some w''"
    then have ne: "\<not> int64 (Energy s - 1) \<le> 0"
      and p: "moveSharkCell rs sharkBreed starveEnergy x y w = Some w''"
      and c: "readCur w x y = Some (SharkPtr shark)" by simp_all
    show "\<exists>posF. scanFish (current w) x y (Shuffle rs (drawn w) directions) = Some posF
               \<and> map_option Energy (getShark w'' shark)
                   = Some (if fst posF \<noteq> -1 \<and> snd posF \<noteq> -1 then starveEnergy
                           else int64 (Energy s - 1))"
      by (rule moveSharkCell_energy[OF p c g ne])
  qed
  have T1: "wfWorld w \<and> 0 \<le> x \<and> x < Size (current w) \<and> 0 \<le> y \<and> y < Size (current w) \<longrightarrow>
            processShark rs w shark x y sharkBreed starveEnergy \<noteq> None"
  proof
    assume h: "wfWorld w \<and> 0 \<le> x \<and> x < Size (current w) \<and> 0 \<le> y \<and> y < Size (current w)"
    then have wf: "wfWorld w" and xy: "0 \<le> x" "x < Size (current w)" "0 \<le> y" "y < Size (current w)"
      by simp_all
    from processShark_total[OF wf xy g, of rs sharkBreed starveEnergy]
    show "processShark rs w shark x y sharkBreed starveEnergy \<noteq> None" by auto
  qed
  have T2: "wfGrid (current w) \<and> 0 \<le> x \<and> x < Size (current w) \<and> 0 \<le> y \<and> y < Size (current w)
            \<and> readCur w x y = Some (SharkPtr shark)
            \<and> length (queue (moveChannel w)) + 2 \<le> capacity (moveChannel w) \<longrightarrow>
            moveSharkCell rs sharkBreed starveEnergy x y w \<noteq> None"
  proof
    assume h: "wfGrid (current w) \<and> 0 \<le> x \<and> x < Size (current w) \<and> 0 \<le> y \<and> y < Size (current w)
            \<and> readCur w x y = Some (SharkPtr shark)
            \<and> length (queue (moveChannel w)) + 2 \<le> capacity (moveChannel w)"
    then have wf: "wfGrid (current w)"
      and xy: "0 \<le> x" "x < Size (current w)" "0 \<le> y" "y < Size (current w)"
      and c: "readCur w x y = Some (SharkPtr shark)"
      and room: "length (queue (moveChannel w)) + 2 \<le> capacity (moveChannel w)"
      by simp_all
    have N: "1 \<le> Size (current w)" using xy by simp
    from moveSharkCell_total[OF wf N xy c g room, of rs sharkBreed starveEnergy]
    show "moveSharkCell rs sharkBreed starveEnergy x y w \<noteq> None" by auto
  qed
  have E: "1 \<le> threads \<longrightarrow>
            map_option (CountEntities \<circ> current)
             (MoveEntitiesWithThreads rs' loneSharkWorld fishBreed' sharkBreed' starveEnergy' threads)
           = Some (Some (0, 0))"
    by (simp add: MoveEntitiesWithThreads_any loneShark_threads count_empty3)
  have F: "map_option (CountEntities \<circ> current)
             (MoveEntitiesConcurrent rs' loneSharkWorld fishBreed' sharkBreed' starveEnergy')
           = Some (Some (0, 0))"
    by (simp add: loneShark_concurrent count_empty3)
  show ?thesis by (intro conjI A B C D T1 T2 E F)
qed

theorem starving_shark_removed_witness:
  "getShark loneSharkWorld 0 = Some \<lparr>Shark.BreedCounter = 0, Energy = 1\<rparr>
   \<and> int64 (1 - 1) \<le> 0
   \<and> readCur loneSharkWorld 1 1 = Some (SharkPtr 0)
   \<and> processShark zeros loneSharkWorld 0 1 1 0 5
       = Some (loneSharkWorld\<lparr>sharkHeap := [\<lparr>Shark.BreedCounter = 0, Energy = 0\<rparr>]\<rparr>)
   \<and> moveSharkCell zeros 0 5 1 1 loneSharkWorld
       = Some (loneSharkWorld\<lparr>sharkHeap := [\<lparr>Shark.BreedCounter = 0, Energy = 0\<rparr>]\<rparr>)
   \<and> getShark roamingStep 0 = Some \<lparr>Shark.BreedCounter = 0, Energy = 3\<rparr>
   \<and> 0 < int64 (3 - 1)
   \<and> wfWorld roamingStep
   \<and> readCur roamingStep 1 1 = Some (SharkPtr 0)
   \<and> length (queue (moveChannel roamingStep)) + 2 \<le> capacity (moveChannel roamingStep)
   \<and> processShark zeros roamingStep 0 1 1 4 7 \<noteq> None
   \<and> moveSharkCell zeros 4 7 1 1 roamingStep \<noteq> None
   \<and> Option.bind (processShark zeros roamingStep 0 1 1 4 7)
        (\<lambda>w'. map_option Energy (getShark w' 0)) = Some 2
   \<and> Option.bind (moveSharkCell zeros 4 7 1 1 roamingStep)
        (\<lambda>w'. map_option Energy (getShark w' 0)) = Some 2
   \<and> map_option (CountEntities \<circ> current) (MoveEntitiesWithThreads zeros loneSharkWorld 3 3 5 4)
       = Some (Some (0, 0))"
proof -
  have g: "getShark loneSharkWorld 0 = Some \<lparr>Shark.BreedCounter = 0, Energy = 1\<rparr>"
    by (simp add: getShark_def loneSharkWorld_def)
  have e: "int64 (Energy \<lparr>Shark.BreedCounter = 0, Energy = 1\<rparr> - 1) \<le> 0"
    by (simp add: int64_def)
  have c: "readCur loneSharkWorld 1 1 = Some (SharkPtr 0)"
    by (simp add: readCur_def index2_def loneSharkWorld_def)
  note h = starving_shark_removed[OF g, where rs = zeros and x = 1 and y = 1 and sharkBreed = 0
      and starveEnergy = 5 and threads = 4 and rs' = zeros and fishBreed' = 3 and sharkBreed' = 3
      and starveEnergy' = 5]
  have upd: "(sharkHeap loneSharkWorld)
                [0 := \<lparr>Shark.BreedCounter = 0, Energy = 1\<rparr>
                        \<lparr>Energy := int64 (Energy \<lparr>Shark.BreedCounter = 0, Energy = 1\<rparr> - 1)\<rparr>]
             = [\<lparr>Shark.BreedCounter = 0, Energy = 0\<rparr>]"
    by (simp add: loneSharkWorld_def int64_def)
  have p: "processShark zeros loneSharkWorld 0 1 1 0 5
       = Some (loneSharkWorld\<lparr>sharkHeap := [\<lparr>Shark.BreedCounter = 0, Energy = 0\<rparr>]\<rparr>)"
    using h[THEN conjunct1, rule_format, OF e] by (simp only: upd)
  have m: "moveSharkCell zeros 0 5 1 1 loneSharkWorld
       = Some (loneSharkWorld\<lparr>sharkHeap := [\<lparr>Shark.BreedCounter = 0, Energy = 0\<rparr>]\<rparr>)"
    using h[THEN conjunct2, THEN conjunct1, rule_format, OF conjI[OF e c]] by (simp only: upd)
  have one4: "(1::int) \<le> 4" by simp
  have t: "map_option (CountEntities \<circ> current) (MoveEntitiesWithThreads zeros loneSharkWorld 3 3 5 4)
       = Some (Some (0, 0))"
    by (rule h[THEN conjunct2, THEN conjunct2, THEN conjunct2, THEN conjunct2, THEN conjunct2,
          THEN conjunct2, THEN conjunct1, rule_format, OF one4])
  have g2: "getShark roamingStep 0 = Some \<lparr>Shark.BreedCounter = 0, Energy = 3\<rparr>"
    by (simp add: getShark_def roamingStep_def)
  have e2: "0 < int64 (Energy \<lparr>Shark.BreedCounter = 0, Energy = 3\<rparr> - 1)"
    by (simp add: int64_def)
  have wf: "wfWorld roamingStep"
    by (simp add: wfWorld_def wfGrid_def roamingStep_def loneSharkWorld_def)
  have x0: "(0::int) \<le> 1" by simp
  have x1: "1 < Size (current roamingStep)"
    by (simp add: roamingStep_def loneSharkWorld_def)
  have c2: "readCur roamingStep 1 1 = Some (SharkPtr 0)"
    by (simp add: readCur_def index2_def roamingStep_def loneSharkWorld_def)
  have room: "length (queue (moveChannel roamingStep)) + 2 \<le> capacity (moveChannel roamingStep)"
    by (simp add: roamingStep_def)
  have wfc: "wfGrid (current roamingStep)" using wf by (simp add: wfWorld_def)
  note ev = roamingStep_processShark
  note evs = roamingStep_moveSharkCell
  note h2 = starving_shark_removed[OF g2, where rs = zeros and x = 1 and y = 1 and sharkBreed = 4
      and starveEnergy = 7 and threads = 1 and rs' = zeros and fishBreed' = 3 and sharkBreed' = 3
      and starveEnergy' = 5]
  have nn: "processShark zeros roamingStep 0 1 1 4 7 \<noteq> None"
    by (rule h2[THEN conjunct2, THEN conjunct2, THEN conjunct2, THEN conjunct2, THEN conjunct1,
          rule_format, OF conjI[OF wf conjI[OF x0 conjI[OF x1 conjI[OF x0 x1]]]]])
  have nn2: "moveSharkCell zeros 4 7 1 1 roamingStep \<noteq> None"
    by (rule h2[THEN conjunct2, THEN conjunct2, THEN conjunct2, THEN conjunct2, THEN conjunct2,
          THEN conjunct1, rule_format,
          OF conjI[OF wfc conjI[OF x0 conjI[OF x1 conjI[OF x0 conjI[OF x1 conjI[OF c2 room]]]]]]])
  from h2[THEN conjunct2, THEN conjunct2, THEN conjunct1, rule_format, OF conjI[OF e2 ev]]
  obtain posF where sf: "scanFish (current roamingStep) 1 1 (Shuffle zeros (drawn roamingStep) directions) = Some posF"
    and en: "map_option Energy (getShark (roamingStep\<lparr>drawn := 6,
            newGrid := \<lparr>Size = 3, Cells = [[NilEntity, NilEntity, NilEntity],
                                           [NilEntity, NilEntity, NilEntity],
                                           [NilEntity, SharkPtr 0, NilEntity]]\<rparr>,
            sharkHeap := [\<lparr>Shark.BreedCounter = 1, Energy = 2\<rparr>]\<rparr>) 0)
         = Some (if fst posF \<noteq> -1 \<and> snd posF \<noteq> -1 then 7
                 else int64 (Energy \<lparr>Shark.BreedCounter = 0, Energy = 3\<rparr> - 1))"
    by (elim exE conjE)
  have pf: "posF = (-1, -1)" using sf roamingStep_scanFish by simp
  have "map_option Energy (getShark (roamingStep\<lparr>drawn := 6,
            newGrid := \<lparr>Size = 3, Cells = [[NilEntity, NilEntity, NilEntity],
                                           [NilEntity, NilEntity, NilEntity],
                                           [NilEntity, SharkPtr 0, NilEntity]]\<rparr>,
            sharkHeap := [\<lparr>Shark.BreedCounter = 1, Energy = 2\<rparr>]\<rparr>) 0) = Some 2"
    unfolding en pf by (simp add: int64_def)
  then have b: "Option.bind (processShark zeros roamingStep 0 1 1 4 7)
        (\<lambda>w'. map_option Energy (getShark w' 0)) = Some 2"
    unfolding ev by simp
  from h2[THEN conjunct2, THEN conjunct2, THEN conjunct2, THEN conjunct1, rule_format,
          OF conjI[OF e2 conjI[OF c2 evs]]]
  obtain posG where sg: "scanFish (current roamingStep) 1 1 (Shuffle zeros (drawn roamingStep) directions) = Some posG"
    and en2: "map_option Energy (getShark (roamingStep\<lparr>drawn := 6,
            moveChannel := \<lparr>capacity = 9, queue = [\<lparr>X = 2, Y = 1, Entity = SharkPtr 0\<rparr>]\<rparr>,
            sharkHeap := [\<lparr>Shark.BreedCounter = 1, Energy = 2\<rparr>]\<rparr>) 0)
         = Some (if fst posG \<noteq> -1 \<and> snd posG \<noteq> -1 then 7
                 else int64 (Energy \<lparr>Shark.BreedCounter = 0, Energy = 3\<rparr> - 1))"
    by (elim exE conjE)
  have pg: "posG = (-1, -1)" using sg roamingStep_scanFish by simp
  have "map_option Energy (getShark (roamingStep\<lparr>drawn := 6,
            moveChannel := \<lparr>capacity = 9, queue = [\<lparr>X = 2, Y = 1, Entity = SharkPtr 0\<rparr>]\<rparr>,
            sharkHeap := [\<lparr>Shark.BreedCounter = 1, Energy = 2\<rparr>]\<rparr>) 0) = Some 2"
    unfolding en2 pg by (simp add: int64_def)
  then have b2: "Option.bind (moveSharkCell zeros 4 7 1 1 roamingStep)
        (\<lambda>w'. map_option Energy (getShark w' 0)) = Some 2"
    unfolding evs by simp
  have e0: "int64 (1 - 1) \<le> 0" and e3: "0 < int64 (3 - 1)" by (simp_all add: int64_def)
  show ?thesis by (intro conjI g e0 c p m g2 e3 wf c2 room nn nn2 b b2 t)
qed

section \<open>A shark's meal\<close>

text \<open>
  Claim C2, evaluated on the code. In the \<open>3 \<times> 3\<close> scenario (shark at \<open>(0,0)\<close> with energy
  \<open>5\<close>, fish at \<open>(0,1)\<close>, \<open>starveEnergy = 5\<close>, breed ages \<open>3\<close>) the shark is at \<open>(0,1)\<close> with
  energy \<open>5\<close> after one chronon, but the fish count is still \<open>1\<close>: the fish is processed
  from the current grid, where it still is, and moves to the empty cell \<open>(1,1)\<close>.
\<close>

theorem eaten_fish_survives:
  "CountEntities (current exampleWorld) = Some (1, 1)
   \<and> map_option (Cells \<circ> current) (MoveEntitiesWithThreads zeros exampleWorld 3 3 5 1)
     = Some [[NilEntity, SharkPtr 0, NilEntity], [NilEntity, FishPtr 0, NilEntity], [NilEntity, NilEntity, NilEntity]]
   \<and> map_option sharkHeap (MoveEntitiesWithThreads zeros exampleWorld 3 3 5 1)
     = Some [\<lparr>Shark.BreedCounter = 1, Energy = 5\<rparr>]
   \<and> map_option (CountEntities \<circ> current) (MoveEntitiesWithThreads zeros exampleWorld 3 3 5 1)
     = Some (Some (1, 1))
   \<and> map_option (Cells \<circ> current) (MoveEntitiesConcurrent zeros exampleWorld 3 3 5)
     = Some [[NilEntity, SharkPtr 0, NilEntity], [NilEntity, FishPtr 0, NilEntity], [NilEntity, NilEntity, NilEntity]]
   \<and> map_option (CountEntities \<circ> current) (MoveEntitiesConcurrent zeros exampleWorld 3 3 5)
     = Some (Some (1, 1))"
  by (simp add: exampleWorld_threads exampleWorld_concurrent count_after_meal count_exampleWorld)

section \<open>Fish reproduction\<close>

text \<open>
  Claim C3 as stated fails where the parent cannot move: on the full \<open>2 \<times> 2\<close> grid with
  \<open>fishBreed = 1\<close> every fish breeds and none can move; the next grid holds the four
  offspring only (pointers \<open>4\<close> to \<open>7\<close>), the parents (pointers \<open>0\<close> to \<open>3\<close>) are in no
  cell, and the fish count is \<open>4\<close>, not \<open>8\<close>.
\<close>

theorem blocked_parent_is_overwritten:
  "Cells (current crowdedWorld) = [[FishPtr 0, FishPtr 1], [FishPtr 2, FishPtr 3]]
   \<and> length (fishHeap crowdedWorld) = 4
   \<and> CountEntities (current crowdedWorld) = Some (4, 0)
   \<and> map_option (Cells \<circ> current) (MoveEntitiesWithThreads zeros crowdedWorld 1 3 5 1)
       = Some [[FishPtr 4, FishPtr 5], [FishPtr 6, FishPtr 7]]
   \<and> map_option (CountEntities \<circ> current) (MoveEntitiesWithThreads zeros crowdedWorld 1 3 5 1)
       = Some (Some (4, 0))
   \<and> map_option (Cells \<circ> current) (MoveEntitiesConcurrent zeros crowdedWorld 1 3 5)
       = Some [[FishPtr 4, FishPtr 5], [FishPtr 6, FishPtr 7]]
   \<and> map_option (CountEntities \<circ> current) (MoveEntitiesConcurrent zeros crowdedWorld 1 3 5)
       = Some (Some (4, 0))"
  by (simp add: crowdedWorld_threads crowdedWorld_concurrent count_crowded)
     (simp add: crowdedWorld_def)

text \<open>
  Claim C3, amended. The statement is about one uninterrupted run of the fish rule, from
  the state \<open>w\<close> in which the fish's turn starts to the state \<open>w'\<close> in which it ends, with no
  write of another worker in between: the loop body of \<^verbatim>\<open>moveFish\<close> (the message-passing
  version moves all fish in one sequential loop before any goroutine is started) and
  \<^verbatim>\<open>processFish\<close> of the row-partition version run by a single worker, or by any worker
  while the others do not write. When such a run processes a fish whose incremented breed
  counter reaches \<open>fishBreed\<close>, a new fish with breed counter \<open>0\<close> is written to its original
  cell and the parent's breed counter is reset to \<open>0\<close>. If an empty neighbour was found, the
  parent is written to that neighbour, which is another cell, so the next grid \<open>w'\<close> holds
  both. If none was found, the original cell is the only cell of the next grid that is
  written: the offspring replaces the parent there. Nothing is claimed about the next grid
  at the end of the chronon: entities processed later, and with several workers entities
  processed at the same time, may overwrite either cell.
\<close>

theorem breeding_fish_outcome:
  assumes wf: "wfWorld w"
    and xy: "0 \<le> x" "x < Size (current w)" "0 \<le> y" "y < Size (current w)"
    and cell: "readCur w x y = Some (FishPtr fish)"
    and f: "getFish w fish = Some f"
    and breed: "fishBreed \<le> int64 (Fish.BreedCounter f + 1)"
  shows "\<exists>pos w'. findEmptyAdjacent rs w x y = Some (w\<lparr>drawn := drawn w + 3\<rparr>, pos)
      \<and> processFish rs w fish x y fishBreed = Some w'
      \<and> moveFishCell rs fishBreed x y w = Some w'
      \<and> fishHeap w' = (fishHeap w)[fish := \<lparr>Fish.BreedCounter = 0\<rparr>] @ [\<lparr>Fish.BreedCounter = 0\<rparr>]
      \<and> getFish w' fish = Some \<lparr>Fish.BreedCounter = 0\<rparr>
      \<and> getFish w' (length (fishHeap w)) = Some \<lparr>Fish.BreedCounter = 0\<rparr>
      \<and> index2 (Cells (newGrid w')) x y = Some (FishPtr (length (fishHeap w)))
      \<and> (if pos = (-1, -1)
          then (\<forall>i j. (i, j) \<noteq> (x, y) \<longrightarrow>
                  index2 (Cells (newGrid w')) i j = index2 (Cells (newGrid w)) i j)
          else pos \<noteq> (x, y) \<and> readCur w (fst pos) (snd pos) = Some NilEntity
               \<and> index2 (Cells (newGrid w')) (fst pos) (snd pos) = Some (FishPtr fish)
               \<and> (\<forall>i j. (i, j) \<noteq> (x, y) \<and> (i, j) \<noteq> pos \<longrightarrow>
                  index2 (Cells (newGrid w')) i j = index2 (Cells (newGrid w)) i j))"
proof -
  from processFish_effect[OF wf xy f, of rs fishBreed] breed obtain pos cs1 cs2 where
    fe: "findEmptyAdjacent rs w x y = Some (w\<lparr>drawn := drawn w + 3\<rparr>, pos)"
    and pos: "pos = (-1, -1)
           \<or> 0 \<le> fst pos \<and> fst pos < Size (current w) \<and> 0 \<le> snd pos \<and> snd pos < Size (current w)
             \<and> readCur w (fst pos) (snd pos) = Some NilEntity"
    and a1: "assign2 (Cells (newGrid w)) (fst (destination pos x y)) (snd (destination pos x y)) (FishPtr fish)
            = Some cs1"
    and a2: "assign2 cs1 x y (FishPtr (length (fishHeap w))) = Some cs2"
    and pf: "processFish rs w fish x y fishBreed
                     = Some (w\<lparr>drawn := drawn w + 3, newGrid := (newGrid w)\<lparr>Cells := cs2\<rparr>,
                              fishHeap := (fishHeap w)[fish := \<lparr>Fish.BreedCounter = 0\<rparr>]
                                            @ [\<lparr>Fish.BreedCounter = 0\<rparr>]\<rparr>)"
    by auto
  let ?w' = "w\<lparr>drawn := drawn w + 3, newGrid := (newGrid w)\<lparr>Cells := cs2\<rparr>,
                              fishHeap := (fishHeap w)[fish := \<lparr>Fish.BreedCounter = 0\<rparr>]
                                            @ [\<lparr>Fish.BreedCounter = 0\<rparr>]\<rparr>"
  have fl: "fish < length (fishHeap w)" using f by (auto simp: getFish_def split: if_splits)
  have mf: "moveFishCell rs fishBreed x y w = Some ?w'"
    by (simp add: moveFishCell_processFish cell pf)
  have g1: "getFish ?w' fish = Some \<lparr>Fish.BreedCounter = 0\<rparr>"
    using fl by (simp add: getFish_def nth_append)
  have g2: "getFish ?w' (length (fishHeap w)) = Some \<lparr>Fish.BreedCounter = 0\<rparr>"
    by (simp add: getFish_def nth_append)
  have i2: "\<And>i j. index2 cs2 i j = (if i = x \<and> j = y then Some (FishPtr (length (fishHeap w)))
                 else if i = fst (destination pos x y) \<and> j = snd (destination pos x y)
                      then Some (FishPtr fish) else index2 (Cells (newGrid w)) i j)"
    by (simp add: index2_assign2[OF a2] index2_assign2[OF a1])
  have last: "if pos = (-1, -1)
          then (\<forall>i j. (i, j) \<noteq> (x, y) \<longrightarrow>
                  index2 (Cells (newGrid ?w')) i j = index2 (Cells (newGrid w)) i j)
          else pos \<noteq> (x, y) \<and> readCur w (fst pos) (snd pos) = Some NilEntity
               \<and> index2 (Cells (newGrid ?w')) (fst pos) (snd pos) = Some (FishPtr fish)
               \<and> (\<forall>i j. (i, j) \<noteq> (x, y) \<and> (i, j) \<noteq> pos \<longrightarrow>
                  index2 (Cells (newGrid ?w')) i j = index2 (Cells (newGrid w)) i j)"
  proof (cases "pos = (-1, -1)")
    case True
    then show ?thesis by (simp add: i2 destination_def)
  next
    case False
    with pos have r: "0 \<le> fst pos" "0 \<le> snd pos" "readCur w (fst pos) (snd pos) = Some NilEntity"
      by auto
    then have d: "destination pos x y = pos" by (simp add: destination_def)
    have ne: "pos \<noteq> (x, y)" using r(3) cell by auto
    then have ne': "\<not> (fst pos = x \<and> snd pos = y)" by (cases pos) simp
    show ?thesis using False ne r(3) ne' by (auto simp: i2 d)
  qed
  show ?thesis
    apply (rule exI[of _ pos], rule exI[of _ ?w'])
    apply (intro conjI fe pf mf g1 g2 last)
     apply simp
    apply (simp add: i2)
    done
qed

theorem breeding_fish_outcome_witness:
  "wfWorld crowdedStep \<and> readCur crowdedStep 0 1 = Some (FishPtr 1)
   \<and> getFish crowdedStep 1 = Some \<lparr>Fish.BreedCounter = 0\<rparr>
   \<and> (1::int) \<le> int64 (0 + 1)
   \<and> map_option fishHeap (processFish zeros crowdedStep 1 0 1 1)
       = Some (replicate 5 \<lparr>Fish.BreedCounter = 0\<rparr>)
   \<and> map_option (Cells \<circ> newGrid) (processFish zeros crowdedStep 1 0 1 1)
       = Some [[NilEntity, FishPtr 4], [NilEntity, NilEntity]]"
proof -
  have wf: "wfWorld crowdedStep"
    by (simp add: wfWorld_def wfGrid_def crowdedStep_def crowdedWorld_def)
  have c: "readCur crowdedStep 0 1 = Some (FishPtr 1)"
    by (simp add: readCur_def index2_def crowdedStep_def crowdedWorld_def)
  have g: "getFish crowdedStep 1 = Some \<lparr>Fish.BreedCounter = 0\<rparr>"
    by (simp add: getFish_def crowdedStep_def crowdedWorld_def)
  have b: "(1::int) \<le> int64 (Fish.BreedCounter \<lparr>Fish.BreedCounter = 0\<rparr> + 1)"
    by (simp add: int64_def)
  have xy: "(0::int) \<le> 0" "0 < Size (current crowdedStep)" "(0::int) \<le> 1" "1 < Size (current crowdedStep)"
    by (simp_all add: crowdedStep_def crowdedWorld_def)
  from breeding_fish_outcome[OF wf xy c g b, of zeros] obtain pos w' where
    p: "processFish zeros crowdedStep 1 0 1 1 = Some w'"
    and h: "fishHeap w' = (fishHeap crowdedStep)[1 := \<lparr>Fish.BreedCounter = 0\<rparr>] @ [\<lparr>Fish.BreedCounter = 0\<rparr>]"
    by blast
  have e: "map_option (Cells \<circ> newGrid) (processFish zeros crowdedStep 1 0 1 1)
       = Some [[NilEntity, FishPtr 4], [NilEntity, NilEntity]]"
    by code_simp
  have hh: "map_option fishHeap (processFish zeros crowdedStep 1 0 1 1)
       = Some (replicate 5 \<lparr>Fish.BreedCounter = 0\<rparr>)"
    unfolding p using h by (simp add: crowdedStep_def crowdedWorld_def numeral_eq_Suc)
  show ?thesis using wf c g hh e by (simp add: int64_def)
qed

section \<open>Entity counts over one chronon\<close>

text \<open>
  Claim C4 as stated fails: with three fish around the one empty cell of a \<open>2 \<times> 2\<close> grid
  and a single worker, two fish move to the same cell and the later one replaces the
  earlier one. No fish reproduces (the heaps do not grow) and there is no shark, yet the
  count drops from \<open>3\<close> to \<open>2\<close>, under both strategies.
\<close>

theorem single_worker_loses_fish:
  "CountEntities (current threeFishWorld) = Some (3, 0)
   \<and> length (fishHeap threeFishWorld) = 3 \<and> length (sharkHeap threeFishWorld) = 0
   \<and> map_option (CountEntities \<circ> current) (MoveEntitiesWithThreads zeros threeFishWorld 10 3 5 1)
       = Some (Some (2, 0))
   \<and> map_option (length \<circ> fishHeap) (MoveEntitiesWithThreads zeros threeFishWorld 10 3 5 1) = Some 3
   \<and> map_option (length \<circ> sharkHeap) (MoveEntitiesWithThreads zeros threeFishWorld 10 3 5 1) = Some 0
   \<and> map_option (CountEntities \<circ> current) (MoveEntitiesConcurrent zeros threeFishWorld 10 3 5)
       = Some (Some (2, 0))
   \<and> map_option (length \<circ> fishHeap) (MoveEntitiesConcurrent zeros threeFishWorld 10 3 5) = Some 3
   \<and> map_option (length \<circ> sharkHeap) (MoveEntitiesConcurrent zeros threeFishWorld 10 3 5) = Some 0"
  by (simp add: threeFishWorld_threads threeFishWorld_concurrent count_threeFish del: One_nat_def)
     (simp add: threeFishWorld_def)

section \<open>The two strategies compared\<close>







lemma upto_bounds: "i \<in> set [0..n - 1] \<Longrightarrow> 0 \<le> i \<and> i < n"
  by simp







section \<open>Initial placement\<close>

lemma init_example:
  "Initialise counting (emptyWorld 3) 1 1 =
     Some (Some \<lparr>current = \<lparr>Size = 3, Cells = [[NilEntity, FishPtr 0, NilEntity],
                                               [NilEntity, NilEntity, NilEntity],
                                               [SharkPtr 0, NilEntity, NilEntity]]\<rparr>,
      newGrid = \<lparr>Size = 0, Cells = []\<rparr>, fishHeap = [\<lparr>Fish.BreedCounter = 0\<rparr>],
      sharkHeap = [\<lparr>Shark.BreedCounter = 0, Energy = 4\<rparr>],
      moveChannel = \<lparr>capacity = 0, queue = []\<rparr>, drawn = 4\<rparr>)"
  by code_simp


lemma placed_drawn: "placed (w\<lparr>drawn := d\<rparr>) e w' \<Longrightarrow> placed w e w'"
  unfolding placed_def by fastforce

lemma addEntity_effect:
  assumes "addEntity rs w e = Some r"
  shows "\<forall>w'. r = Some w' \<longrightarrow> placed w e w'"
proof (rule addEntity.raw_induct[where P = "\<lambda>rs w e r. \<forall>w'. r = Some w' \<longrightarrow> placed w e w'", OF _ assms])
  fix f rs w e r
  assume IH: "\<And>rs w e r. f rs w e = Some r \<Longrightarrow> \<forall>w'. r = Some w' \<longrightarrow> placed w e w'"
    and body: "(case Intn rs (drawn w) (Size (current w)) of
        None \<Rightarrow> Some None
      | Some x \<Rightarrow>
         (case Intn rs (drawn w + 1) (Size (current w)) of
            None \<Rightarrow> Some None
          | Some y \<Rightarrow>
             (case readCur w x y of
                None \<Rightarrow> Some None
              | Some c \<Rightarrow>
                  if c = NilEntity then Some (writeCur (w\<lparr>drawn := drawn w + 2\<rparr>) x y e)
                  else f rs (w\<lparr>drawn := drawn w + 2\<rparr>) e))) = Some r"
  show "\<forall>w'. r = Some w' \<longrightarrow> placed w e w'"
  proof (intro allI impI)
    fix w' assume r: "r = Some w'"
    from body obtain x y c where c: "readCur w x y = Some c"
      and rest: "(if c = NilEntity then Some (writeCur (w\<lparr>drawn := drawn w + 2\<rparr>) x y e)
                  else f rs (w\<lparr>drawn := drawn w + 2\<rparr>) e) = Some r"
      using r by (auto split: option.splits)
    show "placed w e w'"
    proof (cases "c = NilEntity")
      case True
      with rest r have "writeCur (w\<lparr>drawn := drawn w + 2\<rparr>) x y e = Some w'" by simp
      then obtain cs where cs: "assign2 (Cells (current w)) x y e = Some cs"
        and w': "w' = w\<lparr>drawn := drawn w + 2, current := (current w)\<lparr>Cells := cs\<rparr>\<rparr>"
        by (auto simp: writeCur_def Option.bind_eq_Some_conv)
      show ?thesis unfolding placed_def
        apply (rule exI[of _ x], rule exI[of _ y], rule exI[of _ cs], rule exI[of _ "drawn w + 2"])
        using c True cs w' by (simp add: readCur_def)
    next
      case False
      with rest have "f rs (w\<lparr>drawn := drawn w + 2\<rparr>) e = Some r" by simp
      from IH[OF this] r have "placed (w\<lparr>drawn := drawn w + 2\<rparr>) e w'" by simp
      then show ?thesis by (rule placed_drawn)
    qed
  qed
qed


lemma placed_readCur:
  assumes "placed w e w'" and "readCur w' x y = Some c"
  shows "readCur w x y = Some c \<or> c = e"
proof -
  from assms(1) obtain i j cs k where a: "assign2 (Cells (current w)) i j e = Some cs"
    and w': "w' = w\<lparr>drawn := k, current := (current w)\<lparr>Cells := cs\<rparr>\<rparr>"
    unfolding placed_def by blast
  from assms(2) have "index2 cs x y = Some c" by (simp add: readCur_def w')
  then show ?thesis unfolding readCur_def index2_assign2[OF a] by (simp split: if_splits)
qed

lemma placed_heaps: "placed w e w' \<Longrightarrow> fishHeap w' = fishHeap w \<and> sharkHeap w' = sharkHeap w"
  unfolding placed_def by auto

lemma addFish_effect:
  assumes "addFish rs w = Some (Some w')"
  shows "fishHeap w' = fishHeap w @ [\<lparr>Fish.BreedCounter = 0\<rparr>]" "sharkHeap w' = sharkHeap w"
    "readCur w' x y = Some c \<Longrightarrow> readCur w x y = Some c \<or> c = FishPtr (length (fishHeap w))"
proof -
  let ?w1 = "w\<lparr>fishHeap := fishHeap w @ [\<lparr>Fish.BreedCounter = 0\<rparr>]\<rparr>"
  from assms have "addEntity rs ?w1 (FishPtr (length (fishHeap w))) = Some (Some w')"
    by (simp add: addFish_def allocFish_def)
  from addEntity_effect[OF this] have p: "placed ?w1 (FishPtr (length (fishHeap w))) w'" by simp
  from placed_heaps[OF p] show "fishHeap w' = fishHeap w @ [\<lparr>Fish.BreedCounter = 0\<rparr>]"
    "sharkHeap w' = sharkHeap w" by simp_all
  assume "readCur w' x y = Some c"
  from placed_readCur[OF p this]
  show "readCur w x y = Some c \<or> c = FishPtr (length (fishHeap w))" by (simp add: readCur_def)
qed

lemma addShark_effect:
  assumes "addShark rs w = Some (Some w')"
  shows "sharkHeap w' = sharkHeap w @ [\<lparr>Shark.BreedCounter = 0, Energy = 4\<rparr>]" "fishHeap w' = fishHeap w"
    "readCur w' x y = Some c \<Longrightarrow> readCur w x y = Some c \<or> c = SharkPtr (length (sharkHeap w))"
proof -
  let ?w1 = "w\<lparr>sharkHeap := sharkHeap w @ [\<lparr>Shark.BreedCounter = 0, Energy = 4\<rparr>]\<rparr>"
  from assms have "addEntity rs ?w1 (SharkPtr (length (sharkHeap w))) = Some (Some w')"
    by (simp add: addShark_def allocShark_def)
  from addEntity_effect[OF this] have p: "placed ?w1 (SharkPtr (length (sharkHeap w))) w'" by simp
  from placed_heaps[OF p] show "sharkHeap w' = sharkHeap w @ [\<lparr>Shark.BreedCounter = 0, Energy = 4\<rparr>]"
    "fishHeap w' = fishHeap w" by simp_all
  assume "readCur w' x y = Some c"
  from placed_readCur[OF p this]
  show "readCur w x y = Some c \<or> c = SharkPtr (length (sharkHeap w))" by (simp add: readCur_def)
qed

lemma times_addFish:
  "times n (addFish rs) w = Some (Some w') \<Longrightarrow>
     fishHeap w' = fishHeap w @ replicate n \<lparr>Fish.BreedCounter = 0\<rparr> \<and> sharkHeap w' = sharkHeap w
     \<and> (\<forall>x y c. readCur w' x y = Some c \<longrightarrow> readCur w x y = Some c
            \<or> (\<exists>p. c = FishPtr p \<and> length (fishHeap w) \<le> p \<and> p < length (fishHeap w) + n))"
proof (induction n arbitrary: w)
  case 0
  then show ?case by simp
next
  case (Suc n)
  then obtain w1 where a: "addFish rs w = Some (Some w1)" and r: "times n (addFish rs) w1 = Some (Some w')"
    by (auto split: option.splits)
  note e = addFish_effect[OF a]
  note ih = Suc.IH[OF r]
  have h: "fishHeap w' = fishHeap w @ replicate (Suc n) \<lparr>Fish.BreedCounter = 0\<rparr>"
    using ih e(1) by (simp add: replicate_app_Cons_same)
  have s: "sharkHeap w' = sharkHeap w" using ih e(2) by simp
  have c: "\<forall>x y c. readCur w' x y = Some c \<longrightarrow> readCur w x y = Some c
            \<or> (\<exists>p. c = FishPtr p \<and> length (fishHeap w) \<le> p \<and> p < length (fishHeap w) + Suc n)"
  proof (intro allI impI)
    fix x y c assume "readCur w' x y = Some c"
    with ih have "readCur w1 x y = Some c
            \<or> (\<exists>p. c = FishPtr p \<and> length (fishHeap w1) \<le> p \<and> p < length (fishHeap w1) + n)"
      by blast
    then show "readCur w x y = Some c
            \<or> (\<exists>p. c = FishPtr p \<and> length (fishHeap w) \<le> p \<and> p < length (fishHeap w) + Suc n)"
      using e(3)[of x y c] e(1) by auto
  qed
  show ?case using h s c by blast
qed

lemma times_addShark:
  "times n (addShark rs) w = Some (Some w') \<Longrightarrow>
     sharkHeap w' = sharkHeap w @ replicate n \<lparr>Shark.BreedCounter = 0, Energy = 4\<rparr> \<and> fishHeap w' = fishHeap w
     \<and> (\<forall>x y c. readCur w' x y = Some c \<longrightarrow> readCur w x y = Some c
            \<or> (\<exists>p. c = SharkPtr p \<and> length (sharkHeap w) \<le> p \<and> p < length (sharkHeap w) + n))"
proof (induction n arbitrary: w)
  case 0
  then show ?case by simp
next
  case (Suc n)
  then obtain w1 where a: "addShark rs w = Some (Some w1)" and r: "times n (addShark rs) w1 = Some (Some w')"
    by (auto split: option.splits)
  note e = addShark_effect[OF a]
  note ih = Suc.IH[OF r]
  have h: "sharkHeap w' = sharkHeap w @ replicate (Suc n) \<lparr>Shark.BreedCounter = 0, Energy = 4\<rparr>"
    using ih e(1) by (simp add: replicate_app_Cons_same)
  have s: "fishHeap w' = fishHeap w" using ih e(2) by simp
  have c: "\<forall>x y c. readCur w' x y = Some c \<longrightarrow> readCur w x y = Some c
            \<or> (\<exists>p. c = SharkPtr p \<and> length (sharkHeap w) \<le> p \<and> p < length (sharkHeap w) + Suc n)"
  proof (intro allI impI)
    fix x y c assume "readCur w' x y = Some c"
    with ih have "readCur w1 x y = Some c
            \<or> (\<exists>p. c = SharkPtr p \<and> length (sharkHeap w1) \<le> p \<and> p < length (sharkHeap w1) + n)"
      by blast
    then show "readCur w x y = Some c
            \<or> (\<exists>p. c = SharkPtr p \<and> length (sharkHeap w) \<le> p \<and> p < length (sharkHeap w) + Suc n)"
      using e(3)[of x y c] e(1) by auto
  qed
  show ?case using h s c by blast
qed

text \<open>
  Claim C10. Whenever \<^verbatim>\<open>Initialise(numFish, numSharks)\<close> returns, the entities it created
  are \<open>numFish\<close> fish with breed counter \<open>0\<close> and \<open>numSharks\<close> sharks with breed counter \<open>0\<close>
  and energy \<open>4\<close>, and every cell of the grid whose content changed holds a pointer to
  one of them. \<^verbatim>\<open>Initialise\<close> has no \<open>starveEnergy\<close> parameter: the energy \<open>4\<close> is a
  literal of the source. (That it returns at all is shown on the witness's input.)
\<close>

theorem Initialise_entities:
  assumes "Initialise rs w numFish numSharks = Some (Some w')"
  shows "fishHeap w' = fishHeap w @ replicate (nat numFish) \<lparr>Fish.BreedCounter = 0\<rparr>
       \<and> sharkHeap w' = sharkHeap w @ replicate (nat numSharks) \<lparr>Shark.BreedCounter = 0, Energy = 4\<rparr>
       \<and> (\<forall>x y c. readCur w' x y = Some c \<and> readCur w x y \<noteq> Some c \<longrightarrow>
             (\<exists>p. c = FishPtr p \<and> length (fishHeap w) \<le> p
                  \<and> getFish w' p = Some \<lparr>Fish.BreedCounter = 0\<rparr>)
           \<or> (\<exists>p. c = SharkPtr p \<and> length (sharkHeap w) \<le> p
                  \<and> getShark w' p = Some \<lparr>Shark.BreedCounter = 0, Energy = 4\<rparr>))"
proof -
  from assms obtain w1 where a: "times (nat numFish) (addFish rs) w = Some (Some w1)"
    and b: "times (nat numSharks) (addShark rs) w1 = Some (Some w')"
    by (auto simp: Initialise_def split: option.splits)
  note f = times_addFish[OF a]
  note s = times_addShark[OF b]
  have fh: "fishHeap w' = fishHeap w @ replicate (nat numFish) \<lparr>Fish.BreedCounter = 0\<rparr>"
    using f s by simp
  have sh: "sharkHeap w' = sharkHeap w @ replicate (nat numSharks) \<lparr>Shark.BreedCounter = 0, Energy = 4\<rparr>"
    using f s by simp
  have cells: "\<forall>x y c. readCur w' x y = Some c \<and> readCur w x y \<noteq> Some c \<longrightarrow>
             (\<exists>p. c = FishPtr p \<and> length (fishHeap w) \<le> p
                  \<and> getFish w' p = Some \<lparr>Fish.BreedCounter = 0\<rparr>)
           \<or> (\<exists>p. c = SharkPtr p \<and> length (sharkHeap w) \<le> p
                  \<and> getShark w' p = Some \<lparr>Shark.BreedCounter = 0, Energy = 4\<rparr>)"
  proof (intro allI impI)
    fix x y c assume h: "readCur w' x y = Some c \<and> readCur w x y \<noteq> Some c"
    with s have "readCur w1 x y = Some c
       \<or> (\<exists>p. c = SharkPtr p \<and> length (sharkHeap w1) \<le> p \<and> p < length (sharkHeap w1) + nat numSharks)"
      by blast
    then show "(\<exists>p. c = FishPtr p \<and> length (fishHeap w) \<le> p
                  \<and> getFish w' p = Some \<lparr>Fish.BreedCounter = 0\<rparr>)
           \<or> (\<exists>p. c = SharkPtr p \<and> length (sharkHeap w) \<le> p
                  \<and> getShark w' p = Some \<lparr>Shark.BreedCounter = 0, Energy = 4\<rparr>)"
    proof
      assume "readCur w1 x y = Some c"
      with f h obtain p where "c = FishPtr p" "length (fishHeap w) \<le> p" "p < length (fishHeap w) + nat numFish"
        by blast
      then show ?thesis by (auto simp: getFish_def fh nth_append)
    next
      assume "\<exists>p. c = SharkPtr p \<and> length (sharkHeap w1) \<le> p \<and> p < length (sharkHeap w1) + nat numSharks"
      then obtain p where "c = SharkPtr p" "length (sharkHeap w) \<le> p" "p < length (sharkHeap w) + nat numSharks"
        using f by auto
      then show ?thesis by (auto simp: getShark_def sh nth_append)
    qed
  qed
  show ?thesis by (intro conjI fh sh cells)
qed

theorem Initialise_entities_witness:
  "Initialise counting (emptyWorld 3) 1 1 \<noteq> None
   \<and> Initialise counting (emptyWorld 3) 1 1 \<noteq> Some None
   \<and> map_option (map_option fishHeap) (Initialise counting (emptyWorld 3) 1 1)
       = Some (Some [\<lparr>Fish.BreedCounter = 0\<rparr>])
   \<and> map_option (map_option sharkHeap) (Initialise counting (emptyWorld 3) 1 1)
       = Some (Some [\<lparr>Shark.BreedCounter = 0, Energy = 4\<rparr>])"
proof -
  obtain w' where i: "Initialise counting (emptyWorld 3) 1 1 = Some (Some w')"
    by (simp add: init_example)
  from Initialise_entities[OF i]
  have "fishHeap w' = [\<lparr>Fish.BreedCounter = 0\<rparr>]"
    "sharkHeap w' = [\<lparr>Shark.BreedCounter = 0, Energy = 4\<rparr>]"
    by (simp_all add: emptyWorld_def)
  then show ?thesis by (simp add: i)
qed

section \<open>Configuration handling\<close>

lemma simulate_not_usage: "simulate rs initialize cfg \<noteq> Some UsageExit"
  by (auto simp: simulate_def split: prod.splits option.splits)

text \<open>
  Claim C8 as stated fails: seven arguments with \<open>fishBreed = 0\<close>, \<open>sharkBreed = -1\<close> and
  \<open>starveEnergy = 0\<close> are parsed and used as they are; the run of \<open>50\<close> chronons takes place
  and ends with its final summary (one fish on the \<open>1 \<times> 1\<close> grid).
\<close>

theorem invalid_configuration_runs:
  "parseArgs invalidArgs = Some (0, 1, 0, - 1, 0, 1, 1)
   \<and> finalCounts (main counting Initialise invalidArgs) = Some (1, 0)"
  by code_simp

text \<open>
  Claim C8, amended. \<^verbatim>\<open>main\<close> rejects a configuration (usage message, no grid built, no
  chronon run) exactly when the number of command-line arguments is neither \<open>0\<close> nor \<open>7\<close>.
  With seven arguments it runs the simulation on the values \<^verbatim>\<open>Atoi\<close> returns, whatever they
  are; with none, on the defaults.
\<close>

theorem main_checks_argument_count_only:
  "(main rs initialize args = Some UsageExit) = (length args \<noteq> 8 \<and> length args \<noteq> 1)
   \<and> (length args = 8 \<longrightarrow>
        main rs initialize args =
          simulate rs initialize (Atoi (args ! 1), Atoi (args ! 2), Atoi (args ! 3), Atoi (args ! 4),
                                  Atoi (args ! 5), Atoi (args ! 6), Atoi (args ! 7)))
   \<and> (length args = 1 \<longrightarrow> main rs initialize args = simulate rs initialize (100, 100, 3, 3, 4, 100, 10))"
  by (simp add: main_def parseArgs_def simulate_not_usage)

theorem main_checks_argument_count_only_witness:
  "length invalidArgs = 8
   \<and> main counting Initialise invalidArgs = simulate counting Initialise (0, 1, 0, - 1, 0, 1, 1)
   \<and> main counting Initialise [''main'', ''5'', ''5''] = Some UsageExit"
proof -
  have l: "length invalidArgs = 8" by (simp add: invalidArgs_def)
  have a: "(Atoi (invalidArgs ! 1), Atoi (invalidArgs ! 2), Atoi (invalidArgs ! 3), Atoi (invalidArgs ! 4),
            Atoi (invalidArgs ! 5), Atoi (invalidArgs ! 6), Atoi (invalidArgs ! 7)) = (0, 1, 0, - 1, 0, 1, 1)"
    by code_simp
  have m: "main counting Initialise invalidArgs = simulate counting Initialise (0, 1, 0, - 1, 0, 1, 1)"
    using main_checks_argument_count_only[of counting Initialise invalidArgs] l a by simp
  have u: "main counting Initialise [''main'', ''5'', ''5''] = Some UsageExit"
    using main_checks_argument_count_only[of counting Initialise "[''main'', ''5'', ''5'']"] by simp
  show ?thesis by (intro conjI l m u)
qed

end
